theory Spec2Isabelle
  imports Main "HOL-Library.Word" "HOL-Library.Sublist"
begin

section \<open>JavaScript strings\<close>

text \<open>
  The three programs of the repository are \<^verbatim>\<open>src/index.ts\<close> (the nodemailer version),
  \<^verbatim>\<open>check-delay.ts\<close> (the Resend version run by the scheduled workflow; lines 1-304 of the
  second source part) and the Cloudflare Workers version (lines 306-498 of the same part,
  called the worker below).

  A JavaScript string is a sequence of UTF-16 code units, and \<^verbatim>\<open>length\<close>,
  \<^verbatim>\<open>includes\<close>, \<^verbatim>\<open>substring\<close> and regular expressions without the
  \<^verbatim>\<open>u\<close> flag all work on code units. The Japanese keywords are outside the
  eight-bit \<^typ>\<open>char\<close>, so a string is a list of 16-bit words; \<open>u16\<close> embeds an ASCII
  literal.
\<close>

type_synonym jschar = "16 word"
type_synonym jsstring = "jschar list"

definition u16 :: "string \<Rightarrow> jsstring" where
  "u16 s = map (\<lambda>c. of_nat (of_char c)) s"

text \<open>\<^verbatim>\<open>s.includes(k)\<close>: \<open>k\<close> occurs in \<open>s\<close> as a contiguous run (the empty string always does).\<close>

fun js_includes :: "jsstring \<Rightarrow> jsstring \<Rightarrow> bool" where
  "js_includes [] k = (k = [])"
| "js_includes (c # cs) k = (prefix k (c # cs) \<or> js_includes cs k)"

text \<open>\<^verbatim>\<open>xs.join(sep)\<close>.\<close>

fun js_join :: "jsstring \<Rightarrow> jsstring list \<Rightarrow> jsstring" where
  "js_join sep [] = []"
| "js_join sep [x] = x"
| "js_join sep (x # y # ys) = x @ sep @ js_join sep (y # ys)"

text \<open>\<^verbatim>\<open>a || b\<close> on strings: the empty string is falsy.\<close>

definition js_or :: "jsstring \<Rightarrow> jsstring \<Rightarrow> jsstring" where
  "js_or a b = (if a = [] then b else a)"

text \<open>
  \<^verbatim>\<open>process.env.X || d\<close> and \<^verbatim>\<open>!process.env.X\<close>: a variable is a string or
  \<^verbatim>\<open>undefined\<close> (\<open>None\<close>), and both \<^verbatim>\<open>undefined\<close> and the empty string are falsy.
\<close>

definition env_or :: "jsstring option \<Rightarrow> jsstring \<Rightarrow> jsstring" where
  "env_or v d = (case v of None \<Rightarrow> d | Some s \<Rightarrow> if s = [] then d else s)"

definition falsy :: "jsstring option \<Rightarrow> bool" where
  "falsy v = (case v of None \<Rightarrow> True | Some s \<Rightarrow> s = [])"

text \<open>The character classes of ECMAScript: \<^verbatim>\<open>\d\<close>, \<^verbatim>\<open>\s\<close> (white space and line
  terminators, also what \<^verbatim>\<open>trim()\<close> strips) and \<^verbatim>\<open>.\<close> (anything but a line terminator).\<close>

definition is_digit :: "jschar \<Rightarrow> bool" where
  "is_digit c = (0x30 \<le> c \<and> c \<le> 0x39)"

definition is_space :: "jschar \<Rightarrow> bool" where
  "is_space c =
     (c \<in> set [0x09, 0x0A, 0x0B, 0x0C, 0x0D, 0x20, 0xA0, 0x1680, 0x2028, 0x2029, 0x202F,
                0x205F, 0x3000, 0xFEFF]
      \<or> (0x2000 \<le> c \<and> c \<le> 0x200A))"

definition is_dot :: "jschar \<Rightarrow> bool" where
  "is_dot c = (c \<notin> set [0x0A, 0x0D, 0x2028, 0x2029])"

definition js_trim :: "jsstring \<Rightarrow> jsstring" where
  "js_trim s = rev (dropWhile is_space (rev (dropWhile is_space s)))"

text \<open>A number in a template literal: the decimal digits of a non-negative integer.\<close>

fun js_num :: "nat \<Rightarrow> jsstring" where
  "js_num n =
     (if n < 10 then [of_nat (48 + n)]
      else js_num (n div 10) @ [of_nat (48 + n mod 10)])"

subsection \<open>Regular expressions\<close>

text \<open>
  The regular expressions of the source are built from literals, character classes,
  \<^verbatim>\<open>$\<close>, sequence, alternation, and \<^verbatim>\<open>*\<close> and \<^verbatim>\<open>*?\<close> on a character class
  (\<^verbatim>\<open>c+\<close> is \<^verbatim>\<open>cc*\<close>, \<^verbatim>\<open>c{2,}\<close> is \<^verbatim>\<open>ccc*\<close>). \<open>rx_ends r s\<close> lists the
  rest of the input after every way of matching \<open>r\<close> at the front of \<open>s\<close>, in the order
  in which a backtracking matcher tries them: an earlier alternative first, the shorter
  run first for a lazy star, the longer run first for a greedy one.
\<close>

datatype rx =
    Lit jsstring
  | Cls "jschar \<Rightarrow> bool"
  | Eos
  | Seq rx rx
  | Alt rx rx
  | StarLazy "jschar \<Rightarrow> bool"
  | StarGreedy "jschar \<Rightarrow> bool"

fun lazy_run :: "(jschar \<Rightarrow> bool) \<Rightarrow> jsstring \<Rightarrow> jsstring list" where
  "lazy_run p [] = [[]]"
| "lazy_run p (c # cs) = (c # cs) # (if p c then lazy_run p cs else [])"

fun rx_ends :: "rx \<Rightarrow> jsstring \<Rightarrow> jsstring list" where
  "rx_ends (Lit k) s = (if prefix k s then [drop (length k) s] else [])"
| "rx_ends (Cls p) s = (case s of [] \<Rightarrow> [] | c # cs \<Rightarrow> if p c then [cs] else [])"
| "rx_ends Eos s = (if s = [] then [[]] else [])"
| "rx_ends (Seq a b) s = concat (map (rx_ends b) (rx_ends a s))"
| "rx_ends (Alt a b) s = rx_ends a s @ rx_ends b s"
| "rx_ends (StarLazy p) s = lazy_run p s"
| "rx_ends (StarGreedy p) s = rev (lazy_run p s)"

text \<open>An alternation of literals, \<^verbatim>\<open>k1|k2|...\<close>.\<close>

fun rx_alts :: "jsstring list \<Rightarrow> rx" where
  "rx_alts [] = Lit []"
| "rx_alts [k] = Lit k"
| "rx_alts (k # ks) = Alt (Lit k) (rx_alts ks)"

text \<open>\<^verbatim>\<open>/r/.test(s)\<close>: some position of \<open>s\<close> (the end included) starts a match.\<close>

fun js_test :: "rx \<Rightarrow> jsstring \<Rightarrow> bool" where
  "js_test r [] = (rx_ends r [] \<noteq> [])"
| "js_test r (c # cs) = (rx_ends r (c # cs) \<noteq> [] \<or> js_test r cs)"

text \<open>
  \<^verbatim>\<open>s.match(/(g)t/)\<close>, read at index 1: the text of the group \<open>g\<close> in the first match,
  or \<open>None\<close> when \<^verbatim>\<open>match\<close> returns \<^verbatim>\<open>null\<close>. At one start position the first way of
  matching \<open>g\<close> after which \<open>t\<close> matches is taken; the start positions are tried from the
  left.
\<close>

definition rx_group1 :: "rx \<Rightarrow> rx \<Rightarrow> jsstring \<Rightarrow> jsstring option" where
  "rx_group1 g t s =
     (case find (\<lambda>e. rx_ends t e \<noteq> []) (rx_ends g s) of
        None \<Rightarrow> None
      | Some e \<Rightarrow> Some (take (length s - length e) s))"

fun js_match1 :: "rx \<Rightarrow> rx \<Rightarrow> jsstring \<Rightarrow> jsstring option" where
  "js_match1 g t [] = rx_group1 g t []"
| "js_match1 g t (c # cs) =
     (case rx_group1 g t (c # cs) of Some m \<Rightarrow> Some m | None \<Rightarrow> js_match1 g t cs)"

text \<open>
  \<^verbatim>\<open>s.replace(/r/g, rep)\<close>: from the left, every match is replaced and the scan goes on
  after it; a character that starts no match is copied.
\<close>

function js_replace_all :: "rx \<Rightarrow> jsstring \<Rightarrow> jsstring \<Rightarrow> jsstring" where
  "js_replace_all r rep [] = (if rx_ends r [] \<noteq> [] then rep else [])"
| "js_replace_all r rep (c # cs) =
     (case rx_ends r (c # cs) of
        [] \<Rightarrow> c # js_replace_all r rep cs
      | e # _ \<Rightarrow>
          if length e < length (c # cs) then rep @ js_replace_all r rep e
          else rep @ c # js_replace_all r rep cs)"
  by pat_completeness auto
termination
  by (relation "measure (\<lambda>(r, rep, s). length s)") auto

section \<open>String constants of the source\<close>

(* index.ts:77: chien (delay); 2 code units *)
definition kw_chien :: jsstring where
  "kw_chien =
     [0x9045, 0x5EF6]"

(* index.ts:77: okure (running late); 2 code units *)
definition kw_okure :: jsstring where
  "kw_okure =
     [0x9045, 0x308C]"

(* index.ts:77: unten-miawa[se] (service held); 4 code units *)
definition kw_unten_miawa :: jsstring where
  "kw_unten_miawa =
     [0x904B, 0x8EE2, 0x898B, 0x5408]"

(* index.ts:77: unkyu (service cancelled); 2 code units *)
definition kw_unkyu :: jsstring where
  "kw_unkyu =
     [0x904B, 0x4F11]"

(* index.ts:77: unten-toriyame (service withdrawn); 6 code units *)
definition kw_unten_toriyame :: jsstring where
  "kw_unten_toriyame =
     [0x904B, 0x8EE2, 0x53D6, 0x308A, 0x3084, 0x3081]"

(* index.ts:77: orikaeshi-unten (turn-back operation); 5 code units *)
definition kw_orikaeshi_unten :: jsstring where
  "kw_orikaeshi_unten =
     [0x6298, 0x8FD4, 0x3057, 0x904B, 0x8EE2]"

(* index.ts:153: chokutsu-unten-chushi (through service stopped); 6 code units *)
definition kw_chokutsu_chushi :: jsstring where
  "kw_chokutsu_chushi =
     [0x76F4, 0x901A, 0x904B, 0x8EE2, 0x4E2D, 0x6B62]"

(* index.ts:86: miawa (the two characters of 'held'); 2 code units *)
definition kw_miawa :: jsstring where
  "kw_miawa =
     [0x898B, 0x5408]"

(* index.ts:78: heijo-unten (normal operation); 4 code units *)
definition kw_heijo_unten :: jsstring where
  "kw_heijo_unten =
     [0x5E73, 0x5E38, 0x904B, 0x8EE2]"

(* index.ts:78: heijo-doori (as normal, kana); 5 code units *)
definition kw_heijo_doori :: jsstring where
  "kw_heijo_doori =
     [0x5E73, 0x5E38, 0x3069, 0x304A, 0x308A]"

(* index.ts:154: tsujo-unko (usual service); 4 code units *)
definition kw_tsujo_unko :: jsstring where
  "kw_tsujo_unko =
     [0x901A, 0x5E38, 0x904B, 0x884C]"

(* check-delay.ts:63: tsujo-unten (usual operation); 4 code units *)
definition kw_tsujo_unten :: jsstring where
  "kw_tsujo_unten =
     [0x901A, 0x5E38, 0x904B, 0x8EE2]"

(* check-delay.ts:116: daiya-midare (timetable disrupted); 5 code units *)
definition kw_daiya_midare :: jsstring where
  "kw_daiya_midare =
     [0x30C0, 0x30A4, 0x30E4, 0x4E71, 0x308C]"

(* check-delay.ts:117: heijo-doori (as normal, kanji); 4 code units *)
definition kw_heijo_doori_kanji :: jsstring where
  "kw_heijo_doori_kanji =
     [0x5E73, 0x5E38, 0x901A, 0x308A]"

(* check-delay.ts:117: tsujo-doori (as usual); 5 code units *)
definition kw_tsujo_doori :: jsstring where
  "kw_tsujo_doori =
     [0x901A, 0x5E38, 0x3069, 0x304A, 0x308A]"

(* check-delay.ts:64: 'a delay of 15 minutes or more has occurred'; 11 code units *)
definition kw_15min_okure :: jsstring where
  "kw_15min_okure =
     u16 ''15'' @ [0x5206, 0x4EE5, 0x4E0A, 0x306E, 0x9045, 0x308C, 0x304C, 0x767A, 0x751F]"

(* check-delay.ts:170: 'there is currently no information on accidents or delays'; 20 code units *)
definition kw_no_info :: jsstring where
  "kw_no_info =
     [0x73FE, 0x5728, 0xFF64, 0x4E8B, 0x6545, 0xFF65, 0x9045, 0x5EF6, 0x306B, 0x95A2] @
     [0x3059, 0x308B, 0x60C5, 0x5831, 0x306F, 0x3042, 0x308A, 0x307E, 0x305B, 0x3093]"

(* check-delay.ts:68: ji (o'clock); 1 code units *)
definition ch_ji :: jsstring where
  "ch_ji =
     [0x6642]"

(* check-delay.ts:68: fun-goro (minutes, about); 2 code units *)
definition ch_fun_goro :: jsstring where
  "ch_fun_goro =
     [0x5206, 0x9803]"

(* check-delay.ts:68: orikaeshi (turn-back); 3 code units *)
definition kw_orikaeshi :: jsstring where
  "kw_orikaeshi =
     [0x6298, 0x8FD4, 0x3057]"

(* check-delay.ts:68: the ideographic full stop; 1 code units *)
definition ch_kuten :: jsstring where
  "ch_kuten =
     [0x3002]"

(* index.ts:11: Keiyo-sen; 3 code units *)
definition line_keiyo :: jsstring where
  "line_keiyo =
     [0x4EAC, 0x8449, 0x7DDA]"

(* index.ts:13; 74 code units *)
definition url_jreast_keiyo :: jsstring where
  "url_jreast_keiyo =
     u16 ''https://traininfo.jreast.co.jp/train_info/line.aspx?gid=1&li'' @
     u16 ''neid=keiyoline''"

(* index.ts:14: JR Higashi-Nihon; 5 code units *)
definition operator_jr :: jsstring where
  "operator_jr =
     u16 ''JR'' @ [0x6771, 0x65E5, 0x672C]"

(* index.ts:17: Hibiya-sen; 4 code units *)
definition line_hibiya :: jsstring where
  "line_hibiya =
     [0x65E5, 0x6BD4, 0x8C37, 0x7DDA]"

(* index.ts:19; 51 code units *)
definition url_metro_hibiya :: jsstring where
  "url_metro_hibiya =
     u16 ''https://www.tokyometro.jp/unkou/history/hibiya.html''"

(* index.ts:20: Tokyo Metro; 5 code units *)
definition operator_metro :: jsstring where
  "operator_metro =
     [0x6771, 0x4EAC, 0x30E1, 0x30C8, 0x30ED]"

(* index.ts:28; 14 code units *)
definition default_smtp_host :: jsstring where
  "default_smtp_host =
     u16 ''smtp.gmail.com''"

(* index.ts:29; 3 code units *)
definition default_smtp_port :: jsstring where
  "default_smtp_port =
     u16 ''587''"

(* index.ts:60; 47 code units *)
definition user_agent :: jsstring where
  "user_agent =
     u16 ''Mozilla/5.0 (compatible; TrainDelayChecker/1.0)''"

(* index.ts:61; 11 code units *)
definition accept_language :: jsstring where
  "accept_language =
     u16 ''ja,en;q=0.9''"

(* index.ts:66; 5 code units *)
definition msg_http :: jsstring where
  "msg_http =
     u16 ''HTTP ''"

(* index.ts:89: '... ga hassei shite imasu' (... has occurred); 8 code units *)
definition msg_has_occurred :: jsstring where
  "msg_has_occurred =
     [0x304C, 0x767A, 0x751F, 0x3057, 0x3066, 0x3044, 0x307E, 0x3059]"

(* index.ts:107: 'status unknown (the page structure may have changed)'; 23 code units *)
definition msg_status_unknown :: jsstring where
  "msg_status_unknown =
     [0x30B9, 0x30C6, 0x30FC, 0x30BF, 0x30B9, 0x4E0D, 0x660E, 0xFF08, 0x30DA, 0x30FC] @
     [0x30B8, 0x69CB, 0x9020, 0x304C, 0x5909, 0x66F4, 0x3055, 0x308C, 0x305F, 0x53EF] @
     [0x80FD, 0x6027, 0xFF09]"

(* index.ts:181: 'no service information (no delay of 15 minutes or more)'; 18 code units *)
definition msg_no_info :: jsstring where
  "msg_no_info =
     [0x904B, 0x884C, 0x60C5, 0x5831, 0x306A, 0x3057, 0xFF08] @ u16 ''15'' @
     [0x5206, 0x4EE5, 0x4E0A, 0x306E, 0x9045, 0x5EF6, 0x306A, 0x3057, 0xFF09]"

(* index.ts:123: 'check failed: '; 8 code units *)
definition msg_check_failed :: jsstring where
  "msg_check_failed =
     [0x30C1, 0x30A7, 0x30C3, 0x30AF, 0x5931, 0x6557] @ u16 '': ''"

(* index.ts:123; 13 code units *)
definition msg_unknown_error :: jsstring where
  "msg_unknown_error =
     u16 ''Unknown error''"

(* index.ts:207; 16 code units *)
definition log_checking :: jsstring where
  "log_checking =
     [0xD83D, 0xDE83] @ u16 '' '' @
     [0x904B, 0x884C, 0x60C5, 0x5831, 0x3092, 0x30C1, 0x30A7, 0x30C3, 0x30AF, 0x4E2D] @
     u16 ''...''"

(* index.ts:229: warning: the mail settings are incomplete; 29 code units *)
definition log_config_incomplete :: jsstring where
  "log_config_incomplete =
     [0x26A0, 0xFE0F] @ u16 '' '' @
     [0x30E1, 0x30FC, 0x30EB, 0x8A2D, 0x5B9A, 0x304C, 0x4E0D, 0x5B8C, 0x5168, 0x3067] @
     [0x3059, 0x3002, 0x74B0, 0x5883, 0x5909, 0x6570, 0x3092, 0x78BA, 0x8A8D, 0x3057] @
     [0x3066, 0x304F, 0x3060, 0x3055, 0x3044, 0x3002]"

(* index.ts:249: check mark; 1 code units *)
definition emoji_normal :: jsstring where
  "emoji_normal =
     [0x2705]"

(* index.ts:250: warning sign; 2 code units *)
definition emoji_delayed :: jsstring where
  "emoji_delayed =
     [0x26A0, 0xFE0F]"

(* index.ts:251: no-entry sign; 2 code units *)
definition emoji_suspended :: jsstring where
  "emoji_suspended =
     [0xD83D, 0xDEAB]"

(* index.ts:252: question mark; 1 code units *)
definition emoji_other :: jsstring where
  "emoji_other =
     [0x2753]"

(* index.ts:256: 'train delay alert: '; 13 code units *)
definition subject_prefix :: jsstring where
  "subject_prefix =
     [0xD83D, 0xDE83] @ u16 '' '' @
     [0x96FB, 0x8ECA, 0x9045, 0x5EF6, 0x30A2, 0x30E9, 0x30FC, 0x30C8] @ u16 '': ''"

(* index.ts:256; 2 code units *)
definition comma_space :: jsstring where
  "comma_space =
     u16 '', ''"

(* index.ts:258-280; 916 code units *)
definition html_head :: jsstring where
  "html_head =
     [0x000A] @ u16 ''<!DOCTYPE html>'' @ [0x000A] @ u16 ''<html>'' @ [0x000A] @ u16 ''<head>'' @
     [0x000A] @ u16 ''  <meta charset='' @ [0x0022] @ u16 ''utf-8'' @ [0x0022] @ u16 ''>'' @
     [0x000A] @ u16 ''  <style>'' @ [0x000A] @ u16 ''    body '' @ [0x007B] @
     u16 '' font-family: -apple-system, BlinkMacSystemFont, '' @ [0x0027] @ u16 ''Segoe UI'' @
     [0x0027] @ u16 '', sans-serif; max-width: 600px; margin: 0 auto; padding: 20p'' @
     u16 ''x; '' @ [0x007D, 0x000A] @ u16 ''    .header '' @ [0x007B] @
     u16 '' background: #e74c3c; color: white; padding: 15px; border-ra'' @
     u16 ''dius: 8px 8px 0 0; '' @ [0x007D, 0x000A] @ u16 ''    .content '' @ [0x007B] @
     u16 '' background: #f9f9f9; padding: 20px; border-radius: 0 0 8px '' @ u16 ''8px; '' @
     [0x007D, 0x000A] @ u16 ''    .line-status '' @ [0x007B] @
     u16 '' background: white; padding: 15px; margin: 10px 0; border-ra'' @
     u16 ''dius: 8px; border-left: 4px solid #e74c3c; '' @ [0x007D, 0x000A] @
     u16 ''    .line-status.normal '' @ [0x007B] @ u16 '' border-left-color: #27ae60; '' @
     [0x007D, 0x000A] @ u16 ''    .line-name '' @ [0x007B] @
     u16 '' font-size: 18px; font-weight: bold; margin-bottom: 8px; '' @ [0x007D, 0x000A] @
     u16 ''    .line-message '' @ [0x007B] @ u16 '' color: #666; '' @ [0x007D, 0x000A] @
     u16 ''    .timestamp '' @ [0x007B] @
     u16 '' color: #999; font-size: 12px; margin-top: 20px; '' @ [0x007D, 0x000A] @
     u16 ''  </style>'' @ [0x000A] @ u16 ''</head>'' @ [0x000A] @ u16 ''<body>'' @ [0x000A] @
     u16 ''  <div class='' @ [0x0022] @ u16 ''header'' @ [0x0022] @ u16 ''>'' @ [0x000A] @
     u16 ''    <h2 style='' @ [0x0022] @ u16 ''margin: 0;'' @ [0x0022] @ u16 ''>'' @
     [0xD83D, 0xDE83] @ u16 '' '' @
     [0x96FB, 0x8ECA, 0x9045, 0x5EF6, 0x30A2, 0x30E9, 0x30FC, 0x30C8] @ u16 ''</h2>'' @ [0x000A] @
     u16 ''    <p style='' @ [0x0022] @ u16 ''margin: 5px 0 0 0;'' @ [0x0022] @ u16 ''>'' @
     [0x5E30, 0x5B85, 0x30EB, 0x30FC, 0x30C8, 0x306B, 0x9045, 0x5EF6, 0x304C, 0x767A] @
     [0x751F, 0x3057, 0x3066, 0x3044, 0x307E, 0x3059] @ u16 ''</p>'' @ [0x000A] @
     u16 ''  </div>'' @ [0x000A] @ u16 ''  <div class='' @ [0x0022] @ u16 ''content'' @ [0x0022] @
     u16 ''>'' @ [0x000A] @ u16 ''    ''"

(* index.ts:280-281; 31 code units *)
definition html_row_open :: jsstring where
  "html_row_open =
     [0x000A] @ u16 ''      <div class='' @ [0x0022] @ u16 ''line-status ''"

(* index.ts:281; 6 code units *)
definition html_class_normal :: jsstring where
  "html_class_normal =
     u16 ''normal''"

(* index.ts:281-282; 34 code units *)
definition html_row_name :: jsstring where
  "html_row_name =
     [0x0022] @ u16 ''>'' @ [0x000A] @ u16 ''        <div class='' @ [0x0022] @ u16 ''line-name'' @
     [0x0022] @ u16 ''>''"

(* index.ts:282: fullwidth opening parenthesis; 1 code units *)
definition paren_open :: jsstring where
  "paren_open =
     [0xFF08]"

(* index.ts:282-283; 42 code units *)
definition html_row_message :: jsstring where
  "html_row_message =
     [0xFF09] @ u16 ''</div>'' @ [0x000A] @ u16 ''        <div class='' @ [0x0022] @
     u16 ''line-message'' @ [0x0022] @ u16 ''>''"

(* index.ts:283-285; 24 code units *)
definition html_row_close :: jsstring where
  "html_row_close =
     u16 ''</div>'' @ [0x000A] @ u16 ''      </div>'' @ [0x000A] @ u16 ''    ''"

(* index.ts:285-287; 41 code units *)
definition html_timestamp :: jsstring where
  "html_timestamp =
     [0x000A] @ u16 ''    <p class='' @ [0x0022] @ u16 ''timestamp'' @ [0x0022] @ u16 ''>'' @
     [0x000A] @ u16 ''      '' @ [0x30C1, 0x30A7, 0x30C3, 0x30AF, 0x6642, 0x523B] @ u16 '': ''"

(* index.ts:287-292; 37 code units *)
definition html_tail :: jsstring where
  "html_tail =
     [0x000A] @ u16 ''    </p>'' @ [0x000A] @ u16 ''  </div>'' @ [0x000A] @ u16 ''</body>'' @
     [0x000A] @ u16 ''</html>'' @ [0x000A] @ u16 ''  ''"

(* index.ts:295: fullwidth closing parenthesis, colon, space; 3 code units *)
definition paren_close_colon :: jsstring where
  "paren_close_colon =
     [0xFF09] @ u16 '': ''"

(* index.ts:306: 'mail sent: '; 12 code units *)
definition log_mail_sent :: jsstring where
  "log_mail_sent =
     [0xD83D, 0xDCE7] @ u16 '' '' @ [0x30E1, 0x30FC, 0x30EB, 0x9001, 0x4FE1, 0x5B8C, 0x4E86] @
     u16 '': ''"

(* index.ts:313; 40 code units *)
definition log_bar :: jsstring where
  "log_bar =
     u16 ''========================================''"

(* index.ts:314; 12 code units *)
definition log_title :: jsstring where
  "log_title =
     [0xD83D, 0xDE83] @ u16 '' '' @
     [0x96FB, 0x8ECA, 0x9045, 0x5EF6, 0x30C1, 0x30A7, 0x30C3, 0x30AB, 0x30FC]"

(* index.ts:315; 3 code units *)
definition log_calendar :: jsstring where
  "log_calendar =
     [0xD83D, 0xDCC5] @ u16 '' ''"

(* index.ts:316; 41 code units *)
definition log_bar_nl :: jsstring where
  "log_bar_nl =
     u16 ''========================================'' @ [0x000A]"

(* index.ts:325: fullwidth closing parenthesis; 1 code units *)
definition paren_close :: jsstring where
  "paren_close =
     [0xFF09]"

(* index.ts:326; 3 code units *)
definition log_indent :: jsstring where
  "log_indent =
     u16 ''   ''"

(* index.ts:331; 21 code units *)
definition log_delay_detected :: jsstring where
  "log_delay_detected =
     [0xD83D, 0xDD14] @ u16 '' '' @
     [0x9045, 0x5EF6, 0x3092, 0x691C, 0x51FA, 0xFF01, 0x30E1, 0x30FC, 0x30EB, 0x3092] @
     [0x9001, 0x4FE1, 0x3057, 0x307E, 0x3059] @ u16 ''...''"

(* index.ts:334; 18 code units *)
definition log_no_delay :: jsstring where
  "log_no_delay =
     [0x2728] @ u16 '' '' @
     [0x9045, 0x5EF6, 0x306A, 0x3057, 0x3002, 0x30E1, 0x30FC, 0x30EB, 0x306F, 0x9001] @
     [0x4FE1, 0x3057, 0x307E, 0x305B, 0x3093, 0x3002]"

(* index.ts:337; 41 code units *)
definition log_nl_bar :: jsstring where
  "log_nl_bar =
     [0x000A] @ u16 ''========================================''"

(* index.ts:338: kanryo (done); 2 code units *)
definition log_done :: jsstring where
  "log_done =
     [0x5B8C, 0x4E86]"

(* check-delay.ts:31; 41 code units *)
definition url_yahoo_hibiya :: jsstring where
  "url_yahoo_hibiya =
     u16 ''https://transit.yahoo.co.jp/diainfo/134/0''"

(* check-delay.ts:32; 40 code units *)
definition url_yahoo_keiyo :: jsstring where
  "url_yahoo_keiyo =
     u16 ''https://transit.yahoo.co.jp/diainfo/36/0''"

(* check-delay.ts:73: 'see the official site for the delay details'; 9 code units *)
definition msg_see_official_site :: jsstring where
  "msg_see_official_site =
     [0x5EF6, 0x8BEF, 0x8BE6, 0x60C5, 0x8BF7, 0x67E5, 0x770B, 0x5B98, 0x7F51]"

(* check-delay.ts:87; 15 code units *)
definition log_error_checking :: jsstring where
  "log_error_checking =
     u16 ''Error checking ''"

(* check-delay.ts:92: 'check failed: '; 6 code units *)
definition msg_check_failed_zh :: jsstring where
  "msg_check_failed_zh =
     [0x68C0, 0x67E5, 0x5931, 0x8D25] @ u16 '': ''"

(* check-delay.ts:205; 21 code units *)
definition default_from_email :: jsstring where
  "default_from_email =
     u16 ''onboarding'' @ [0x0040] @ u16 ''resend.dev''"

(* check-delay.ts:208; 34 code units *)
definition log_missing_key :: jsstring where
  "log_missing_key =
     u16 ''Missing RESEND_API_KEY or TO_EMAIL''"

(* check-delay.ts:215; 34 code units *)
definition log_no_delays_skip :: jsstring where
  "log_no_delays_skip =
     u16 ''No delays detected, skipping email''"

(* check-delay.ts:222: 'train delay notice: '; 11 code units *)
definition resend_subject_prefix :: jsstring where
  "resend_subject_prefix =
     [0xD83D, 0xDE83] @ u16 '' '' @ [0x96FB, 0x8ECA, 0x9045, 0x5EF6, 0x901A, 0x77E5] @ u16 '': ''"

(* check-delay.ts:224-244; 163 code units *)
definition mail_html_head :: jsstring where
  "mail_html_head =
     [0x000A] @ u16 ''    <div style='' @ [0x0022] @
     u16 ''font-family: sans-serif; max-width: 600px; margin: 0 auto;'' @ [0x0022] @ u16 ''>'' @
     [0x000A] @ u16 ''      <h2 style='' @ [0x0022] @ u16 ''color: #e74c3c;'' @ [0x0022] @
     u16 ''>'' @ [0x26A0, 0xFE0F] @ u16 '' '' @ [0x96FB, 0x8ECA, 0x9045, 0x5EF6, 0x60C5, 0x5831] @
     u16 ''</h2>'' @ [0x000A] @ u16 ''      <p style='' @ [0x0022] @ u16 ''color: #666;'' @
     [0x0022] @ u16 ''>'' @ [0x78BA, 0x8A8D, 0x6642, 0x523B] @ u16 '': ''"

(* check-delay.ts:224-244; 24 code units *)
definition mail_html_after_time :: jsstring where
  "mail_html_after_time =
     u16 '' (JST)</p>'' @ [0x000A] @ u16 ''      '' @ [0x000A] @ u16 ''      ''"

(* check-delay.ts:224-244; 124 code units *)
definition mail_html_row_open :: jsstring where
  "mail_html_row_open =
     [0x000A] @ u16 ''        <div style='' @ [0x0022] @
     u16 ''border-left: 4px solid #e74c3c; padding-left: 16px; margin: '' @ u16 ''16px 0;'' @
     [0x0022] @ u16 ''>'' @ [0x000A] @ u16 ''          <h3 style='' @ [0x0022] @
     u16 ''margin: 0;'' @ [0x0022] @ u16 ''>''"

(* check-delay.ts:224-244; 40 code units *)
definition mail_html_row_message :: jsstring where
  "mail_html_row_message =
     u16 ''</h3>'' @ [0x000A] @ u16 ''          <p style='' @ [0x0022] @ u16 ''color: #333;'' @
     [0x0022] @ u16 ''>''"

(* check-delay.ts:224-244; 26 code units *)
definition mail_html_row_close :: jsstring where
  "mail_html_row_close =
     u16 ''</p>'' @ [0x000A] @ u16 ''        </div>'' @ [0x000A] @ u16 ''      ''"

(* check-delay.ts:224-244; 337 code units *)
definition mail_html_tail :: jsstring where
  "mail_html_tail =
     [0x000A] @ u16 ''      '' @ [0x000A] @ u16 ''      <hr style='' @ [0x0022] @
     u16 ''border: none; border-top: 1px solid #eee; margin: 24px 0;'' @ [0x0022] @ u16 ''>'' @
     [0x000A] @ u16 ''      '' @ [0x000A] @ u16 ''      <p style='' @ [0x0022] @
     u16 ''font-size: 12px; color: #999;'' @ [0x0022] @ u16 ''>'' @ [0x000A] @ u16 ''        '' @
     [0x8A73, 0x7D30, 0x306F, 0x516C, 0x5F0F, 0x30B5, 0x30A4, 0x30C8, 0x3092, 0x3054] @
     [0x78BA, 0x8A8D, 0x304F, 0x3060, 0x3055, 0x3044, 0xFF1A] @ u16 ''<br>'' @ [0x000A] @
     u16 ''        <a href='' @ [0x0022] @ u16 ''https://www.tokyometro.jp/unkou/'' @ [0x0022] @
     u16 ''>'' @ [0x6771, 0x4EAC, 0x30E1, 0x30C8, 0x30ED, 0x904B, 0x884C, 0x60C5, 0x5831] @
     u16 ''</a> | '' @ [0x000A] @ u16 ''        <a href='' @ [0x0022] @
     u16 ''https://traininfo.jreast.co.jp/train_info/'' @ [0x0022] @ u16 ''>JR'' @
     [0x6771, 0x65E5, 0x672C, 0x904B, 0x884C, 0x60C5, 0x5831] @ u16 ''</a>'' @ [0x000A] @
     u16 ''      </p>'' @ [0x000A] @ u16 ''    </div>'' @ [0x000A] @ u16 ''  ''"

(* worker:402-422; 163 code units *)
definition worker_html_head :: jsstring where
  "worker_html_head =
     [0x000A] @ u16 ''    <div style='' @ [0x0022] @
     u16 ''font-family: sans-serif; max-width: 600px; margin: 0 auto;'' @ [0x0022] @ u16 ''>'' @
     [0x000A] @ u16 ''      <h2 style='' @ [0x0022] @ u16 ''color: #e74c3c;'' @ [0x0022] @
     u16 ''>'' @ [0x26A0, 0xFE0F] @ u16 '' '' @ [0x96FB, 0x8ECA, 0x9045, 0x5EF6, 0x60C5, 0x5831] @
     u16 ''</h2>'' @ [0x000A] @ u16 ''      <p style='' @ [0x0022] @ u16 ''color: #666;'' @
     [0x0022] @ u16 ''>'' @ [0x78BA, 0x8A8D, 0x6642, 0x523B] @ u16 '': ''"

(* worker:402-422; 18 code units *)
definition worker_html_after_time :: jsstring where
  "worker_html_after_time =
     u16 '' (JST)</p>'' @ [0x000A, 0x000A] @ u16 ''      ''"

(* worker:402-422; 124 code units *)
definition worker_html_row_open :: jsstring where
  "worker_html_row_open =
     [0x000A] @ u16 ''        <div style='' @ [0x0022] @
     u16 ''border-left: 4px solid #e74c3c; padding-left: 16px; margin: '' @ u16 ''16px 0;'' @
     [0x0022] @ u16 ''>'' @ [0x000A] @ u16 ''          <h3 style='' @ [0x0022] @
     u16 ''margin: 0;'' @ [0x0022] @ u16 ''>''"

(* worker:402-422; 40 code units *)
definition worker_html_row_message :: jsstring where
  "worker_html_row_message =
     u16 ''</h3>'' @ [0x000A] @ u16 ''          <p style='' @ [0x0022] @ u16 ''color: #333;'' @
     [0x0022] @ u16 ''>''"

(* worker:402-422; 26 code units *)
definition worker_html_row_close :: jsstring where
  "worker_html_row_close =
     u16 ''</p>'' @ [0x000A] @ u16 ''        </div>'' @ [0x000A] @ u16 ''      ''"

(* worker:402-422; 324 code units *)
definition worker_html_tail :: jsstring where
  "worker_html_tail =
     [0x000A, 0x000A] @ u16 ''      <hr style='' @ [0x0022] @
     u16 ''border: none; border-top: 1px solid #eee; margin: 24px 0;'' @ [0x0022] @ u16 ''>'' @
     [0x000A, 0x000A] @ u16 ''      <p style='' @ [0x0022] @
     u16 ''font-size: 12px; color: #999;'' @ [0x0022] @ u16 ''>'' @ [0x000A] @ u16 ''        '' @
     [0x8A73, 0x7D30, 0x306F, 0x516C, 0x5F0F, 0x30B5, 0x30A4, 0x30C8, 0x3092, 0x3054] @
     [0x78BA, 0x8A8D, 0x304F, 0x3060, 0x3055, 0x3044, 0xFF1A] @ u16 ''<br>'' @ [0x000A] @
     u16 ''        <a href='' @ [0x0022] @ u16 ''https://www.tokyometro.jp/unkou/'' @ [0x0022] @
     u16 ''>'' @ [0x6771, 0x4EAC, 0x30E1, 0x30C8, 0x30ED, 0x904B, 0x884C, 0x60C5, 0x5831] @
     u16 ''</a> |'' @ [0x000A] @ u16 ''        <a href='' @ [0x0022] @
     u16 ''https://traininfo.jreast.co.jp/train_info/'' @ [0x0022] @ u16 ''>JR'' @
     [0x6771, 0x65E5, 0x672C, 0x904B, 0x884C, 0x60C5, 0x5831] @ u16 ''</a>'' @ [0x000A] @
     u16 ''      </p>'' @ [0x000A] @ u16 ''    </div>'' @ [0x000A] @ u16 ''  ''"

(* check-delay.ts:247; 29 code units *)
definition url_resend :: jsstring where
  "url_resend =
     u16 ''https://api.resend.com/emails''"

(* check-delay.ts:250; 7 code units *)
definition bearer :: jsstring where
  "bearer =
     u16 ''Bearer ''"

(* check-delay.ts:251; 16 code units *)
definition content_type_json :: jsstring where
  "content_type_json =
     u16 ''application/json''"

(* check-delay.ts:248; 4 code units *)
definition method_post :: jsstring where
  "method_post =
     u16 ''POST''"

(* check-delay.ts:262; 24 code units *)
definition log_email_sent :: jsstring where
  "log_email_sent =
     u16 ''Email sent successfully!''"

(* check-delay.ts:265; 21 code units *)
definition log_failed_to_send :: jsstring where
  "log_failed_to_send =
     u16 ''Failed to send email:''"

(* check-delay.ts:268; 20 code units *)
definition log_error_sending :: jsstring where
  "log_error_sending =
     u16 ''Error sending email:''"

(* check-delay.ts:274; 27 code units *)
definition log_checking_delays :: jsstring where
  "log_checking_delays =
     [0xD83D, 0xDE83] @ u16 '' Checking train delays...''"

(* check-delay.ts:275; 6 code units *)
definition log_time :: jsstring where
  "log_time =
     u16 ''Time: ''"

(* check-delay.ts:275; 4 code units *)
definition log_jst :: jsstring where
  "log_jst =
     u16 '' JST''"

(* check-delay.ts:286; 16 code units *)
definition log_results_nl :: jsstring where
  "log_results_nl =
     [0x000A] @ u16 ''--- Results ---''"

(* worker:465; 15 code units *)
definition log_results :: jsstring where
  "log_results =
     u16 ''--- Results ---''"

(* check-delay.ts:297; 33 code units *)
definition log_sending_nl :: jsstring where
  "log_sending_nl =
     [0x000A, 0xD83D, 0xDCE7] @ u16 '' Sending notification email...''"

(* check-delay.ts:300; 45 code units *)
definition log_all_normal_nl :: jsstring where
  "log_all_normal_nl =
     [0x000A, 0x2705] @ u16 '' All lines running normally. No email sent.''"

(* worker:476; 32 code units *)
definition log_sending :: jsstring where
  "log_sending =
     [0xD83D, 0xDCE7] @ u16 '' Sending notification email...''"

(* worker:480; 44 code units *)
definition log_all_normal :: jsstring where
  "log_all_normal =
     [0x2705] @ u16 '' All lines running normally. No email sent.''"

(* worker:478; 17 code units *)
definition ret_delays_detected :: jsstring where
  "ret_delays_detected =
     u16 ''Delays detected: ''"

(* worker:481; 26 code units *)
definition ret_all_normal :: jsstring where
  "ret_all_normal =
     u16 ''All lines running normally''"

section \<open>Values shared by the three programs\<close>

text \<open>
  A thrown value is an \<^verbatim>\<open>Error\<close> object (its name and its message) or anything else (given
  by its string form). \<open>error_string\<close> is \<^verbatim>\<open>`${error}`\<close>; for an \<^verbatim>\<open>Error\<close> that is
  \<^verbatim>\<open>Error.prototype.toString\<close>.
\<close>

datatype jserror = ErrorObject jsstring jsstring | ThrownValue jsstring

fun error_string :: "jserror \<Rightarrow> jsstring" where
  "error_string (ErrorObject name msg) =
     (if name = [] then msg else if msg = [] then name else name @ u16 '': '' @ msg)"
| "error_string (ThrownValue v) = v"

text \<open>A settled promise: \<open>Inl\<close> is a rejection (or a throw), \<open>Inr\<close> the value.\<close>

type_synonym 'a promise = "jserror + 'a"

text \<open>A \<^verbatim>\<open>fetch\<close> response: the HTTP status, and what \<^verbatim>\<open>response.text()\<close> settles to.\<close>

record response =
  status_code :: nat
  response_text :: "jsstring promise"

definition response_ok :: "response \<Rightarrow> bool" where
  "response_ok r = (200 \<le> status_code r \<and> status_code r \<le> 299)"

text \<open>
  A document loaded by cheerio is seen through the selections the code makes: for a
  selector, the texts of the matched elements in document order. \<^verbatim>\<open>$(sel).text()\<close> is the
  texts of all of them, \<^verbatim>\<open>$(sel).first().text()\<close> that of the first (the empty string when
  nothing matches).
\<close>

type_synonym document = "string \<Rightarrow> jsstring list"

definition dollar_text :: "document \<Rightarrow> string \<Rightarrow> jsstring" where
  "dollar_text doc sel = concat (doc sel)"

definition dollar_first_text :: "document \<Rightarrow> string \<Rightarrow> jsstring" where
  "dollar_first_text doc sel = (case doc sel of [] \<Rightarrow> [] | t # _ \<Rightarrow> t)"

datatype status = Normal | Delayed | Suspended | Unknown

type_synonym instant = nat

record transport =
  host :: jsstring
  port :: "int option"
  secure :: bool
  auth_user :: jsstring
  auth_pass :: jsstring

record mail =
  mail_from :: jsstring
  mail_to :: jsstring
  mail_subject :: jsstring
  mail_text :: jsstring
  mail_html :: jsstring

text \<open>The request of the Resend variants: \<^verbatim>\<open>fetch(url, {method, headers, body})\<close>, the body
  before \<^verbatim>\<open>JSON.stringify\<close>.\<close>

record resend_request =
  req_url :: jsstring
  req_method :: jsstring
  req_headers :: "(string \<times> jsstring) list"
  body_from :: jsstring
  body_to :: jsstring
  body_subject :: jsstring
  body_html :: jsstring

text \<open>
  What a run does to the outside: console lines, and calls of the send collaborator
  (\<^verbatim>\<open>transporter.sendMail\<close> of nodemailer, or the POST to the Resend API). A function with
  effects returns the events it emits, in order, with its result.
\<close>

datatype logarg = Str jsstring | Err jserror

datatype event =
    Console_log "logarg list"
  | Console_error "logarg list"
  | SendMail transport mail
  | Post resend_request

fun is_send :: "event \<Rightarrow> bool" where
  "is_send (SendMail t m) = True"
| "is_send (Post r) = True"
| "is_send _ = False"

text \<open>
  The collaborators of a run. \<open>fetch\<close> is the GET of a status page with its headers,
  \<open>post\<close> the same global \<^verbatim>\<open>fetch\<close> called with the POST request of the Resend API.
  \<open>parseInt\<close> gives \<open>None\<close> for \<^verbatim>\<open>NaN\<close>. All clock reads of one run give \<open>newDate\<close>.
\<close>

record runtime =
  fetch :: "jsstring \<Rightarrow> (string \<times> jsstring) list \<Rightarrow> response promise"
  cheerio_load :: "jsstring \<Rightarrow> document"
  newDate :: instant
  toLocaleString :: "instant \<Rightarrow> jsstring"
  toISOString :: "instant \<Rightarrow> jsstring"
  process_env :: "string \<Rightarrow> jsstring option"
  parseInt :: "jsstring \<Rightarrow> int option"
  sendMail :: "transport \<Rightarrow> mail \<Rightarrow> unit promise"
  post :: "resend_request \<Rightarrow> response promise"

section \<open>index.ts\<close>

record LineStatus =
  lineName :: jsstring
  operator :: jsstring
  status :: status
  message :: jsstring
  timestamp :: instant

record CheckResult =
  hasDelay :: bool
  lines :: "LineStatus list"

record email_config =
  email_to :: jsstring
  email_from :: jsstring
  smtpHost :: jsstring
  smtpPort :: "int option"
  smtpUser :: jsstring
  smtpPass :: jsstring

definition CONFIG_email :: "runtime \<Rightarrow> email_config" where
  "CONFIG_email rt =
     \<lparr>email_to = env_or (process_env rt ''NOTIFY_EMAIL'') [],
      email_from = env_or (process_env rt ''SMTP_USER'') [],
      smtpHost = env_or (process_env rt ''SMTP_HOST'') default_smtp_host,
      smtpPort = parseInt rt (env_or (process_env rt ''SMTP_PORT'') default_smtp_port),
      smtpUser = env_or (process_env rt ''SMTP_USER'') [],
      smtpPass = env_or (process_env rt ''SMTP_PASS'') []\<rparr>"

definition page_headers :: "(string \<times> jsstring) list" where
  "page_headers = [(''User-Agent'', user_agent), (''Accept-Language'', accept_language)]"

text \<open>The status a disruption keyword stands for (index.ts:86 and 161).\<close>

definition keyword_status :: "jsstring \<Rightarrow> status" where
  "keyword_status keyword =
     (if js_includes keyword kw_unkyu \<or> js_includes keyword kw_miawa then Suspended
      else Delayed)"

definition keiyo_delayKeywords :: "jsstring list" where
  "keiyo_delayKeywords =
     [kw_chien, kw_okure, kw_unten_miawa, kw_unkyu, kw_unten_toriyame, kw_orikaeshi_unten]"

definition keiyo_normalKeywords :: "jsstring list" where
  "keiyo_normalKeywords = [kw_heijo_unten, kw_heijo_doori]"

text \<open>
  The body of the \<^verbatim>\<open>try\<close> of \<^verbatim>\<open>checkKeiyoLine\<close> (index.ts:58-116). Each
  \<^verbatim>\<open>for ... break\<close> loop is the search for the first keyword of the list that the page
  text includes; the pair is the \<^verbatim>\<open>status\<close> and \<^verbatim>\<open>message\<close> variables.
\<close>

definition checkKeiyoLine_try :: "runtime \<Rightarrow> LineStatus promise" where
  "checkKeiyoLine_try rt =
     (case fetch rt url_jreast_keiyo page_headers of
        Inl e \<Rightarrow> Inl e
      | Inr response \<Rightarrow>
          if \<not> response_ok response
          then Inl (ErrorObject (u16 ''Error'') (msg_http @ js_num (status_code response)))
          else
            (case response_text response of
               Inl e \<Rightarrow> Inl e
             | Inr html \<Rightarrow>
                 let dollar = cheerio_load rt html;
                     statusText = dollar_text dollar ''body'';
                     sm0 = (Unknown, []);
                     sm1 = (case find (\<lambda>keyword. js_includes statusText keyword)
                                      keiyo_delayKeywords of
                              Some keyword \<Rightarrow>
                                (keyword_status keyword,
                                 js_or (js_trim (dollar_first_text dollar
                                                   ''.info, .delay-info, .status''))
                                       (keyword @ msg_has_occurred))
                            | None \<Rightarrow> sm0);
                     sm2 = (if fst sm1 = Unknown
                            then (case find (\<lambda>keyword. js_includes statusText keyword)
                                            keiyo_normalKeywords of
                                    Some keyword \<Rightarrow> (Normal, kw_heijo_unten)
                                  | None \<Rightarrow> sm1)
                            else sm1);
                     sm3 = (if fst sm2 = Unknown then (fst sm2, msg_status_unknown) else sm2)
                 in Inr \<lparr>lineName = line_keiyo, operator = operator_jr, status = fst sm3,
                         message = snd sm3, timestamp = newDate rt\<rparr>))"

text \<open>\<^verbatim>\<open>checkKeiyoLine\<close> with its \<^verbatim>\<open>catch\<close> (index.ts:118-126).\<close>

definition checkKeiyoLine :: "runtime \<Rightarrow> LineStatus promise" where
  "checkKeiyoLine rt =
     (case checkKeiyoLine_try rt of
        Inr r \<Rightarrow> Inr r
      | Inl error \<Rightarrow>
          Inr \<lparr>lineName = line_keiyo, operator = operator_jr, status = Unknown,
               message = msg_check_failed @
                 (case error of ErrorObject name msg \<Rightarrow> msg
                  | ThrownValue v \<Rightarrow> msg_unknown_error),
               timestamp = newDate rt\<rparr>)"

definition hibiya_delayKeywords :: "jsstring list" where
  "hibiya_delayKeywords =
     [kw_chien, kw_okure, kw_unten_miawa, kw_unkyu, kw_orikaeshi_unten, kw_chokutsu_chushi]"

definition hibiya_normalKeywords :: "jsstring list" where
  "hibiya_normalKeywords = [kw_heijo_unten, kw_heijo_doori, kw_tsujo_unko]"

text \<open>The body of the \<^verbatim>\<open>try\<close> of \<^verbatim>\<open>checkHibiyaLine\<close> (index.ts:136-190).\<close>

definition checkHibiyaLine_try :: "runtime \<Rightarrow> LineStatus promise" where
  "checkHibiyaLine_try rt =
     (case fetch rt url_metro_hibiya page_headers of
        Inl e \<Rightarrow> Inl e
      | Inr response \<Rightarrow>
          if \<not> response_ok response
          then Inl (ErrorObject (u16 ''Error'') (msg_http @ js_num (status_code response)))
          else
            (case response_text response of
               Inl e \<Rightarrow> Inl e
             | Inr html \<Rightarrow>
                 let dollar = cheerio_load rt html;
                     statusText = dollar_text dollar ''body'';
                     sm0 = (Unknown, []);
                     sm1 = (case find (\<lambda>keyword. js_includes statusText keyword)
                                      hibiya_delayKeywords of
                              Some keyword \<Rightarrow>
                                (keyword_status keyword, keyword @ msg_has_occurred)
                            | None \<Rightarrow> sm0);
                     sm2 = (if fst sm1 = Unknown
                            then (case find (\<lambda>keyword. js_includes statusText keyword)
                                            hibiya_normalKeywords of
                                    Some keyword \<Rightarrow> (Normal, kw_heijo_unten)
                                  | None \<Rightarrow> sm1)
                            else sm1);
                     sm3 = (if fst sm2 = Unknown then (Normal, msg_no_info) else sm2)
                 in Inr \<lparr>lineName = line_hibiya, operator = operator_metro, status = fst sm3,
                         message = snd sm3, timestamp = newDate rt\<rparr>))"

definition checkHibiyaLine :: "runtime \<Rightarrow> LineStatus promise" where
  "checkHibiyaLine rt =
     (case checkHibiyaLine_try rt of
        Inr r \<Rightarrow> Inr r
      | Inl error \<Rightarrow>
          Inr \<lparr>lineName = line_hibiya, operator = operator_metro, status = Unknown,
               message = msg_check_failed @
                 (case error of ErrorObject name msg \<Rightarrow> msg
                  | ThrownValue v \<Rightarrow> msg_unknown_error),
               timestamp = newDate rt\<rparr>)"

text \<open>
  \<^verbatim>\<open>checkAllLines\<close> (index.ts:206-220). \<^verbatim>\<open>Promise.all\<close> rejects when one of the two
  promises does, and gives the values in the order of the array otherwise.
\<close>

definition checkAllLines :: "runtime \<Rightarrow> event list \<times> CheckResult promise" where
  "checkAllLines rt =
     ([Console_log [Str log_checking]],
      (case checkKeiyoLine rt of
         Inl e \<Rightarrow> Inl e
       | Inr keiyo \<Rightarrow>
           (case checkHibiyaLine rt of
              Inl e \<Rightarrow> Inl e
            | Inr hibiya \<Rightarrow>
                let lines = [keiyo, hibiya];
                    hasDelay = list_ex (\<lambda>line. status line = Delayed \<or> status line = Suspended)
                                 lines
                in Inr \<lparr>hasDelay = hasDelay, lines = lines\<rparr>)))"

fun statusEmoji :: "status \<Rightarrow> jsstring" where
  "statusEmoji Normal = emoji_normal"
| "statusEmoji Delayed = emoji_delayed"
| "statusEmoji Suspended = emoji_suspended"
| "statusEmoji Unknown = emoji_other"

text \<open>The subject, the HTML body and the text body of \<^verbatim>\<open>sendEmail\<close> (index.ts:243-296).\<close>

definition sendEmail_subject :: "CheckResult \<Rightarrow> jsstring" where
  "sendEmail_subject result =
     (let delayedLines = filter (\<lambda>l. status l = Delayed \<or> status l = Suspended) (lines result)
      in subject_prefix @ js_join comma_space (map lineName delayedLines))"

definition sendEmail_htmlBody :: "runtime \<Rightarrow> CheckResult \<Rightarrow> jsstring" where
  "sendEmail_htmlBody rt result =
     js_trim
       (html_head @
        js_join []
          (map (\<lambda>line.
                  html_row_open @ (if status line = Normal then html_class_normal else []) @
                  html_row_name @ statusEmoji (status line) @ u16 '' '' @ lineName line @
                  paren_open @ operator line @ html_row_message @ message line @
                  html_row_close)
               (lines result)) @
        html_timestamp @ toLocaleString rt (newDate rt) @ html_tail)"

definition sendEmail_textBody :: "CheckResult \<Rightarrow> jsstring" where
  "sendEmail_textBody result =
     js_join [0x0A]
       (map (\<lambda>line. statusEmoji (status line) @ u16 '' '' @ lineName line @ paren_open @
                     operator line @ paren_close_colon @ message line)
            (lines result))"

text \<open>
  \<^verbatim>\<open>sendEmail\<close> (index.ts:225-307). The \<^verbatim>\<open>await\<close> of \<^verbatim>\<open>transporter.sendMail\<close> stands in
  no \<^verbatim>\<open>try\<close>: a rejection of the send rejects \<^verbatim>\<open>sendEmail\<close>.
\<close>

definition sendEmail :: "runtime \<Rightarrow> CheckResult \<Rightarrow> event list \<times> unit promise" where
  "sendEmail rt result =
     (let email = CONFIG_email rt in
      if email_to email = [] \<or> smtpUser email = [] \<or> smtpPass email = []
      then ([Console_log [Str log_config_incomplete]], Inr ())
      else
        let transporter = \<lparr>host = smtpHost email, port = smtpPort email,
                            secure = (smtpPort email = Some 465),
                            auth_user = smtpUser email, auth_pass = smtpPass email\<rparr>;
            m = \<lparr>mail_from = email_from email, mail_to = email_to email,
                  mail_subject = sendEmail_subject result,
                  mail_text = sendEmail_textBody result,
                  mail_html = sendEmail_htmlBody rt result\<rparr>
        in (case sendMail rt transporter m of
              Inl e \<Rightarrow> ([SendMail transporter m], Inl e)
            | Inr u \<Rightarrow>
                ([SendMail transporter m, Console_log [Str (log_mail_sent @ email_to email)]],
                 Inr ())))"

definition main_banner :: "runtime \<Rightarrow> event list" where
  "main_banner rt =
     [Console_log [Str log_bar], Console_log [Str log_title],
      Console_log [Str (log_calendar @ toLocaleString rt (newDate rt))],
      Console_log [Str log_bar_nl]]"

definition main_report :: "LineStatus \<Rightarrow> event list" where
  "main_report line =
     (let emoji = (if status line = Normal then emoji_normal
                   else if status line = Delayed then emoji_delayed
                   else if status line = Suspended then emoji_suspended
                   else emoji_other)
      in [Console_log [Str (emoji @ u16 '' '' @ lineName line @ paren_open @ operator line @
                            paren_close)],
          Console_log [Str (log_indent @ message line @ [0x0A])]])"

definition main_done :: "event list" where
  "main_done = [Console_log [Str log_nl_bar], Console_log [Str log_done], Console_log [Str log_bar]]"

text \<open>\<^verbatim>\<open>main\<close> (index.ts:312-340).\<close>

definition main :: "runtime \<Rightarrow> event list \<times> unit promise" where
  "main rt =
     (case checkAllLines rt of
        (ev1, Inl e) \<Rightarrow> (main_banner rt @ ev1, Inl e)
      | (ev1, Inr result) \<Rightarrow>
          let ev2 = main_banner rt @ ev1 @ concat (map main_report (lines result)) in
          if hasDelay result
          then (case sendEmail rt result of
                  (ev3, Inl e) \<Rightarrow> (ev2 @ [Console_log [Str log_delay_detected]] @ ev3, Inl e)
                | (ev3, Inr u) \<Rightarrow>
                    (ev2 @ [Console_log [Str log_delay_detected]] @ ev3 @ main_done, Inr ()))
          else (ev2 @ [Console_log [Str log_no_delay]] @ main_done, Inr ()))"

text \<open>The last line of the file, \<^verbatim>\<open>main().catch(console.error)\<close>: the events of a whole run.\<close>

definition program :: "runtime \<Rightarrow> event list" where
  "program rt =
     (case main rt of
        (ev, Inl e) \<Rightarrow> ev @ [Console_error [Err e]]
      | (ev, Inr u) \<Rightarrow> ev)"

section \<open>check-delay.ts\<close>

text \<open>\<^verbatim>\<open>DelayInfo\<close>, the record of check-delay.ts and of the worker; its fields
  \<^verbatim>\<open>operator\<close>, \<^verbatim>\<open>status\<close>, \<^verbatim>\<open>message\<close> and \<^verbatim>\<open>timestamp\<close> carry a prime here.\<close>

record DelayInfo =
  line :: jsstring
  operator' :: jsstring
  status' :: status
  message' :: jsstring
  timestamp' :: jsstring

datatype lineKey = Hibiya | Keiyo

text \<open>\<^verbatim>\<open>\d+\<close>, and the end of a sentence \<^verbatim>\<open>(?:\n|[ideographic full stop])\<close>.\<close>

definition rx_digits :: rx where
  "rx_digits = Seq (Cls is_digit) (StarGreedy is_digit)"

definition rx_sentence_end :: rx where
  "rx_sentence_end = Alt (Lit [0x0A]) (Lit ch_kuten)"

text \<open>The three regular expressions of \<^verbatim>\<open>checkMetroHibiya\<close> (check-delay.ts:62, 63, 68).\<close>

definition metro_hasDelay_rx :: rx where
  "metro_hasDelay_rx =
     rx_alts [kw_chien, kw_okure, kw_unten_miawa, kw_orikaeshi_unten, kw_unkyu]"

definition metro_isNormal_rx :: rx where
  "metro_isNormal_rx = rx_alts [kw_heijo_unten, kw_tsujo_unten, kw_heijo_doori]"

definition metro_delayMatch_group :: rx where
  "metro_delayMatch_group =
     Seq rx_digits (Seq (Lit ch_ji) (Seq rx_digits (Seq (Lit ch_fun_goro)
       (Seq (StarLazy is_dot)
         (Seq (rx_alts [kw_chien, kw_unten_miawa, kw_orikaeshi, kw_unkyu])
              (StarLazy is_dot))))))"

definition checkMetroHibiya_try :: "runtime \<Rightarrow> DelayInfo promise" where
  "checkMetroHibiya_try rt =
     (case fetch rt url_metro_hibiya [(''User-Agent'', user_agent)] of
        Inl e \<Rightarrow> Inl e
      | Inr response \<Rightarrow>
          (case response_text response of
             Inl e \<Rightarrow> Inl e
           | Inr html \<Rightarrow>
               let dollar = cheerio_load rt html;
                   statusText = dollar_text dollar ''body'';
                   hasDelay = js_test metro_hasDelay_rx statusText;
                   isNormal = (js_test metro_isNormal_rx statusText \<or>
                               js_includes statusText kw_15min_okure \<and> \<not> hasDelay)
               in if hasDelay
                  then
                    let delayMatch =
                          js_match1 metro_delayMatch_group rx_sentence_end statusText
                    in Inr \<lparr>line = line_hibiya, operator' = operator_metro,
                            status' = Delayed,
                            message' = (case delayMatch of Some m \<Rightarrow> m
                                        | None \<Rightarrow> msg_see_official_site),
                            timestamp' = toISOString rt (newDate rt)\<rparr>
                  else Inr \<lparr>line = line_hibiya, operator' = operator_metro,
                            status' = Normal, message' = kw_heijo_unten,
                            timestamp' = toISOString rt (newDate rt)\<rparr>))"

text \<open>\<^verbatim>\<open>checkMetroHibiya\<close> (check-delay.ts:45-96); \<^verbatim>\<open>main\<close> does not call it.\<close>

definition checkMetroHibiya :: "runtime \<Rightarrow> event list \<times> DelayInfo promise" where
  "checkMetroHibiya rt =
     (case checkMetroHibiya_try rt of
        Inr d \<Rightarrow> ([], Inr d)
      | Inl error \<Rightarrow>
          ([Console_error [Str (log_error_checking @ line_hibiya @ u16 '':''), Err error]],
           Inr \<lparr>line = line_hibiya, operator' = operator_metro, status' = Unknown,
                message' = msg_check_failed_zh @ error_string error,
                timestamp' = toISOString rt (newDate rt)\<rparr>))"

text \<open>The regular expressions of \<^verbatim>\<open>checkJRKeiyo\<close> (check-delay.ts:116, 117, 120).\<close>

definition delay_words :: "jsstring list" where
  "delay_words = [kw_chien, kw_okure, kw_unten_miawa, kw_unkyu, kw_daiya_midare]"

definition jr_isNormal_rx :: rx where
  "jr_isNormal_rx = rx_alts [kw_heijo_unten, kw_heijo_doori_kanji, kw_tsujo_doori]"

definition delayMatch_group :: rx where
  "delayMatch_group = Seq (StarLazy is_dot) (Seq (rx_alts delay_words) (StarLazy is_dot))"

definition checkJRKeiyo_try :: "runtime \<Rightarrow> DelayInfo promise" where
  "checkJRKeiyo_try rt =
     (case fetch rt url_jreast_keiyo [(''User-Agent'', user_agent)] of
        Inl e \<Rightarrow> Inl e
      | Inr response \<Rightarrow>
          (case response_text response of
             Inl e \<Rightarrow> Inl e
           | Inr html \<Rightarrow>
               let dollar = cheerio_load rt html;
                   statusText = dollar_text dollar ''body'';
                   hasDelay = js_test (rx_alts delay_words) statusText;
                   isNormal = js_test jr_isNormal_rx statusText
               in if hasDelay \<and> \<not> isNormal
                  then
                    let delayMatch = js_match1 delayMatch_group rx_sentence_end statusText
                    in Inr \<lparr>line = line_keiyo, operator' = operator_jr, status' = Delayed,
                            message' = (case delayMatch of Some m \<Rightarrow> take 200 m
                                        | None \<Rightarrow> msg_see_official_site),
                            timestamp' = toISOString rt (newDate rt)\<rparr>
                  else Inr \<lparr>line = line_keiyo, operator' = operator_jr, status' = Normal,
                            message' = kw_heijo_unten,
                            timestamp' = toISOString rt (newDate rt)\<rparr>))"

text \<open>\<^verbatim>\<open>checkJRKeiyo\<close> (check-delay.ts:99-148); \<^verbatim>\<open>main\<close> does not call it.\<close>

definition checkJRKeiyo :: "runtime \<Rightarrow> event list \<times> DelayInfo promise" where
  "checkJRKeiyo rt =
     (case checkJRKeiyo_try rt of
        Inr d \<Rightarrow> ([], Inr d)
      | Inl error \<Rightarrow>
          ([Console_error [Str (log_error_checking @ line_keiyo @ u16 '':''), Err error]],
           Inr \<lparr>line = line_keiyo, operator' = operator_jr, status' = Unknown,
                message' = msg_check_failed_zh @ error_string error,
                timestamp' = toISOString rt (newDate rt)\<rparr>))"

definition yahooUrls :: "lineKey \<Rightarrow> jsstring" where
  "yahooUrls lineKey = (case lineKey of Hibiya \<Rightarrow> url_yahoo_hibiya | Keiyo \<Rightarrow> url_yahoo_keiyo)"

definition yahoo_lineName :: "lineKey \<Rightarrow> jsstring" where
  "yahoo_lineName lineKey = (if lineKey = Hibiya then line_hibiya else line_keiyo)"

definition yahoo_operator :: "lineKey \<Rightarrow> jsstring" where
  "yahoo_operator lineKey = (if lineKey = Hibiya then operator_metro else operator_jr)"

definition checkYahooTransit_try :: "runtime \<Rightarrow> lineKey \<Rightarrow> DelayInfo promise" where
  "checkYahooTransit_try rt lineKey =
     (case fetch rt (yahooUrls lineKey) [(''User-Agent'', user_agent)] of
        Inl e \<Rightarrow> Inl e
      | Inr response \<Rightarrow>
          (case response_text response of
             Inl e \<Rightarrow> Inl e
           | Inr html \<Rightarrow>
               let dollar = cheerio_load rt html;
                   statusArea = js_or (dollar_text dollar ''.trouble'')
                                      (dollar_text dollar ''body'');
                   hasDelay = js_test (rx_alts delay_words) statusArea;
                   isNormal = (js_includes statusArea kw_heijo_unten \<or>
                               js_includes statusArea kw_no_info)
               in if hasDelay \<and> \<not> isNormal
                  then Inr \<lparr>line = yahoo_lineName lineKey,
                            operator' = yahoo_operator lineKey, status' = Delayed,
                            message' = take 300 statusArea,
                            timestamp' = toISOString rt (newDate rt)\<rparr>
                  else Inr \<lparr>line = yahoo_lineName lineKey,
                            operator' = yahoo_operator lineKey, status' = Normal,
                            message' = kw_heijo_unten,
                            timestamp' = toISOString rt (newDate rt)\<rparr>))"

text \<open>\<^verbatim>\<open>checkYahooTransit\<close> (check-delay.ts:151-199).\<close>

definition checkYahooTransit :: "runtime \<Rightarrow> lineKey \<Rightarrow> DelayInfo promise" where
  "checkYahooTransit rt lineKey =
     (case checkYahooTransit_try rt lineKey of
        Inr d \<Rightarrow> Inr d
      | Inl error \<Rightarrow>
          Inr \<lparr>line = yahoo_lineName lineKey, operator' = yahoo_operator lineKey,
               status' = Unknown, message' = msg_check_failed_zh @ error_string error,
               timestamp' = toISOString rt (newDate rt)\<rparr>)"

text \<open>The subject and the HTML of \<^verbatim>\<open>sendEmail\<close> (check-delay.ts:212-244).\<close>

definition resend_subject :: "DelayInfo list \<Rightarrow> jsstring" where
  "resend_subject delays =
     (let delayedLines = filter (\<lambda>d. status' d = Delayed) delays
      in resend_subject_prefix @ js_join comma_space (map line delayedLines))"

definition resend_html :: "jsstring \<Rightarrow> DelayInfo list \<Rightarrow> jsstring" where
  "resend_html jstTime delays =
     (let delayedLines = filter (\<lambda>d. status' d = Delayed) delays
      in mail_html_head @ jstTime @ mail_html_after_time @
         js_join []
           (map (\<lambda>d. mail_html_row_open @ operator' d @ u16 '' '' @ line d @
                      mail_html_row_message @ message' d @ mail_html_row_close)
                delayedLines) @
         mail_html_tail)"

text \<open>
  The \<^verbatim>\<open>try\<close> of \<^verbatim>\<open>sendEmail\<close> with its \<^verbatim>\<open>catch\<close> (check-delay.ts:246-269, and the same
  lines 424-447 of the worker): one POST; a rejection of the POST or of
  \<^verbatim>\<open>response.text()\<close> is logged with \<^verbatim>\<open>console.error\<close>.
\<close>

definition resend_post :: "runtime \<Rightarrow> resend_request \<Rightarrow> event list" where
  "resend_post rt request =
     (case post rt request of
        Inl error \<Rightarrow> [Post request, Console_error [Str log_error_sending, Err error]]
      | Inr response \<Rightarrow>
          if response_ok response
          then [Post request, Console_log [Str log_email_sent]]
          else (case response_text response of
                  Inl error \<Rightarrow>
                    [Post request, Console_error [Str log_error_sending, Err error]]
                | Inr error \<Rightarrow>
                    [Post request, Console_error [Str log_failed_to_send, Str error]]))"

text \<open>\<^verbatim>\<open>sendEmail\<close> of check-delay.ts (lines 202-270). Past the first guard both
  variables are non-empty strings.\<close>

definition sendEmail_resend :: "runtime \<Rightarrow> DelayInfo list \<Rightarrow> event list \<times> unit promise" where
  "sendEmail_resend rt delays =
     (let RESEND_API_KEY = process_env rt ''RESEND_API_KEY'';
          TO_EMAIL = process_env rt ''TO_EMAIL'';
          FROM_EMAIL = env_or (process_env rt ''FROM_EMAIL'') default_from_email
      in if falsy RESEND_API_KEY \<or> falsy TO_EMAIL
         then ([Console_error [Str log_missing_key]], Inr ())
         else
           let delayedLines = filter (\<lambda>d. status' d = Delayed) delays in
           if length delayedLines = 0
           then ([Console_log [Str log_no_delays_skip]], Inr ())
           else
             let jstTime = toLocaleString rt (newDate rt);
                 request =
                   \<lparr>req_url = url_resend, req_method = method_post,
                    req_headers = [(''Authorization'', bearer @ env_or RESEND_API_KEY []),
                                   (''Content-Type'', content_type_json)],
                    body_from = FROM_EMAIL, body_to = env_or TO_EMAIL [],
                    body_subject = resend_subject delays,
                    body_html = resend_html jstTime delays\<rparr>
             in (resend_post rt request, Inr ()))"

definition resend_report :: "DelayInfo \<Rightarrow> event" where
  "resend_report result =
     (let statusIcon = (if status' result = Normal then emoji_normal
                        else if status' result = Delayed then emoji_delayed
                        else emoji_other)
      in Console_log [Str (statusIcon @ u16 '' '' @ operator' result @ u16 '' '' @
                           line result @ u16 '': '' @ message' result)])"

text \<open>The two checks of \<^verbatim>\<open>main\<close> under \<^verbatim>\<open>Promise.all\<close>, and its flag
  (check-delay.ts:278-283 and 294).\<close>

definition main_results :: "runtime \<Rightarrow> DelayInfo list promise" where
  "main_results rt =
     (case checkYahooTransit rt Hibiya of
        Inl e \<Rightarrow> Inl e
      | Inr hibiya \<Rightarrow>
          (case checkYahooTransit rt Keiyo of
             Inl e \<Rightarrow> Inl e
           | Inr keiyo \<Rightarrow> Inr [hibiya, keiyo]))"

definition hasDelays :: "DelayInfo list \<Rightarrow> bool" where
  "hasDelays results = list_ex (\<lambda>r. status' r = Delayed) results"

text \<open>\<^verbatim>\<open>main\<close> of check-delay.ts (lines 273-302).\<close>

definition main_resend :: "runtime \<Rightarrow> event list \<times> unit promise" where
  "main_resend rt =
     (let ev0 = [Console_log [Str log_checking_delays],
                 Console_log [Str (log_time @ toLocaleString rt (newDate rt) @ log_jst)]]
      in case main_results rt of
           Inl e \<Rightarrow> (ev0, Inl e)
         | Inr results \<Rightarrow>
             let ev1 = ev0 @ [Console_log [Str log_results_nl]] @ map resend_report results in
             if hasDelays results
             then (case sendEmail_resend rt results of
                     (ev2, Inl e) \<Rightarrow> (ev1 @ [Console_log [Str log_sending_nl]] @ ev2, Inl e)
                   | (ev2, Inr u) \<Rightarrow> (ev1 @ [Console_log [Str log_sending_nl]] @ ev2, Inr ()))
             else (ev1 @ [Console_log [Str log_all_normal_nl]], Inr ()))"

definition program_resend :: "runtime \<Rightarrow> event list" where
  "program_resend rt =
     (case main_resend rt of
        (ev, Inl e) \<Rightarrow> ev @ [Console_error [Err e]]
      | (ev, Inr u) \<Rightarrow> ev)"

section \<open>The worker\<close>

text \<open>The bindings of the worker; a binding that is not set is \<^verbatim>\<open>undefined\<close>. The two
  handlers of the module (\<^verbatim>\<open>scheduled\<close> and \<^verbatim>\<open>fetch\<close>) only call
  \<^verbatim>\<open>checkTrainDelays\<close>.\<close>

record Env =
  RESEND_API_KEY :: "jsstring option"
  TO_EMAIL :: "jsstring option"
  FROM_EMAIL :: "jsstring option"

text \<open>\<^verbatim>\<open>/<[^>]*>/g\<close>, \<^verbatim>\<open>/\s+/g\<close> and \<^verbatim>\<open>(?:\s{2,}|$)\<close> (worker, lines 346 and 354).\<close>

definition rx_tag :: rx where
  "rx_tag = Seq (Lit [0x3C]) (Seq (StarGreedy (\<lambda>c. c \<noteq> 0x3E)) (Lit [0x3E]))"

definition rx_spaces :: rx where
  "rx_spaces = Seq (Cls is_space) (StarGreedy is_space)"

definition rx_gap_or_end :: rx where
  "rx_gap_or_end = Alt (Seq (Cls is_space) (Seq (Cls is_space) (StarGreedy is_space))) Eos"

definition textContent_of :: "jsstring \<Rightarrow> jsstring" where
  "textContent_of html =
     js_replace_all rx_spaces (u16 '' '') (js_replace_all rx_tag (u16 '' '') html)"

definition checkYahooTransit_worker_try :: "runtime \<Rightarrow> lineKey \<Rightarrow> DelayInfo promise" where
  "checkYahooTransit_worker_try rt lineKey =
     (case fetch rt (yahooUrls lineKey) [(''User-Agent'', user_agent)] of
        Inl e \<Rightarrow> Inl e
      | Inr response \<Rightarrow>
          (case response_text response of
             Inl e \<Rightarrow> Inl e
           | Inr html \<Rightarrow>
               let textContent = textContent_of html;
                   hasDelay = js_test (rx_alts delay_words) textContent;
                   isNormal = (js_includes textContent kw_heijo_unten \<or>
                               js_includes textContent kw_no_info)
               in if hasDelay \<and> \<not> isNormal
                  then
                    let delayMatch = js_match1 delayMatch_group rx_gap_or_end textContent
                    in Inr \<lparr>line = yahoo_lineName lineKey,
                            operator' = yahoo_operator lineKey, status' = Delayed,
                            message' = (case delayMatch of Some m \<Rightarrow> take 300 m
                                        | None \<Rightarrow> msg_see_official_site),
                            timestamp' = toISOString rt (newDate rt)\<rparr>
                  else Inr \<lparr>line = yahoo_lineName lineKey,
                            operator' = yahoo_operator lineKey, status' = Normal,
                            message' = kw_heijo_unten,
                            timestamp' = toISOString rt (newDate rt)\<rparr>))"

text \<open>\<^verbatim>\<open>checkYahooTransit\<close> of the worker (lines 331-381).\<close>

definition checkYahooTransit_worker :: "runtime \<Rightarrow> lineKey \<Rightarrow> DelayInfo promise" where
  "checkYahooTransit_worker rt lineKey =
     (case checkYahooTransit_worker_try rt lineKey of
        Inr d \<Rightarrow> Inr d
      | Inl error \<Rightarrow>
          Inr \<lparr>line = yahoo_lineName lineKey, operator' = yahoo_operator lineKey,
               status' = Unknown, message' = msg_check_failed_zh @ error_string error,
               timestamp' = toISOString rt (newDate rt)\<rparr>)"

definition worker_html :: "jsstring \<Rightarrow> DelayInfo list \<Rightarrow> jsstring" where
  "worker_html jstTime delays =
     (let delayedLines = filter (\<lambda>d. status' d = Delayed) delays
      in worker_html_head @ jstTime @ worker_html_after_time @
         js_join []
           (map (\<lambda>d. worker_html_row_open @ operator' d @ u16 '' '' @ line d @
                      worker_html_row_message @ message' d @ worker_html_row_close)
                delayedLines) @
         worker_html_tail)"

text \<open>\<^verbatim>\<open>sendEmail\<close> of the worker (lines 384-448).\<close>

definition sendEmail_worker ::
  "runtime \<Rightarrow> Env \<Rightarrow> DelayInfo list \<Rightarrow> event list \<times> unit promise" where
  "sendEmail_worker rt env delays =
     (if falsy (RESEND_API_KEY env) \<or> falsy (TO_EMAIL env)
      then ([Console_error [Str log_missing_key]], Inr ())
      else
        let delayedLines = filter (\<lambda>d. status' d = Delayed) delays in
        if length delayedLines = 0
        then ([Console_log [Str log_no_delays_skip]], Inr ())
        else
          let jstTime = toLocaleString rt (newDate rt);
              request =
                \<lparr>req_url = url_resend, req_method = method_post,
                 req_headers = [(''Authorization'', bearer @ env_or (RESEND_API_KEY env) []),
                                (''Content-Type'', content_type_json)],
                 body_from = env_or (FROM_EMAIL env) default_from_email,
                 body_to = env_or (TO_EMAIL env) [],
                 body_subject = resend_subject delays,
                 body_html = worker_html jstTime delays\<rparr>
          in (resend_post rt request, Inr ()))"

definition worker_results :: "runtime \<Rightarrow> DelayInfo list promise" where
  "worker_results rt =
     (case checkYahooTransit_worker rt Hibiya of
        Inl e \<Rightarrow> Inl e
      | Inr hibiya \<Rightarrow>
          (case checkYahooTransit_worker rt Keiyo of
             Inl e \<Rightarrow> Inl e
           | Inr keiyo \<Rightarrow> Inr [hibiya, keiyo]))"

text \<open>\<^verbatim>\<open>checkTrainDelays\<close> (worker, lines 451-483); its flag is \<open>hasDelays\<close> again.\<close>

definition checkTrainDelays :: "runtime \<Rightarrow> Env \<Rightarrow> event list \<times> jsstring promise" where
  "checkTrainDelays rt env =
     (let jstTime = toLocaleString rt (newDate rt);
          ev0 = [Console_log [Str log_checking_delays],
                 Console_log [Str (log_time @ jstTime @ log_jst)]]
      in case worker_results rt of
           Inl e \<Rightarrow> (ev0, Inl e)
         | Inr results \<Rightarrow>
             let ev1 = ev0 @ [Console_log [Str log_results]] @ map resend_report results in
             if hasDelays results
             then (case sendEmail_worker rt env results of
                     (ev2, Inl e) \<Rightarrow> (ev1 @ [Console_log [Str log_sending]] @ ev2, Inl e)
                   | (ev2, Inr u) \<Rightarrow>
                       (ev1 @ [Console_log [Str log_sending]] @ ev2,
                        Inr (ret_delays_detected @
                             js_join comma_space
                               (map line (filter (\<lambda>r. status' r = Delayed) results)))))
             else (ev1 @ [Console_log [Str log_all_normal]], Inr ret_all_normal))"

section \<open>Scenarios\<close>

text \<open>
  Concrete collaborators for the examples below. A page of plain text has no markup:
  cheerio gives it whole as the text of \<^verbatim>\<open>body\<close>, and no other selector matches. The
  pages are served with status 200; the clock prints the date of the README's example.
\<close>

definition plain_text_load :: "jsstring \<Rightarrow> document" where
  "plain_text_load html sel = (if sel = ''body'' then [html] else [])"

definition page_200 :: "jsstring \<Rightarrow> response promise" where
  "page_200 html = Inr \<lparr>status_code = 200, response_text = Inr html\<rparr>"

definition scenario ::
  "(jsstring \<Rightarrow> response promise) \<Rightarrow> (string \<Rightarrow> jsstring option) \<Rightarrow> unit promise \<Rightarrow>
   response promise \<Rightarrow> runtime" where
  "scenario pages env sent posted =
     \<lparr>fetch = (\<lambda>url headers. pages url),
      cheerio_load = plain_text_load,
      newDate = 0,
      toLocaleString = (\<lambda>t. u16 ''2024/1/15 18:20:00''),
      toISOString = (\<lambda>t. u16 ''2024-01-15T09:20:00.000Z''),
      process_env = env,
      parseInt = (\<lambda>s. if s = u16 ''587'' then Some 587 else None),
      sendMail = (\<lambda>t m. sent),
      post = (\<lambda>r. posted)\<rparr>"

text \<open>No variable set, and the variables of all three programs set.\<close>

definition env_unset :: "string \<Rightarrow> jsstring option" where
  "env_unset name = None"

definition env_complete :: "string \<Rightarrow> jsstring option" where
  "env_complete =
     map_of [(''NOTIFY_EMAIL'', u16 ''me@example.com''), (''SMTP_USER'', u16 ''bot@example.com''),
             (''SMTP_PASS'', u16 ''secret''), (''RESEND_API_KEY'', u16 ''re_123''),
             (''TO_EMAIL'', u16 ''me@example.com'')]"

text \<open>A network error: what \<^verbatim>\<open>fetch\<close> rejects with when the host cannot be reached.\<close>

definition network_error :: jserror where
  "network_error = ErrorObject (u16 ''TypeError'') (u16 ''fetch failed'')"

text \<open>The JR page cannot be reached; every other page reads "normal operation".\<close>

definition run_keiyo_unreachable :: runtime where
  "run_keiyo_unreachable =
     scenario (\<lambda>url. if url = url_jreast_keiyo then Inl network_error
                      else page_200 kw_heijo_unten)
       env_unset (Inr ()) (page_200 [])"

text \<open>Two words of the status pages: unten-miawase (service held, U+904B U+8EE2 U+898B
  U+5408 U+308F U+305B) and chien-shomeisho (delay certificate, U+9045 U+5EF6 U+8A3C U+660E
  U+66F8), the name of a link that a page carries on a normal day as well.\<close>

definition word_unten_miawase :: jsstring where
  "word_unten_miawase = [0x904B, 0x8EE2, 0x898B, 0x5408, 0x308F, 0x305B]"

definition word_chien_shomeisho :: jsstring where
  "word_chien_shomeisho = [0x9045, 0x5EF6, 0x8A3C, 0x660E, 0x66F8]"

text \<open>Every page reads the given text, and no variable is set.\<close>

definition run_pages :: "jsstring \<Rightarrow> runtime" where
  "run_pages txt = scenario (\<lambda>url. page_200 txt) env_unset (Inr ()) (page_200 [])"

text \<open>"normal operation", a space, "delay certificate".\<close>

definition page_normal_with_certificate :: jsstring where
  "page_normal_with_certificate = kw_heijo_unten @ [0x20] @ word_chien_shomeisho"

text \<open>"service held", a space, "delay".\<close>

definition page_held_and_late :: jsstring where
  "page_held_and_late = word_unten_miawase @ [0x20] @ kw_chien"

text \<open>The answer of a server that is down.\<close>

definition http_503 :: "response promise" where
  "http_503 = Inr \<lparr>status_code = 503, response_text = Inr (u16 ''Service Unavailable'')\<rparr>"

text \<open>The SMTP server refuses the connection.\<close>

definition smtp_error :: jserror where
  "smtp_error = ErrorObject (u16 ''Error'') (u16 ''connect ECONNREFUSED 127.0.0.1:587'')"

text \<open>Every page reads "delay", the settings are complete, and the send fails: nodemailer
  rejects, the POST to the Resend API rejects.\<close>

definition run_send_fails :: runtime where
  "run_send_fails =
     scenario (\<lambda>url. page_200 kw_chien) env_complete (Inl smtp_error) (Inl network_error)"

text \<open>Every page reads "running late", the settings are complete, and the send succeeds.\<close>

definition run_late_complete :: runtime where
  "run_late_complete =
     scenario (\<lambda>url. page_200 kw_okure) env_complete (Inr ()) (page_200 [])"

text \<open>Only the recipients are set: no SMTP user, no SMTP password, no API key.\<close>

definition env_recipient_only :: "string \<Rightarrow> jsstring option" where
  "env_recipient_only =
     map_of [(''NOTIFY_EMAIL'', u16 ''me@example.com''), (''TO_EMAIL'', u16 ''me@example.com'')]"

definition run_late_no_credentials :: runtime where
  "run_late_no_credentials =
     scenario (\<lambda>url. page_200 kw_okure) env_recipient_only (Inr ()) (page_200 [])"

definition worker_env_complete :: Env where
  "worker_env_complete =
     \<lparr>RESEND_API_KEY = Some (u16 ''re_123''), TO_EMAIL = Some (u16 ''me@example.com''),
      FROM_EMAIL = None\<rparr>"

definition worker_env_no_key :: Env where
  "worker_env_no_key =
     \<lparr>RESEND_API_KEY = None, TO_EMAIL = Some (u16 ''me@example.com''), FROM_EMAIL = None\<rparr>"

text \<open>
  A long notice: "delay" followed by 998 prolonged-sound marks (U+30FC), 1000 code units.
  cheerio on the page \<^verbatim>\<open><div class=info>notice</div>\<close> gives the notice both as the text of
  \<^verbatim>\<open>body\<close> and as the text of the first element of class \<^verbatim>\<open>info\<close>.
\<close>

definition long_notice :: jsstring where
  "long_notice = kw_chien @ replicate 998 0x30FC"

definition info_div_load :: "jsstring \<Rightarrow> document" where
  "info_div_load txt sel =
     (if sel = ''body'' \<or> sel = ''.info, .delay-info, .status'' then [txt] else [])"

definition run_long_notice :: runtime where
  "run_long_notice =
     (scenario (\<lambda>url. page_200 (u16 ''<div class=info>'' @ long_notice @ u16 ''</div>''))
        env_unset (Inr ()) (page_200 []))
     \<lparr>cheerio_load := (\<lambda>html. info_div_load long_notice)\<rparr>"

text \<open>The sentence "delay." (chien and the ideographic full stop).\<close>

definition page_delay_sentence :: jsstring where
  "page_delay_sentence = kw_chien @ ch_kuten"

section \<open>Notions of the specification\<close>

text \<open>
  A page is retrieved when the fetch resolves and \<^verbatim>\<open>response.text()\<close> gives \<open>html\<close>.
  index.ts also asks for a success status (\<^verbatim>\<open>response.ok\<close>); check-delay.ts and the
  worker read the body of any response.
\<close>

definition page_ok :: "runtime \<Rightarrow> jsstring \<Rightarrow> (string \<times> jsstring) list \<Rightarrow> jsstring \<Rightarrow> bool" where
  "page_ok rt url headers html =
     (case fetch rt url headers of
        Inl e \<Rightarrow> False
      | Inr response \<Rightarrow> response_ok response \<and> response_text response = Inr html)"

definition page_received ::
  "runtime \<Rightarrow> jsstring \<Rightarrow> (string \<times> jsstring) list \<Rightarrow> jsstring \<Rightarrow> bool" where
  "page_received rt url headers html =
     (case fetch rt url headers of
        Inl e \<Rightarrow> False
      | Inr response \<Rightarrow> response_text response = Inr html)"

text \<open>
  The failures of the retrieval collaborator, as index.ts sees them: the fetch rejects (a
  network error, a timeout of the platform), the response has no success status, or
  reading its body rejects. \<open>failure_description\<close> is the text that describes the failure.
\<close>

definition retrieval_failed :: "response promise \<Rightarrow> bool" where
  "retrieval_failed outcome =
     (case outcome of
        Inl e \<Rightarrow> True
      | Inr response \<Rightarrow>
          (if response_ok response then isl (response_text response) else True))"

definition thrown_message :: "jserror \<Rightarrow> jsstring" where
  "thrown_message e = (case e of ErrorObject name msg \<Rightarrow> msg | ThrownValue v \<Rightarrow> msg_unknown_error)"

definition failure_description :: "response promise \<Rightarrow> jsstring" where
  "failure_description outcome =
     (case outcome of
        Inl e \<Rightarrow> thrown_message e
      | Inr response \<Rightarrow>
          if response_ok response
          then (case response_text response of Inl e \<Rightarrow> thrown_message e | Inr html \<Rightarrow> [])
          else msg_http @ js_num (status_code response))"

text \<open>The email settings of index.ts are complete when none of the three is empty; those
  of the Resend variants when the key and the recipient are set.\<close>

definition email_complete :: "runtime \<Rightarrow> bool" where
  "email_complete rt =
     (email_to (CONFIG_email rt) \<noteq> [] \<and> smtpUser (CONFIG_email rt) \<noteq> [] \<and>
      smtpPass (CONFIG_email rt) \<noteq> [])"

definition disrupted :: "status \<Rightarrow> bool" where
  "disrupted s = (s = Delayed \<or> s = Suspended)"

text \<open>The text that a checker reads from a retrieved page: \<^verbatim>\<open>$('body').text()\<close>, and
  \<^verbatim>\<open>$('.trouble').text() || $('body').text()\<close> of \<^verbatim>\<open>checkYahooTransit\<close>.\<close>

abbreviation statusText :: "runtime \<Rightarrow> jsstring \<Rightarrow> jsstring" where
  "statusText rt html \<equiv> dollar_text (cheerio_load rt html) ''body''"

abbreviation statusArea :: "runtime \<Rightarrow> jsstring \<Rightarrow> jsstring" where
  "statusArea rt html \<equiv>
     js_or (dollar_text (cheerio_load rt html) ''.trouble'')
           (dollar_text (cheerio_load rt html) ''body'')"

section \<open>Lemmas\<close>

subsection \<open>Strings and regular expressions\<close>

lemma rx_ends_alts: "ks \<noteq> [] \<Longrightarrow> rx_ends (rx_alts ks) s \<noteq> [] \<longleftrightarrow> (\<exists>k\<in>set ks. prefix k s)"
  by (induction ks rule: rx_alts.induct) auto

lemma js_includes_sublist: "js_includes s k \<longleftrightarrow> sublist k s"
  by (induction s) (auto simp: sublist_Cons_right)

lemma js_test_alts:
  "ks \<noteq> [] \<Longrightarrow> js_test (rx_alts ks) s \<longleftrightarrow> (\<exists>k\<in>set ks. js_includes s k)"
  by (induction s) (auto simp: rx_ends_alts)

lemma keyword_status_cases: "keyword_status k = Delayed \<or> keyword_status k = Suspended"
  by (simp add: keyword_status_def)

subsection \<open>The line checkers always resolve\<close>

lemma checkKeiyoLine_resolves: "\<exists>ls. checkKeiyoLine rt = Inr ls"
  by (simp add: checkKeiyoLine_def split: sum.split)

lemma checkHibiyaLine_resolves: "\<exists>ls. checkHibiyaLine rt = Inr ls"
  by (simp add: checkHibiyaLine_def split: sum.split)

lemma checkAllLines_resolves:
  "\<exists>keiyo hibiya. checkKeiyoLine rt = Inr keiyo \<and> checkHibiyaLine rt = Inr hibiya \<and>
     snd (checkAllLines rt) =
       Inr \<lparr>hasDelay = list_ex (\<lambda>line. status line = Delayed \<or> status line = Suspended)
                          [keiyo, hibiya],
            lines = [keiyo, hibiya]\<rparr>"
proof -
  obtain k where k: "checkKeiyoLine rt = Inr k" using checkKeiyoLine_resolves by blast
  obtain h where h: "checkHibiyaLine rt = Inr h" using checkHibiyaLine_resolves by blast
  show ?thesis by (simp add: checkAllLines_def k h Let_def)
qed

lemma checkYahooTransit_try_status:
  "checkYahooTransit_try rt key = Inr d \<Longrightarrow> status' d = Delayed \<or> status' d = Normal"
  by (auto simp: checkYahooTransit_try_def Let_def split: sum.splits if_splits)

lemma checkYahooTransit_status:
  "\<exists>d. checkYahooTransit rt key = Inr d \<and> status' d \<noteq> Suspended"
proof (cases "checkYahooTransit_try rt key")
  case (Inl e)
  then show ?thesis by (simp add: checkYahooTransit_def)
next
  case (Inr d)
  then show ?thesis using checkYahooTransit_try_status[OF Inr] by (auto simp: checkYahooTransit_def)
qed

lemma checkYahooTransit_worker_try_status:
  "checkYahooTransit_worker_try rt key = Inr d \<Longrightarrow> status' d = Delayed \<or> status' d = Normal"
  by (auto simp: checkYahooTransit_worker_try_def Let_def split: sum.splits if_splits)

lemma checkYahooTransit_worker_status:
  "\<exists>d. checkYahooTransit_worker rt key = Inr d \<and> status' d \<noteq> Suspended"
proof (cases "checkYahooTransit_worker_try rt key")
  case (Inl e)
  then show ?thesis by (simp add: checkYahooTransit_worker_def)
next
  case (Inr d)
  then show ?thesis using checkYahooTransit_worker_try_status[OF Inr]
    by (auto simp: checkYahooTransit_worker_def)
qed

lemma main_results_resolves:
  "\<exists>hibiya keiyo. main_results rt = Inr [hibiya, keiyo] \<and>
     checkYahooTransit rt Hibiya = Inr hibiya \<and> checkYahooTransit rt Keiyo = Inr keiyo \<and>
     status' hibiya \<noteq> Suspended \<and> status' keiyo \<noteq> Suspended"
proof -
  obtain h where h: "checkYahooTransit rt Hibiya = Inr h" "status' h \<noteq> Suspended"
    using checkYahooTransit_status by blast
  obtain k where k: "checkYahooTransit rt Keiyo = Inr k" "status' k \<noteq> Suspended"
    using checkYahooTransit_status by blast
  show ?thesis by (simp add: main_results_def h k)
qed

lemma worker_results_resolves:
  "\<exists>hibiya keiyo. worker_results rt = Inr [hibiya, keiyo] \<and>
     checkYahooTransit_worker rt Hibiya = Inr hibiya \<and>
     checkYahooTransit_worker rt Keiyo = Inr keiyo \<and>
     status' hibiya \<noteq> Suspended \<and> status' keiyo \<noteq> Suspended"
proof -
  obtain h where h: "checkYahooTransit_worker rt Hibiya = Inr h" "status' h \<noteq> Suspended"
    using checkYahooTransit_worker_status by blast
  obtain k where k: "checkYahooTransit_worker rt Keiyo = Inr k" "status' k \<noteq> Suspended"
    using checkYahooTransit_worker_status by blast
  show ?thesis by (simp add: worker_results_def h k)
qed


subsection \<open>Unfolding the scenarios\<close>

lemmas kw_defs = kw_chien_def kw_okure_def kw_unten_miawa_def kw_unkyu_def kw_unten_toriyame_def
  kw_orikaeshi_unten_def kw_chokutsu_chushi_def kw_miawa_def kw_heijo_unten_def kw_heijo_doori_def
  kw_tsujo_unko_def kw_tsujo_unten_def kw_daiya_midare_def kw_heijo_doori_kanji_def kw_tsujo_doori_def
  kw_15min_okure_def kw_no_info_def kw_orikaeshi_def

lemmas url_defs = url_jreast_keiyo_def url_metro_hibiya_def url_yahoo_hibiya_def url_yahoo_keiyo_def

lemmas scenario_defs = scenario_def page_200_def plain_text_load_def env_unset_def env_complete_def
  network_error_def response_ok_def dollar_text_def dollar_first_text_def js_or_def

lemmas index_defs = checkKeiyoLine_def checkKeiyoLine_try_def checkHibiyaLine_def
  checkHibiyaLine_try_def keiyo_delayKeywords_def keiyo_normalKeywords_def
  hibiya_delayKeywords_def hibiya_normalKeywords_def keyword_status_def page_headers_def

lemmas yahoo_defs = checkYahooTransit_def checkYahooTransit_try_def yahooUrls_def
  yahoo_lineName_def yahoo_operator_def delay_words_def

lemmas worker_defs = checkYahooTransit_worker_def checkYahooTransit_worker_try_def yahooUrls_def
  yahoo_lineName_def yahoo_operator_def delay_words_def textContent_of_def rx_tag_def
  rx_spaces_def rx_gap_or_end_def delayMatch_group_def rx_group1_def is_space_def is_dot_def

lemma keiyo_unreachable_lines:
  "checkKeiyoLine run_keiyo_unreachable =
     Inr \<lparr>lineName = line_keiyo, operator = operator_jr, status = Unknown,
          message = msg_check_failed @ u16 ''fetch failed'', timestamp = 0\<rparr>"
  "checkHibiyaLine run_keiyo_unreachable =
     Inr \<lparr>lineName = line_hibiya, operator = operator_metro, status = Normal,
          message = kw_heijo_unten, timestamp = 0\<rparr>"
  by (simp_all add: run_keiyo_unreachable_def index_defs scenario_defs kw_defs url_defs u16_def
      Let_def)

lemma keiyo_unreachable_yahoo:
  "checkYahooTransit run_keiyo_unreachable key =
     Inr \<lparr>line = yahoo_lineName key, operator' = yahoo_operator key, status' = Normal,
          message' = kw_heijo_unten, timestamp' = u16 ''2024-01-15T09:20:00.000Z''\<rparr>"
  by (cases key)
     (simp_all add: run_keiyo_unreachable_def yahoo_defs scenario_defs kw_defs url_defs u16_def
      Let_def)

lemma keiyo_unreachable_worker:
  "checkYahooTransit_worker run_keiyo_unreachable key =
     Inr \<lparr>line = yahoo_lineName key, operator' = yahoo_operator key, status' = Normal,
          message' = kw_heijo_unten, timestamp' = u16 ''2024-01-15T09:20:00.000Z''\<rparr>"
  by (cases key)
     (simp_all add: run_keiyo_unreachable_def worker_defs scenario_defs kw_defs url_defs u16_def
      Let_def)


subsection \<open>The cases of the index.ts checkers\<close>

lemma find_includes_Some:
  "k \<in> set ks \<Longrightarrow> P k \<Longrightarrow> \<exists>k'. find P ks = Some k' \<and> k' \<in> set ks \<and> P k'"
  by (induction ks) auto

lemma find_none_list_ex: "find P ks = None \<longleftrightarrow> \<not> list_ex P ks"
  by (induction ks) auto

lemma keyword_status_not_unknown: "keyword_status k \<noteq> Unknown" "keyword_status k \<noteq> Normal"
  by (simp_all add: keyword_status_def)

lemma page_okD:
  "page_ok rt url headers html \<Longrightarrow>
     \<exists>response. fetch rt url headers = Inr response \<and> response_ok response \<and>
       response_text response = Inr html"
  by (cases "fetch rt url headers") (simp_all add: page_ok_def)

lemma page_receivedD:
  "page_received rt url headers html \<Longrightarrow>
     \<exists>response. fetch rt url headers = Inr response \<and> response_text response = Inr html"
  by (cases "fetch rt url headers") (simp_all add: page_received_def)

lemma checkKeiyoLine_disruption:
  assumes "page_ok rt url_jreast_keiyo page_headers html"
    and "find (js_includes (dollar_text (cheerio_load rt html) ''body'')) keiyo_delayKeywords = Some k"
  shows "checkKeiyoLine rt =
           Inr \<lparr>lineName = line_keiyo, operator = operator_jr, status = keyword_status k,
                message = js_or (js_trim (dollar_first_text (cheerio_load rt html)
                                            ''.info, .delay-info, .status''))
                                (k @ msg_has_occurred),
                timestamp = newDate rt\<rparr>"
proof -
  obtain response where "fetch rt url_jreast_keiyo page_headers = Inr response" "response_ok response"
    "response_text response = Inr html"
    using assms(1) page_okD by blast
  then show ?thesis using assms(2-)
    by (simp add: checkKeiyoLine_def checkKeiyoLine_try_def Let_def keyword_status_not_unknown)
qed

lemma checkKeiyoLine_normal:
  assumes "page_ok rt url_jreast_keiyo page_headers html"
    and "find (js_includes (dollar_text (cheerio_load rt html) ''body'')) keiyo_delayKeywords = None"
    and "find (js_includes (dollar_text (cheerio_load rt html) ''body'')) keiyo_normalKeywords = Some k"
  shows "checkKeiyoLine rt =
           Inr \<lparr>lineName = line_keiyo, operator = operator_jr, status = Normal,
                message = kw_heijo_unten, timestamp = newDate rt\<rparr>"
proof -
  obtain response where "fetch rt url_jreast_keiyo page_headers = Inr response" "response_ok response"
    "response_text response = Inr html"
    using assms(1) page_okD by blast
  then show ?thesis using assms(2-)
    by (simp add: checkKeiyoLine_def checkKeiyoLine_try_def Let_def keyword_status_not_unknown)
qed

lemma checkKeiyoLine_default:
  assumes "page_ok rt url_jreast_keiyo page_headers html"
    and "find (js_includes (dollar_text (cheerio_load rt html) ''body'')) keiyo_delayKeywords = None"
    and "find (js_includes (dollar_text (cheerio_load rt html) ''body'')) keiyo_normalKeywords = None"
  shows "checkKeiyoLine rt =
           Inr \<lparr>lineName = line_keiyo, operator = operator_jr, status = Unknown,
                message = msg_status_unknown, timestamp = newDate rt\<rparr>"
proof -
  obtain response where "fetch rt url_jreast_keiyo page_headers = Inr response" "response_ok response"
    "response_text response = Inr html"
    using assms(1) page_okD by blast
  then show ?thesis using assms(2-)
    by (simp add: checkKeiyoLine_def checkKeiyoLine_try_def Let_def keyword_status_not_unknown)
qed

lemma checkHibiyaLine_disruption:
  assumes "page_ok rt url_metro_hibiya page_headers html"
    and "find (js_includes (dollar_text (cheerio_load rt html) ''body'')) hibiya_delayKeywords = Some k"
  shows "checkHibiyaLine rt =
           Inr \<lparr>lineName = line_hibiya, operator = operator_metro, status = keyword_status k,
                message = k @ msg_has_occurred, timestamp = newDate rt\<rparr>"
proof -
  obtain response where "fetch rt url_metro_hibiya page_headers = Inr response" "response_ok response"
    "response_text response = Inr html"
    using assms(1) page_okD by blast
  then show ?thesis using assms(2-)
    by (simp add: checkHibiyaLine_def checkHibiyaLine_try_def Let_def keyword_status_not_unknown)
qed

lemma checkHibiyaLine_normal:
  assumes "page_ok rt url_metro_hibiya page_headers html"
    and "find (js_includes (dollar_text (cheerio_load rt html) ''body'')) hibiya_delayKeywords = None"
    and "find (js_includes (dollar_text (cheerio_load rt html) ''body'')) hibiya_normalKeywords = Some k"
  shows "checkHibiyaLine rt =
           Inr \<lparr>lineName = line_hibiya, operator = operator_metro, status = Normal,
                message = kw_heijo_unten, timestamp = newDate rt\<rparr>"
proof -
  obtain response where "fetch rt url_metro_hibiya page_headers = Inr response" "response_ok response"
    "response_text response = Inr html"
    using assms(1) page_okD by blast
  then show ?thesis using assms(2-)
    by (simp add: checkHibiyaLine_def checkHibiyaLine_try_def Let_def keyword_status_not_unknown)
qed

lemma checkHibiyaLine_default:
  assumes "page_ok rt url_metro_hibiya page_headers html"
    and "find (js_includes (dollar_text (cheerio_load rt html) ''body'')) hibiya_delayKeywords = None"
    and "find (js_includes (dollar_text (cheerio_load rt html) ''body'')) hibiya_normalKeywords = None"
  shows "checkHibiyaLine rt =
           Inr \<lparr>lineName = line_hibiya, operator = operator_metro, status = Normal,
                message = msg_no_info, timestamp = newDate rt\<rparr>"
proof -
  obtain response where "fetch rt url_metro_hibiya page_headers = Inr response" "response_ok response"
    "response_text response = Inr html"
    using assms(1) page_okD by blast
  then show ?thesis using assms(2-)
    by (simp add: checkHibiyaLine_def checkHibiyaLine_try_def Let_def keyword_status_not_unknown)
qed

lemma checkKeiyoLine_failure:
  assumes "retrieval_failed (fetch rt url_jreast_keiyo page_headers)"
  shows "checkKeiyoLine rt =
           Inr \<lparr>lineName = line_keiyo, operator = operator_jr, status = Unknown,
                message = msg_check_failed @
                          failure_description (fetch rt url_jreast_keiyo page_headers),
                timestamp = newDate rt\<rparr>"
proof (cases "fetch rt url_jreast_keiyo page_headers")
  case (Inl e)
  then show ?thesis
    by (simp add: checkKeiyoLine_def checkKeiyoLine_try_def failure_description_def
        thrown_message_def)
next
  case (Inr response)
  show ?thesis
  proof (cases "response_ok response")
    case True
    then obtain e where "response_text response = Inl e"
      using assms Inr by (cases "response_text response") (simp_all add: retrieval_failed_def)
    then show ?thesis using Inr True
      by (simp add: checkKeiyoLine_def checkKeiyoLine_try_def failure_description_def
          thrown_message_def)
  next
    case False
    then show ?thesis using Inr
      by (simp add: checkKeiyoLine_def checkKeiyoLine_try_def failure_description_def
          thrown_message_def)
  qed
qed

lemma checkHibiyaLine_failure:
  assumes "retrieval_failed (fetch rt url_metro_hibiya page_headers)"
  shows "checkHibiyaLine rt =
           Inr \<lparr>lineName = line_hibiya, operator = operator_metro, status = Unknown,
                message = msg_check_failed @
                          failure_description (fetch rt url_metro_hibiya page_headers),
                timestamp = newDate rt\<rparr>"
proof (cases "fetch rt url_metro_hibiya page_headers")
  case (Inl e)
  then show ?thesis
    by (simp add: checkHibiyaLine_def checkHibiyaLine_try_def failure_description_def
        thrown_message_def)
next
  case (Inr response)
  show ?thesis
  proof (cases "response_ok response")
    case True
    then obtain e where "response_text response = Inl e"
      using assms Inr by (cases "response_text response") (simp_all add: retrieval_failed_def)
    then show ?thesis using Inr True
      by (simp add: checkHibiyaLine_def checkHibiyaLine_try_def failure_description_def
          thrown_message_def)
  next
    case False
    then show ?thesis using Inr
      by (simp add: checkHibiyaLine_def checkHibiyaLine_try_def failure_description_def
          thrown_message_def)
  qed
qed

lemma urls_distinct: "url_jreast_keiyo \<noteq> url_metro_hibiya" "url_yahoo_hibiya \<noteq> url_yahoo_keiyo"
  by (simp_all add: url_jreast_keiyo_def url_metro_hibiya_def url_yahoo_hibiya_def url_yahoo_keiyo_def u16_def)

lemma checkHibiyaLine_try_other_fetch:
  "checkHibiyaLine_try (rt\<lparr>fetch := (fetch rt)(url_jreast_keiyo := f)\<rparr>) = checkHibiyaLine_try rt"
proof (cases "fetch rt url_metro_hibiya page_headers")
  case (Inl e)
  then show ?thesis using urls_distinct(1) by (simp add: checkHibiyaLine_try_def)
next
  case (Inr response)
  then show ?thesis using urls_distinct(1)
    by (cases "response_text response") (simp_all add: checkHibiyaLine_try_def)
qed

lemma checkHibiyaLine_other_fetch:
  "checkHibiyaLine (rt\<lparr>fetch := (fetch rt)(url_jreast_keiyo := f)\<rparr>) = checkHibiyaLine rt"
  by (simp add: checkHibiyaLine_def checkHibiyaLine_try_other_fetch split: sum.split)

lemma checkKeiyoLine_try_other_fetch:
  "checkKeiyoLine_try (rt\<lparr>fetch := (fetch rt)(url_metro_hibiya := f)\<rparr>) = checkKeiyoLine_try rt"
proof (cases "fetch rt url_jreast_keiyo page_headers")
  case (Inl e)
  then show ?thesis using urls_distinct(1) by (simp add: checkKeiyoLine_try_def)
next
  case (Inr response)
  then show ?thesis using urls_distinct(1)
    by (cases "response_text response") (simp_all add: checkKeiyoLine_try_def)
qed

lemma checkKeiyoLine_other_fetch:
  "checkKeiyoLine (rt\<lparr>fetch := (fetch rt)(url_metro_hibiya := f)\<rparr>) = checkKeiyoLine rt"
  by (simp add: checkKeiyoLine_def checkKeiyoLine_try_other_fetch split: sum.split)

subsection \<open>Pages of plain text\<close>

lemma find_in_set: "k \<in> set ks \<Longrightarrow> P k \<Longrightarrow> \<exists>k'. find P ks = Some k'"
  by (induction ks) auto

lemma run_pages_ok:
  "page_ok (run_pages txt) url headers txt" "page_received (run_pages txt) url headers txt"
  by (simp_all add: page_ok_def page_received_def run_pages_def scenario_defs)

lemma run_pages_body: "dollar_text (cheerio_load (run_pages txt) html) ''body'' = html"
  by (simp add: run_pages_def scenario_defs)


subsection \<open>The cases of the check-delay.ts and worker checkers\<close>

lemma js_test_alts_list_ex:
  "ks \<noteq> [] \<Longrightarrow> js_test (rx_alts ks) s = list_ex (js_includes s) ks"
  by (simp add: js_test_alts list_ex_iff)

lemma test_delay_words: "js_test (rx_alts delay_words) s = list_ex (js_includes s) delay_words"
  by (rule js_test_alts_list_ex) (simp add: delay_words_def)

lemma test_jr_isNormal:
  "js_test jr_isNormal_rx s =
     list_ex (js_includes s) [kw_heijo_unten, kw_heijo_doori_kanji, kw_tsujo_doori]"
  unfolding jr_isNormal_rx_def by (rule js_test_alts_list_ex) simp

lemma length_fixed_messages:
  "length kw_heijo_unten = 4" "length msg_see_official_site = 9" "length msg_no_info = 18"
  "length msg_has_occurred = 8" "length msg_status_unknown = 23"
  by (simp_all add: kw_heijo_unten_def msg_see_official_site_def msg_no_info_def
      msg_has_occurred_def msg_status_unknown_def u16_def)

lemma checkJRKeiyo_page:
  assumes "page_received rt url_jreast_keiyo [(''User-Agent'', user_agent)] html"
  shows "\<exists>d. snd (checkJRKeiyo rt) = Inr d \<and>
           status' d =
             (if list_ex (js_includes (dollar_text (cheerio_load rt html) ''body'')) delay_words \<and>
                 \<not> list_ex (js_includes (dollar_text (cheerio_load rt html) ''body''))
                       [kw_heijo_unten, kw_heijo_doori_kanji, kw_tsujo_doori]
              then Delayed else Normal)"
proof -
  obtain response where "fetch rt url_jreast_keiyo [(''User-Agent'', user_agent)] = Inr response"
    "response_text response = Inr html"
    using assms page_receivedD by blast
  then show ?thesis
    by (simp add: checkJRKeiyo_def checkJRKeiyo_try_def Let_def test_delay_words
        test_jr_isNormal)
qed

lemma checkYahooTransit_page:
  assumes "page_received rt (yahooUrls key) [(''User-Agent'', user_agent)] html"
    and "area = js_or (dollar_text (cheerio_load rt html) ''.trouble'')
                      (dollar_text (cheerio_load rt html) ''body'')"
  shows "\<exists>d. checkYahooTransit rt key = Inr d \<and>
           status' d =
             (if list_ex (js_includes area) delay_words \<and>
                 \<not> (js_includes area kw_heijo_unten \<or> js_includes area kw_no_info)
              then Delayed else Normal) \<and>
           length (message' d) \<le> 300"
proof -
  obtain response where "fetch rt (yahooUrls key) [(''User-Agent'', user_agent)] = Inr response"
    "response_text response = Inr html"
    using assms(1) page_receivedD by blast
  then show ?thesis using assms(2)
    by (simp add: checkYahooTransit_def checkYahooTransit_try_def Let_def test_delay_words
        length_fixed_messages)
qed

lemma checkYahooTransit_worker_page:
  assumes "page_received rt (yahooUrls key) [(''User-Agent'', user_agent)] html"
  shows "\<exists>d. checkYahooTransit_worker rt key = Inr d \<and>
           status' d =
             (if list_ex (js_includes (textContent_of html)) delay_words \<and>
                 \<not> (js_includes (textContent_of html) kw_heijo_unten \<or>
                    js_includes (textContent_of html) kw_no_info)
              then Delayed else Normal)"
proof -
  obtain response where "fetch rt (yahooUrls key) [(''User-Agent'', user_agent)] = Inr response"
    "response_text response = Inr html"
    using assms(1) page_receivedD by blast
  then show ?thesis
    by (simp add: checkYahooTransit_worker_def checkYahooTransit_worker_try_def Let_def
        test_delay_words)
qed

lemma checkMetroHibiya_status:
  "\<exists>d. snd (checkMetroHibiya rt) = Inr d \<and> status' d \<noteq> Suspended"
proof (cases "checkMetroHibiya_try rt")
  case (Inl e)
  then show ?thesis by (simp add: checkMetroHibiya_def)
next
  case (Inr d)
  then have "status' d = Delayed \<or> status' d = Normal"
    by (auto simp: checkMetroHibiya_try_def Let_def split: sum.splits if_splits)
  then show ?thesis using Inr by (auto simp: checkMetroHibiya_def)
qed

lemma checkJRKeiyo_status:
  "\<exists>d. snd (checkJRKeiyo rt) = Inr d \<and> status' d \<noteq> Suspended"
proof (cases "checkJRKeiyo_try rt")
  case (Inl e)
  then show ?thesis by (simp add: checkJRKeiyo_def)
next
  case (Inr d)
  then have "status' d = Delayed \<or> status' d = Normal"
    by (auto simp: checkJRKeiyo_try_def Let_def split: sum.splits if_splits)
  then show ?thesis using Inr by (auto simp: checkJRKeiyo_def)
qed

lemma disrupted_keyword_status: "disrupted (keyword_status k)"
  by (simp add: disrupted_def keyword_status_def)

lemma checkKeiyoLine_keyword:
  "page_ok rt url_jreast_keiyo page_headers html \<and> keyword \<in> set keiyo_delayKeywords \<and>
    js_includes (dollar_text (cheerio_load rt html) ''body'') keyword
    \<longrightarrow> (\<exists>first ls.
           find (js_includes (dollar_text (cheerio_load rt html) ''body'')) keiyo_delayKeywords
             = Some first \<and>
           checkKeiyoLine rt = Inr ls \<and> status ls = keyword_status first \<and>
           disrupted (status ls) \<and> status ls \<noteq> Normal)"
proof (intro impI, elim conjE)
  assume p: "page_ok rt url_jreast_keiyo page_headers html"
    and k: "keyword \<in> set keiyo_delayKeywords"
    and i: "js_includes (dollar_text (cheerio_load rt html) ''body'') keyword"
  obtain first where
    f: "find (js_includes (dollar_text (cheerio_load rt html) ''body'')) keiyo_delayKeywords
          = Some first"
    using find_in_set [OF k, of "js_includes (dollar_text (cheerio_load rt html) ''body'')"] i
    by auto
  note r = checkKeiyoLine_disruption [OF p f]
  show "\<exists>first ls.
           find (js_includes (dollar_text (cheerio_load rt html) ''body'')) keiyo_delayKeywords
             = Some first \<and>
           checkKeiyoLine rt = Inr ls \<and> status ls = keyword_status first \<and>
           disrupted (status ls) \<and> status ls \<noteq> Normal"
    by (intro exI conjI, rule f, rule r)
       (simp_all add: disrupted_keyword_status keyword_status_not_unknown)
qed

lemma checkHibiyaLine_keyword:
  "page_ok rt url_metro_hibiya page_headers html \<and> keyword \<in> set hibiya_delayKeywords \<and>
    js_includes (dollar_text (cheerio_load rt html) ''body'') keyword
    \<longrightarrow> (\<exists>first ls.
           find (js_includes (dollar_text (cheerio_load rt html) ''body'')) hibiya_delayKeywords
             = Some first \<and>
           checkHibiyaLine rt = Inr ls \<and> status ls = keyword_status first \<and>
           disrupted (status ls) \<and> status ls \<noteq> Normal)"
proof (intro impI, elim conjE)
  assume p: "page_ok rt url_metro_hibiya page_headers html"
    and k: "keyword \<in> set hibiya_delayKeywords"
    and i: "js_includes (dollar_text (cheerio_load rt html) ''body'') keyword"
  obtain first where
    f: "find (js_includes (dollar_text (cheerio_load rt html) ''body'')) hibiya_delayKeywords
          = Some first"
    using find_in_set [OF k, of "js_includes (dollar_text (cheerio_load rt html) ''body'')"] i
    by auto
  note r = checkHibiyaLine_disruption [OF p f]
  show "\<exists>first ls.
           find (js_includes (dollar_text (cheerio_load rt html) ''body'')) hibiya_delayKeywords
             = Some first \<and>
           checkHibiyaLine rt = Inr ls \<and> status ls = keyword_status first \<and>
           disrupted (status ls) \<and> status ls \<noteq> Normal"
    by (intro exI conjI, rule f, rule r)
       (simp_all add: disrupted_keyword_status keyword_status_not_unknown)
qed

lemma checkYahooTransit_page_status:
  assumes "page_received rt (yahooUrls key) [(''User-Agent'', user_agent)] html"
  shows "\<exists>d. checkYahooTransit rt key = Inr d \<and>
           status' d =
             (if list_ex (js_includes (statusArea rt html)) delay_words \<and>
                 \<not> (js_includes (statusArea rt html) kw_heijo_unten \<or>
                    js_includes (statusArea rt html) kw_no_info)
              then Delayed else Normal)"
proof -
  obtain d where "checkYahooTransit rt key = Inr d"
    "status' d =
             (if list_ex (js_includes (statusArea rt html)) delay_words \<and>
                 \<not> (js_includes (statusArea rt html) kw_heijo_unten \<or>
                    js_includes (statusArea rt html) kw_no_info)
              then Delayed else Normal)"
    using checkYahooTransit_page [OF assms refl] by (elim exE conjE)
  then show ?thesis by (intro exI conjI)
qed

lemma certificate_page_facts:
  "js_includes page_normal_with_certificate kw_chien"
  "js_includes page_normal_with_certificate kw_heijo_unten"
  "kw_chien \<in> set keiyo_delayKeywords" "kw_chien \<in> set hibiya_delayKeywords"
  "kw_chien \<in> set delay_words"
  by (simp_all add: page_normal_with_certificate_def word_chien_shomeisho_def kw_defs
      keiyo_delayKeywords_def hibiya_delayKeywords_def delay_words_def)

lemma certificate_page_index:
  "checkKeiyoLine (run_pages page_normal_with_certificate) =
     Inr \<lparr>lineName = line_keiyo, operator = operator_jr, status = Delayed,
          message = kw_chien @ msg_has_occurred, timestamp = 0\<rparr>"
  "checkHibiyaLine (run_pages page_normal_with_certificate) =
     Inr \<lparr>lineName = line_hibiya, operator = operator_metro, status = Delayed,
          message = kw_chien @ msg_has_occurred, timestamp = 0\<rparr>"
  by (simp_all add: run_pages_def index_defs scenario_defs page_normal_with_certificate_def
      word_chien_shomeisho_def kw_defs url_defs u16_def Let_def js_trim_def)

lemma certificate_page_jr:
  "snd (checkJRKeiyo (run_pages page_normal_with_certificate)) =
     Inr \<lparr>line = line_keiyo, operator' = operator_jr, status' = Normal,
          message' = kw_heijo_unten, timestamp' = u16 ''2024-01-15T09:20:00.000Z''\<rparr>"
  by (simp add: run_pages_def checkJRKeiyo_def checkJRKeiyo_try_def scenario_defs
      page_normal_with_certificate_def word_chien_shomeisho_def kw_defs url_defs
      Let_def test_delay_words test_jr_isNormal delay_words_def)

lemma certificate_page_yahoo:
  "checkYahooTransit (run_pages page_normal_with_certificate) key =
     Inr \<lparr>line = yahoo_lineName key, operator' = yahoo_operator key, status' = Normal,
          message' = kw_heijo_unten, timestamp' = u16 ''2024-01-15T09:20:00.000Z''\<rparr>"
  by (simp add: run_pages_def checkYahooTransit_def checkYahooTransit_try_def scenario_defs
      page_normal_with_certificate_def word_chien_shomeisho_def kw_defs url_defs
      Let_def test_delay_words delay_words_def)

lemma textContent_certificate:
  "textContent_of page_normal_with_certificate = page_normal_with_certificate"
  by (simp add: textContent_of_def rx_tag_def rx_spaces_def is_space_def
      page_normal_with_certificate_def word_chien_shomeisho_def kw_defs u16_def)

lemma certificate_page_worker:
  "checkYahooTransit_worker (run_pages page_normal_with_certificate) key =
     Inr \<lparr>line = yahoo_lineName key, operator' = yahoo_operator key, status' = Normal,
          message' = kw_heijo_unten, timestamp' = u16 ''2024-01-15T09:20:00.000Z''\<rparr>"
  using certificate_page_facts(2)
  by (simp add: run_pages_def checkYahooTransit_worker_def checkYahooTransit_worker_try_def
      scenario_defs textContent_certificate Let_def)


subsection \<open>Suspension keywords\<close>

lemma keyword_status_values:
  "keyword_status kw_chien = Delayed" "keyword_status kw_okure = Delayed"
  "keyword_status kw_unten_miawa = Suspended" "keyword_status kw_unkyu = Suspended"
  "keyword_status kw_unten_toriyame = Delayed" "keyword_status kw_orikaeshi_unten = Delayed"
  "keyword_status kw_chokutsu_chushi = Delayed"
  by (simp_all add: keyword_status_def kw_defs)

lemma keiyo_find_held:
  assumes "js_includes txt kw_unten_miawa \<or> js_includes txt kw_unkyu"
    and "\<not> js_includes txt kw_chien" and "\<not> js_includes txt kw_okure"
  shows "\<exists>k. find (js_includes txt) keiyo_delayKeywords = Some k \<and> keyword_status k = Suspended"
  using assms by (auto simp: keiyo_delayKeywords_def keyword_status_values)

lemma hibiya_find_held:
  assumes "js_includes txt kw_unten_miawa \<or> js_includes txt kw_unkyu"
    and "\<not> js_includes txt kw_chien" and "\<not> js_includes txt kw_okure"
  shows "\<exists>k. find (js_includes txt) hibiya_delayKeywords = Some k \<and> keyword_status k = Suspended"
  using assms by (auto simp: hibiya_delayKeywords_def keyword_status_values)

lemma keiyo_find_late:
  assumes "js_includes txt kw_chien \<or> js_includes txt kw_okure"
  shows "\<exists>k. find (js_includes txt) keiyo_delayKeywords = Some k \<and> keyword_status k = Delayed"
  using assms by (auto simp: keiyo_delayKeywords_def keyword_status_values)

lemma hibiya_find_late:
  assumes "js_includes txt kw_chien \<or> js_includes txt kw_okure"
  shows "\<exists>k. find (js_includes txt) hibiya_delayKeywords = Some k \<and> keyword_status k = Delayed"
  using assms by (auto simp: hibiya_delayKeywords_def keyword_status_values)

lemma checkKeiyoLine_held:
  "page_ok rt url_jreast_keiyo page_headers html \<and>
   (js_includes (statusText rt html) kw_unten_miawa \<or>
    js_includes (statusText rt html) kw_unkyu) \<and>
   \<not> js_includes (statusText rt html) kw_chien \<and>
   \<not> js_includes (statusText rt html) kw_okure
   \<longrightarrow> (\<exists>ls. checkKeiyoLine rt = Inr ls \<and> status ls = Suspended)"
proof (intro impI, elim conjE)
  assume p: "page_ok rt url_jreast_keiyo page_headers html"
    and a: "js_includes (statusText rt html) kw_unten_miawa \<or>
            js_includes (statusText rt html) kw_unkyu"
    and b: "\<not> js_includes (statusText rt html) kw_chien"
    and c: "\<not> js_includes (statusText rt html) kw_okure"
  obtain k where k: "find (js_includes (statusText rt html)) keiyo_delayKeywords = Some k"
    "keyword_status k = Suspended"
    using keiyo_find_held [OF a b c] by (elim exE conjE)
  show "\<exists>ls. checkKeiyoLine rt = Inr ls \<and> status ls = Suspended"
    by (intro exI conjI, rule checkKeiyoLine_disruption [OF p k(1)]) (simp add: k(2))
qed

lemma checkHibiyaLine_held:
  "page_ok rt url_metro_hibiya page_headers html \<and>
   (js_includes (statusText rt html) kw_unten_miawa \<or>
    js_includes (statusText rt html) kw_unkyu) \<and>
   \<not> js_includes (statusText rt html) kw_chien \<and>
   \<not> js_includes (statusText rt html) kw_okure
   \<longrightarrow> (\<exists>ls. checkHibiyaLine rt = Inr ls \<and> status ls = Suspended)"
proof (intro impI, elim conjE)
  assume p: "page_ok rt url_metro_hibiya page_headers html"
    and a: "js_includes (statusText rt html) kw_unten_miawa \<or>
            js_includes (statusText rt html) kw_unkyu"
    and b: "\<not> js_includes (statusText rt html) kw_chien"
    and c: "\<not> js_includes (statusText rt html) kw_okure"
  obtain k where k: "find (js_includes (statusText rt html)) hibiya_delayKeywords = Some k"
    "keyword_status k = Suspended"
    using hibiya_find_held [OF a b c] by (elim exE conjE)
  show "\<exists>ls. checkHibiyaLine rt = Inr ls \<and> status ls = Suspended"
    by (intro exI conjI, rule checkHibiyaLine_disruption [OF p k(1)]) (simp add: k(2))
qed

lemma checkKeiyoLine_late:
  "page_ok rt url_jreast_keiyo page_headers html \<and>
   (js_includes (statusText rt html) kw_chien \<or> js_includes (statusText rt html) kw_okure)
   \<longrightarrow> (\<exists>ls. checkKeiyoLine rt = Inr ls \<and> status ls = Delayed)"
proof (intro impI, elim conjE)
  assume p: "page_ok rt url_jreast_keiyo page_headers html"
    and a: "js_includes (statusText rt html) kw_chien \<or> js_includes (statusText rt html) kw_okure"
  obtain k where k: "find (js_includes (statusText rt html)) keiyo_delayKeywords = Some k"
    "keyword_status k = Delayed"
    using keiyo_find_late [OF a] by (elim exE conjE)
  show "\<exists>ls. checkKeiyoLine rt = Inr ls \<and> status ls = Delayed"
    by (intro exI conjI, rule checkKeiyoLine_disruption [OF p k(1)]) (simp add: k(2))
qed

lemma checkHibiyaLine_late:
  "page_ok rt url_metro_hibiya page_headers html \<and>
   (js_includes (statusText rt html) kw_chien \<or> js_includes (statusText rt html) kw_okure)
   \<longrightarrow> (\<exists>ls. checkHibiyaLine rt = Inr ls \<and> status ls = Delayed)"
proof (intro impI, elim conjE)
  assume p: "page_ok rt url_metro_hibiya page_headers html"
    and a: "js_includes (statusText rt html) kw_chien \<or> js_includes (statusText rt html) kw_okure"
  obtain k where k: "find (js_includes (statusText rt html)) hibiya_delayKeywords = Some k"
    "keyword_status k = Delayed"
    using hibiya_find_late [OF a] by (elim exE conjE)
  show "\<exists>ls. checkHibiyaLine rt = Inr ls \<and> status ls = Delayed"
    by (intro exI conjI, rule checkHibiyaLine_disruption [OF p k(1)]) (simp add: k(2))
qed

lemma held_page_facts:
  "js_includes word_unten_miawase kw_unten_miawa"
  "\<not> js_includes word_unten_miawase kw_chien" "\<not> js_includes word_unten_miawase kw_okure"
  "js_includes page_held_and_late word_unten_miawase"
  "js_includes page_held_and_late kw_unten_miawa"
  "js_includes page_held_and_late kw_chien"
  by (simp_all add: word_unten_miawase_def page_held_and_late_def kw_defs)

lemma held_page_index:
  "checkKeiyoLine (run_pages word_unten_miawase) =
     Inr \<lparr>lineName = line_keiyo, operator = operator_jr, status = Suspended,
          message = kw_unten_miawa @ msg_has_occurred, timestamp = 0\<rparr>"
  "checkHibiyaLine (run_pages word_unten_miawase) =
     Inr \<lparr>lineName = line_hibiya, operator = operator_metro, status = Suspended,
          message = kw_unten_miawa @ msg_has_occurred, timestamp = 0\<rparr>"
  "checkKeiyoLine (run_pages page_held_and_late) =
     Inr \<lparr>lineName = line_keiyo, operator = operator_jr, status = Delayed,
          message = kw_chien @ msg_has_occurred, timestamp = 0\<rparr>"
  "checkHibiyaLine (run_pages page_held_and_late) =
     Inr \<lparr>lineName = line_hibiya, operator = operator_metro, status = Delayed,
          message = kw_chien @ msg_has_occurred, timestamp = 0\<rparr>"
  by (simp_all add: run_pages_def index_defs scenario_defs word_unten_miawase_def
      page_held_and_late_def kw_defs url_defs u16_def Let_def js_trim_def)

lemma textContent_held: "textContent_of word_unten_miawase = word_unten_miawase"
  by (simp add: textContent_of_def rx_tag_def rx_spaces_def is_space_def
      word_unten_miawase_def)

lemma held_page_worker:
  "checkYahooTransit_worker (run_pages word_unten_miawase) key =
     Inr \<lparr>line = yahoo_lineName key, operator' = yahoo_operator key, status' = Delayed,
          message' = word_unten_miawase, timestamp' = u16 ''2024-01-15T09:20:00.000Z''\<rparr>"
  by (simp add: run_pages_def checkYahooTransit_worker_def checkYahooTransit_worker_try_def
      scenario_defs textContent_held Let_def test_delay_words)
     (simp add: delay_words_def word_unten_miawase_def kw_defs delayMatch_group_def
      rx_gap_or_end_def rx_group1_def is_dot_def is_space_def)


subsection \<open>Dispatch\<close>

lemma checkAllLines_events:
  "\<exists>result. checkAllLines rt = ([Console_log [Str log_checking]], Inr result)"
proof -
  obtain k h where "snd (checkAllLines rt) =
       Inr \<lparr>hasDelay = list_ex (\<lambda>line. status line = Delayed \<or> status line = Suspended) [k, h],
            lines = [k, h]\<rparr>"
    using checkAllLines_resolves by blast
  moreover have "fst (checkAllLines rt) = [Console_log [Str log_checking]]"
    by (simp add: checkAllLines_def)
  ultimately show ?thesis by (cases "checkAllLines rt") simp
qed

lemma no_send_console:
  "filter is_send (main_banner rt) = []" "filter is_send main_done = []"
  "filter is_send (concat (map main_report ls)) = []"
  "filter is_send (map resend_report rs) = []"
proof -
  show "filter is_send (main_banner rt) = []" by (simp add: main_banner_def)
  show "filter is_send main_done = []" by (simp add: main_done_def)
  show "filter is_send (concat (map main_report ls)) = []"
    by (induction ls) (simp_all add: main_report_def Let_def)
  show "filter is_send (map resend_report rs) = []"
    by (induction rs) (simp_all add: resend_report_def Let_def)
qed

lemma sendEmail_incomplete:
  "\<not> email_complete rt \<Longrightarrow>
     sendEmail rt result = ([Console_log [Str log_config_incomplete]], Inr ())"
  by (auto simp: sendEmail_def email_complete_def Let_def)

lemma sendEmail_complete:
  assumes "email_complete rt"
  shows "filter is_send (fst (sendEmail rt result)) =
    [SendMail
       \<lparr>host = smtpHost (CONFIG_email rt), port = smtpPort (CONFIG_email rt),
        secure = (smtpPort (CONFIG_email rt) = Some 465),
        auth_user = smtpUser (CONFIG_email rt), auth_pass = smtpPass (CONFIG_email rt)\<rparr>
       \<lparr>mail_from = email_from (CONFIG_email rt), mail_to = email_to (CONFIG_email rt),
        mail_subject = sendEmail_subject result, mail_text = sendEmail_textBody result,
        mail_html = sendEmail_htmlBody rt result\<rparr>]"
  using assms
  by (simp add: sendEmail_def email_complete_def Let_def split: sum.split)

lemma sendEmail_result:
  assumes "email_complete rt"
  shows "snd (sendEmail rt result) =
    sendMail rt
       \<lparr>host = smtpHost (CONFIG_email rt), port = smtpPort (CONFIG_email rt),
        secure = (smtpPort (CONFIG_email rt) = Some 465),
        auth_user = smtpUser (CONFIG_email rt), auth_pass = smtpPass (CONFIG_email rt)\<rparr>
       \<lparr>mail_from = email_from (CONFIG_email rt), mail_to = email_to (CONFIG_email rt),
        mail_subject = sendEmail_subject result, mail_text = sendEmail_textBody result,
        mail_html = sendEmail_htmlBody rt result\<rparr>"
  using assms
  by (simp add: sendEmail_def email_complete_def Let_def split: sum.split)

lemma main_sends:
  assumes "snd (checkAllLines rt) = Inr result"
  shows "filter is_send (fst (main rt)) =
           (if hasDelay result then filter is_send (fst (sendEmail rt result)) else [])"
proof -
  obtain r where r: "checkAllLines rt = ([Console_log [Str log_checking]], Inr r)"
    using checkAllLines_events by blast
  with assms have [simp]: "r = result" by simp
  obtain ev s where s: "sendEmail rt result = (ev, s)" by (cases "sendEmail rt result")
  show ?thesis
    using r s by (cases s) (simp_all add: main_def Let_def no_send_console)
qed

lemma main_rejects:
  assumes "snd (checkAllLines rt) = Inr result" "hasDelay result"
  shows "snd (main rt) = (case snd (sendEmail rt result) of Inl e \<Rightarrow> Inl e | Inr u \<Rightarrow> Inr ())"
proof -
  obtain r where r: "checkAllLines rt = ([Console_log [Str log_checking]], Inr r)"
    using checkAllLines_events by blast
  with assms have [simp]: "r = result" by simp
  obtain ev s where s: "sendEmail rt result = (ev, s)" by (cases "sendEmail rt result")
  show ?thesis
    using r s assms(2) by (cases s) (simp_all add: main_def Let_def)
qed

lemma resend_post_sends: "filter is_send (resend_post rt request) = [Post request]"
  by (simp add: resend_post_def split: sum.split)

lemma resend_post_logs_failure:
  "post rt request = Inl e \<Longrightarrow>
     resend_post rt request = [Post request, Console_error [Str log_error_sending, Err e]]"
  by (simp add: resend_post_def)

lemma sendEmail_resend_resolves: "snd (sendEmail_resend rt delays) = Inr ()"
  by (simp add: sendEmail_resend_def Let_def)

lemma sendEmail_worker_resolves: "snd (sendEmail_worker rt env delays) = Inr ()"
  by (simp add: sendEmail_worker_def Let_def)

lemma hasDelays_filter: "hasDelays rs \<longleftrightarrow> filter (\<lambda>d. status' d = Delayed) rs \<noteq> []"
  by (induction rs) (auto simp: hasDelays_def)

lemma sendEmail_resend_sends:
  "filter is_send (fst (sendEmail_resend rt delays)) =
     (if hasDelays delays \<and> \<not> falsy (process_env rt ''RESEND_API_KEY'') \<and>
         \<not> falsy (process_env rt ''TO_EMAIL'')
      then [Post \<lparr>req_url = url_resend, req_method = method_post,
                  req_headers =
                    [(''Authorization'', bearer @ env_or (process_env rt ''RESEND_API_KEY'') []),
                     (''Content-Type'', content_type_json)],
                  body_from = env_or (process_env rt ''FROM_EMAIL'') default_from_email,
                  body_to = env_or (process_env rt ''TO_EMAIL'') [],
                  body_subject = resend_subject delays,
                  body_html = resend_html (toLocaleString rt (newDate rt)) delays\<rparr>]
      else [])"
  by (simp add: sendEmail_resend_def Let_def hasDelays_filter resend_post_sends)

lemma sendEmail_worker_sends:
  "filter is_send (fst (sendEmail_worker rt env delays)) =
     (if hasDelays delays \<and> \<not> falsy (RESEND_API_KEY env) \<and> \<not> falsy (TO_EMAIL env)
      then [Post \<lparr>req_url = url_resend, req_method = method_post,
                  req_headers =
                    [(''Authorization'', bearer @ env_or (RESEND_API_KEY env) []),
                     (''Content-Type'', content_type_json)],
                  body_from = env_or (FROM_EMAIL env) default_from_email,
                  body_to = env_or (TO_EMAIL env) [],
                  body_subject = resend_subject delays,
                  body_html = worker_html (toLocaleString rt (newDate rt)) delays\<rparr>]
      else [])"
  by (simp add: sendEmail_worker_def Let_def hasDelays_filter resend_post_sends)

lemma main_resend_sends:
  assumes "main_results rt = Inr results"
  shows "filter is_send (fst (main_resend rt)) =
           (if hasDelays results then filter is_send (fst (sendEmail_resend rt results)) else [])"
proof -
  obtain ev s where s: "sendEmail_resend rt results = (ev, s)"
    by (cases "sendEmail_resend rt results")
  show ?thesis
    using assms s by (cases s) (simp_all add: main_resend_def Let_def no_send_console)
qed

lemma checkTrainDelays_sends:
  assumes "worker_results rt = Inr results"
  shows "filter is_send (fst (checkTrainDelays rt env)) =
           (if hasDelays results then filter is_send (fst (sendEmail_worker rt env results))
            else [])"
proof -
  obtain ev s where s: "sendEmail_worker rt env results = (ev, s)"
    by (cases "sendEmail_worker rt env results")
  show ?thesis
    using assms s by (cases s) (simp_all add: checkTrainDelays_def Let_def no_send_console)
qed

subsection \<open>The runs with a delay\<close>

lemma late_page_lines:
  "checkKeiyoLine (scenario (\<lambda>url. page_200 kw_okure) env sent posted) =
     Inr \<lparr>lineName = line_keiyo, operator = operator_jr, status = Delayed,
          message = kw_okure @ msg_has_occurred, timestamp = 0\<rparr>"
  "checkHibiyaLine (scenario (\<lambda>url. page_200 kw_okure) env sent posted) =
     Inr \<lparr>lineName = line_hibiya, operator = operator_metro, status = Delayed,
          message = kw_okure @ msg_has_occurred, timestamp = 0\<rparr>"
  by (simp_all add: index_defs scenario_defs kw_defs url_defs u16_def Let_def js_trim_def)

lemma late_page_yahoo:
  "checkYahooTransit (scenario (\<lambda>url. page_200 kw_okure) env sent posted) key =
     Inr \<lparr>line = yahoo_lineName key, operator' = yahoo_operator key, status' = Delayed,
          message' = kw_okure, timestamp' = u16 ''2024-01-15T09:20:00.000Z''\<rparr>"
  by (simp add: checkYahooTransit_def checkYahooTransit_try_def scenario_defs Let_def
      test_delay_words)
     (simp add: delay_words_def kw_defs)

lemma textContent_okure: "textContent_of kw_okure = kw_okure"
  by (simp add: textContent_of_def rx_tag_def rx_spaces_def is_space_def kw_defs)

lemma late_page_worker:
  "checkYahooTransit_worker (scenario (\<lambda>url. page_200 kw_okure) env sent posted) key =
     Inr \<lparr>line = yahoo_lineName key, operator' = yahoo_operator key, status' = Delayed,
          message' = kw_okure, timestamp' = u16 ''2024-01-15T09:20:00.000Z''\<rparr>"
  by (simp add: checkYahooTransit_worker_def checkYahooTransit_worker_try_def
      scenario_defs textContent_okure Let_def test_delay_words)
     (simp add: delay_words_def kw_defs delayMatch_group_def
      rx_gap_or_end_def rx_group1_def is_dot_def is_space_def)

lemma late_page_results:
  "snd (checkAllLines (scenario (\<lambda>url. page_200 kw_okure) env sent posted)) =
     Inr \<lparr>hasDelay = True,
          lines = [\<lparr>lineName = line_keiyo, operator = operator_jr, status = Delayed,
                    message = kw_okure @ msg_has_occurred, timestamp = 0\<rparr>,
                   \<lparr>lineName = line_hibiya, operator = operator_metro, status = Delayed,
                    message = kw_okure @ msg_has_occurred, timestamp = 0\<rparr>]\<rparr>"
  "main_results (scenario (\<lambda>url. page_200 kw_okure) env sent posted) =
     Inr [\<lparr>line = line_hibiya, operator' = operator_metro, status' = Delayed,
           message' = kw_okure, timestamp' = u16 ''2024-01-15T09:20:00.000Z''\<rparr>,
          \<lparr>line = line_keiyo, operator' = operator_jr, status' = Delayed,
           message' = kw_okure, timestamp' = u16 ''2024-01-15T09:20:00.000Z''\<rparr>]"
  "worker_results (scenario (\<lambda>url. page_200 kw_okure) env sent posted) =
     Inr [\<lparr>line = line_hibiya, operator' = operator_metro, status' = Delayed,
           message' = kw_okure, timestamp' = u16 ''2024-01-15T09:20:00.000Z''\<rparr>,
          \<lparr>line = line_keiyo, operator' = operator_jr, status' = Delayed,
           message' = kw_okure, timestamp' = u16 ''2024-01-15T09:20:00.000Z''\<rparr>]"
  by (simp_all add: checkAllLines_def main_results_def worker_results_def late_page_lines
      late_page_yahoo late_page_worker yahoo_lineName_def yahoo_operator_def)

lemma env_complete_values:
  "email_complete (scenario pages env_complete sent posted)"
  "\<not> falsy (process_env (scenario pages env_complete sent posted) ''RESEND_API_KEY'')"
  "\<not> falsy (process_env (scenario pages env_complete sent posted) ''TO_EMAIL'')"
  "\<not> falsy (RESEND_API_KEY worker_env_complete)" "\<not> falsy (TO_EMAIL worker_env_complete)"
  by (simp_all add: email_complete_def CONFIG_email_def scenario_def env_complete_def env_or_def
      falsy_def worker_env_complete_def u16_def)

lemma env_unset_values:
  "\<not> email_complete (scenario pages env_unset sent posted)"
  "falsy (process_env (scenario pages env_unset sent posted) name)"
  by (simp_all add: email_complete_def CONFIG_email_def scenario_def env_unset_def env_or_def
      falsy_def)

lemma late_complete_facts:
  "snd (checkAllLines run_late_complete) =
     Inr \<lparr>hasDelay = True,
          lines = [\<lparr>lineName = line_keiyo, operator = operator_jr, status = Delayed,
                    message = kw_okure @ msg_has_occurred, timestamp = 0\<rparr>,
                   \<lparr>lineName = line_hibiya, operator = operator_metro, status = Delayed,
                    message = kw_okure @ msg_has_occurred, timestamp = 0\<rparr>]\<rparr>"
  "main_results run_late_complete =
     Inr [\<lparr>line = line_hibiya, operator' = operator_metro, status' = Delayed,
           message' = kw_okure, timestamp' = u16 ''2024-01-15T09:20:00.000Z''\<rparr>,
          \<lparr>line = line_keiyo, operator' = operator_jr, status' = Delayed,
           message' = kw_okure, timestamp' = u16 ''2024-01-15T09:20:00.000Z''\<rparr>]"
  "worker_results run_late_complete =
     Inr [\<lparr>line = line_hibiya, operator' = operator_metro, status' = Delayed,
           message' = kw_okure, timestamp' = u16 ''2024-01-15T09:20:00.000Z''\<rparr>,
          \<lparr>line = line_keiyo, operator' = operator_jr, status' = Delayed,
           message' = kw_okure, timestamp' = u16 ''2024-01-15T09:20:00.000Z''\<rparr>]"
  "email_complete run_late_complete"
  "\<not> falsy (process_env run_late_complete ''RESEND_API_KEY'')"
  "\<not> falsy (process_env run_late_complete ''TO_EMAIL'')"
  unfolding run_late_complete_def
  by (simp_all add: late_page_results env_complete_values)

lemma keiyo_unreachable_results:
  "snd (checkAllLines run_keiyo_unreachable) =
     Inr \<lparr>hasDelay = False,
          lines = [\<lparr>lineName = line_keiyo, operator = operator_jr, status = Unknown,
                    message = msg_check_failed @ u16 ''fetch failed'', timestamp = 0\<rparr>,
                   \<lparr>lineName = line_hibiya, operator = operator_metro, status = Normal,
                    message = kw_heijo_unten, timestamp = 0\<rparr>]\<rparr>"
  "main_results run_keiyo_unreachable =
     Inr [\<lparr>line = line_hibiya, operator' = operator_metro, status' = Normal,
           message' = kw_heijo_unten, timestamp' = u16 ''2024-01-15T09:20:00.000Z''\<rparr>,
          \<lparr>line = line_keiyo, operator' = operator_jr, status' = Normal,
           message' = kw_heijo_unten, timestamp' = u16 ''2024-01-15T09:20:00.000Z''\<rparr>]"
  "worker_results run_keiyo_unreachable =
     Inr [\<lparr>line = line_hibiya, operator' = operator_metro, status' = Normal,
           message' = kw_heijo_unten, timestamp' = u16 ''2024-01-15T09:20:00.000Z''\<rparr>,
          \<lparr>line = line_keiyo, operator' = operator_jr, status' = Normal,
           message' = kw_heijo_unten, timestamp' = u16 ''2024-01-15T09:20:00.000Z''\<rparr>]"
  by (simp_all add: checkAllLines_def main_results_def worker_results_def
      keiyo_unreachable_lines keiyo_unreachable_yahoo keiyo_unreachable_worker
      yahoo_lineName_def yahoo_operator_def)


subsection \<open>Incomplete settings and failing sends\<close>

lemma email_complete_env:
  "email_complete rt \<longleftrightarrow>
     \<not> falsy (process_env rt ''NOTIFY_EMAIL'') \<and> \<not> falsy (process_env rt ''SMTP_USER'') \<and>
     \<not> falsy (process_env rt ''SMTP_PASS'')"
  by (auto simp: email_complete_def CONFIG_email_def env_or_def falsy_def split: option.splits)

lemma sendEmail_resend_unconfigured:
  "falsy (process_env rt ''RESEND_API_KEY'') \<or> falsy (process_env rt ''TO_EMAIL'') \<Longrightarrow>
     sendEmail_resend rt delays = ([Console_error [Str log_missing_key]], Inr ())"
  by (auto simp: sendEmail_resend_def Let_def)

lemma sendEmail_worker_unconfigured:
  "falsy (RESEND_API_KEY env) \<or> falsy (TO_EMAIL env) \<Longrightarrow>
     sendEmail_worker rt env delays = ([Console_error [Str log_missing_key]], Inr ())"
  by (auto simp: sendEmail_worker_def Let_def)

lemma main_unconfigured:
  assumes "\<not> email_complete rt"
  shows "filter is_send (fst (main rt)) = []"
proof -
  obtain result where r: "snd (checkAllLines rt) = Inr result"
    using checkAllLines_resolves by blast
  show ?thesis using assms by (simp add: main_sends [OF r] sendEmail_incomplete)
qed

lemma main_resend_unconfigured:
  assumes "falsy (process_env rt ''RESEND_API_KEY'') \<or> falsy (process_env rt ''TO_EMAIL'')"
  shows "filter is_send (fst (main_resend rt)) = []"
proof -
  obtain h k where r: "main_results rt = Inr [h, k]"
    using main_results_resolves by blast
  show ?thesis using assms by (auto simp: main_resend_sends [OF r] sendEmail_resend_sends)
qed

lemma checkTrainDelays_unconfigured:
  assumes "falsy (RESEND_API_KEY env) \<or> falsy (TO_EMAIL env)"
  shows "filter is_send (fst (checkTrainDelays rt env)) = []"
proof -
  obtain h k where r: "worker_results rt = Inr [h, k]"
    using worker_results_resolves by blast
  show ?thesis using assms by (auto simp: checkTrainDelays_sends [OF r] sendEmail_worker_sends)
qed

lemma no_credentials_facts:
  "snd (checkAllLines run_late_no_credentials) =
     Inr \<lparr>hasDelay = True,
          lines = [\<lparr>lineName = line_keiyo, operator = operator_jr, status = Delayed,
                    message = kw_okure @ msg_has_occurred, timestamp = 0\<rparr>,
                   \<lparr>lineName = line_hibiya, operator = operator_metro, status = Delayed,
                    message = kw_okure @ msg_has_occurred, timestamp = 0\<rparr>]\<rparr>"
  "main_results run_late_no_credentials =
     Inr [\<lparr>line = line_hibiya, operator' = operator_metro, status' = Delayed,
           message' = kw_okure, timestamp' = u16 ''2024-01-15T09:20:00.000Z''\<rparr>,
          \<lparr>line = line_keiyo, operator' = operator_jr, status' = Delayed,
           message' = kw_okure, timestamp' = u16 ''2024-01-15T09:20:00.000Z''\<rparr>]"
  "worker_results run_late_no_credentials =
     Inr [\<lparr>line = line_hibiya, operator' = operator_metro, status' = Delayed,
           message' = kw_okure, timestamp' = u16 ''2024-01-15T09:20:00.000Z''\<rparr>,
          \<lparr>line = line_keiyo, operator' = operator_jr, status' = Delayed,
           message' = kw_okure, timestamp' = u16 ''2024-01-15T09:20:00.000Z''\<rparr>]"
  unfolding run_late_no_credentials_def
  by (simp_all add: late_page_results)

lemma no_credentials_env:
  "\<not> falsy (process_env run_late_no_credentials ''NOTIFY_EMAIL'')"
  "falsy (process_env run_late_no_credentials ''SMTP_USER'')"
  "falsy (process_env run_late_no_credentials ''RESEND_API_KEY'')"
  "falsy (RESEND_API_KEY worker_env_no_key)"
  by (simp_all add: run_late_no_credentials_def scenario_def env_recipient_only_def falsy_def
      worker_env_no_key_def u16_def)

lemma send_fails_facts:
  "snd (checkAllLines run_send_fails) =
     Inr \<lparr>hasDelay = True,
          lines = [\<lparr>lineName = line_keiyo, operator = operator_jr, status = Delayed,
                    message = kw_chien @ msg_has_occurred, timestamp = 0\<rparr>,
                   \<lparr>lineName = line_hibiya, operator = operator_metro, status = Delayed,
                    message = kw_chien @ msg_has_occurred, timestamp = 0\<rparr>]\<rparr>"
  "email_complete run_send_fails"
  "sendMail run_send_fails t m = Inl smtp_error"
  "post run_send_fails request = Inl network_error"
proof -
  have "checkKeiyoLine run_send_fails =
     Inr \<lparr>lineName = line_keiyo, operator = operator_jr, status = Delayed,
          message = kw_chien @ msg_has_occurred, timestamp = 0\<rparr>"
    "checkHibiyaLine run_send_fails =
     Inr \<lparr>lineName = line_hibiya, operator = operator_metro, status = Delayed,
          message = kw_chien @ msg_has_occurred, timestamp = 0\<rparr>"
    by (simp_all add: run_send_fails_def index_defs scenario_defs kw_defs url_defs u16_def
        Let_def js_trim_def)
  then show "snd (checkAllLines run_send_fails) =
     Inr \<lparr>hasDelay = True,
          lines = [\<lparr>lineName = line_keiyo, operator = operator_jr, status = Delayed,
                    message = kw_chien @ msg_has_occurred, timestamp = 0\<rparr>,
                   \<lparr>lineName = line_hibiya, operator = operator_metro, status = Delayed,
                    message = kw_chien @ msg_has_occurred, timestamp = 0\<rparr>]\<rparr>"
    by (simp add: checkAllLines_def)
  show "email_complete run_send_fails"
    unfolding run_send_fails_def by (rule env_complete_values)
  show "sendMail run_send_fails t m = Inl smtp_error"
    "post run_send_fails request = Inl network_error"
    by (simp_all add: run_send_fails_def scenario_def)
qed

lemma main_aborts:
  assumes "checkAllLines rt = (ev1, Inr result)" "hasDelay result"
    "sendEmail rt result = (ev3, Inl e)"
  shows "main rt = (main_banner rt @ ev1 @ concat (map main_report (lines result)) @
                     [Console_log [Str log_delay_detected]] @ ev3, Inl e)"
  using assms by (simp add: main_def Let_def)


subsection \<open>The Resend variants catch a failing send; line names\<close>

lemma resend_failure_caught:
  "snd (main_resend run_send_fails) = Inr ()"
  "length (filter is_send (fst (main_resend run_send_fails))) = 1"
  "last (fst (main_resend run_send_fails)) =
     Console_error [Str log_error_sending, Err network_error]"
proof -
  have y: "checkYahooTransit run_send_fails key =
     Inr \<lparr>line = yahoo_lineName key, operator' = yahoo_operator key, status' = Delayed,
          message' = kw_chien, timestamp' = u16 ''2024-01-15T09:20:00.000Z''\<rparr>" for key
    by (simp add: run_send_fails_def checkYahooTransit_def checkYahooTransit_try_def
        scenario_defs Let_def test_delay_words)
       (simp add: delay_words_def kw_defs)
  have r: "main_results run_send_fails =
     Inr [\<lparr>line = line_hibiya, operator' = operator_metro, status' = Delayed,
           message' = kw_chien, timestamp' = u16 ''2024-01-15T09:20:00.000Z''\<rparr>,
          \<lparr>line = line_keiyo, operator' = operator_jr, status' = Delayed,
           message' = kw_chien, timestamp' = u16 ''2024-01-15T09:20:00.000Z''\<rparr>]"
    by (simp add: main_results_def y yahoo_lineName_def yahoo_operator_def)
  have e: "\<not> falsy (process_env run_send_fails ''RESEND_API_KEY'')"
    "\<not> falsy (process_env run_send_fails ''TO_EMAIL'')"
    unfolding run_send_fails_def by (rule env_complete_values)+
  obtain ev where ev: "sendEmail_resend run_send_fails
     [\<lparr>line = line_hibiya, operator' = operator_metro, status' = Delayed,
           message' = kw_chien, timestamp' = u16 ''2024-01-15T09:20:00.000Z''\<rparr>,
          \<lparr>line = line_keiyo, operator' = operator_jr, status' = Delayed,
           message' = kw_chien, timestamp' = u16 ''2024-01-15T09:20:00.000Z''\<rparr>] = (ev, Inr ())"
    using sendEmail_resend_resolves [of run_send_fails]
    by (metis prod.collapse)
  show "snd (main_resend run_send_fails) = Inr ()"
    by (simp add: main_resend_def r Let_def hasDelays_def ev)
  show "length (filter is_send (fst (main_resend run_send_fails))) = 1"
    by (simp add: main_resend_sends [OF r] sendEmail_resend_sends e hasDelays_def)
  show "last (fst (main_resend run_send_fails)) =
     Console_error [Str log_error_sending, Err network_error]"
    using e
    by (simp add: main_resend_def r Let_def hasDelays_def sendEmail_resend_def
        resend_post_logs_failure [OF send_fails_facts(4)])
qed

lemma checkers_names:
  "checkKeiyoLine rt = Inr keiyo \<Longrightarrow> lineName keiyo = line_keiyo"
  "checkHibiyaLine rt = Inr hibiya \<Longrightarrow> lineName hibiya = line_hibiya"
proof -
  show "checkKeiyoLine rt = Inr keiyo \<Longrightarrow> lineName keiyo = line_keiyo"
  proof (cases "checkKeiyoLine_try rt")
    case (Inl e)
    assume "checkKeiyoLine rt = Inr keiyo"
    then show ?thesis using Inl by (auto simp: checkKeiyoLine_def)
  next
    case (Inr r)
    assume "checkKeiyoLine rt = Inr keiyo"
    then have "r = keiyo" using Inr by (simp add: checkKeiyoLine_def)
    then show ?thesis using Inr
      by (auto simp: checkKeiyoLine_try_def Let_def split: sum.splits if_splits)
  qed
  show "checkHibiyaLine rt = Inr hibiya \<Longrightarrow> lineName hibiya = line_hibiya"
  proof (cases "checkHibiyaLine_try rt")
    case (Inl e)
    assume "checkHibiyaLine rt = Inr hibiya"
    then show ?thesis using Inl by (auto simp: checkHibiyaLine_def)
  next
    case (Inr r)
    assume "checkHibiyaLine rt = Inr hibiya"
    then have "r = hibiya" using Inr by (simp add: checkHibiyaLine_def)
    then show ?thesis using Inr
      by (auto simp: checkHibiyaLine_try_def Let_def split: sum.splits if_splits)
  qed
qed

lemma checkYahooTransit_line:
  "checkYahooTransit rt key = Inr d \<Longrightarrow> line d = yahoo_lineName key"
proof (cases "checkYahooTransit_try rt key")
  case (Inl e)
  assume "checkYahooTransit rt key = Inr d"
  then show ?thesis using Inl by (auto simp: checkYahooTransit_def)
next
  case (Inr r)
  assume "checkYahooTransit rt key = Inr d"
  then have "r = d" using Inr by (simp add: checkYahooTransit_def)
  then show ?thesis using Inr
    by (auto simp: checkYahooTransit_try_def Let_def split: sum.splits if_splits)
qed

lemma checkYahooTransit_worker_line:
  "checkYahooTransit_worker rt key = Inr d \<Longrightarrow> line d = yahoo_lineName key"
proof (cases "checkYahooTransit_worker_try rt key")
  case (Inl e)
  assume "checkYahooTransit_worker rt key = Inr d"
  then show ?thesis using Inl by (auto simp: checkYahooTransit_worker_def)
next
  case (Inr r)
  assume "checkYahooTransit_worker rt key = Inr d"
  then have "r = d" using Inr by (simp add: checkYahooTransit_worker_def)
  then show ?thesis using Inr
    by (auto simp: checkYahooTransit_worker_try_def Let_def split: sum.splits if_splits)
qed

lemma resend_subject_pair:
  assumes "status' h \<noteq> Suspended" "status' k \<noteq> Suspended"
    "line h = line_hibiya" "line k = line_keiyo"
  shows "resend_subject [h, k] =
           resend_subject_prefix @
           js_join comma_space
             (map line (filter (\<lambda>d. status' d = Delayed \<or> status' d = Suspended) [h, k])) \<and>
         resend_subject [h, k] =
           resend_subject_prefix @
           js_join comma_space
             ((if disrupted (status' h) then [line_hibiya] else []) @
              (if disrupted (status' k) then [line_keiyo] else []))"
  using assms by (simp add: resend_subject_def disrupted_def)


subsection \<open>The length of a message\<close>

lemma js_trim_id:
  assumes "s \<noteq> []" "\<not> is_space (hd s)" "\<not> is_space (last s)"
  shows "js_trim s = s"
proof -
  have a: "dropWhile is_space s = s" using assms(1,2) by (cases s) simp_all
  have "rev s \<noteq> []" "\<not> is_space (hd (rev s))" using assms(1,3) by (simp_all add: hd_rev)
  then have "dropWhile is_space (rev s) = rev s" by (cases "rev s") simp_all
  then show ?thesis by (simp add: js_trim_def a)
qed

lemma js_includes_append: "js_includes (k @ r) k"
  by (simp add: js_includes_sublist)

lemma long_notice_facts:
  "length long_notice = 1000" "js_trim long_notice = long_notice"
  "js_includes long_notice kw_chien" "long_notice \<noteq> []"
proof -
  show "length long_notice = 1000" by (simp add: long_notice_def kw_chien_def)
  show "js_includes long_notice kw_chien" unfolding long_notice_def by (rule js_includes_append)
  show n: "long_notice \<noteq> []" by (simp add: long_notice_def kw_chien_def)
  have "hd long_notice = 0x9045" by (simp add: long_notice_def kw_chien_def)
  moreover have "last long_notice = 0x30FC" by (simp add: long_notice_def)
  ultimately show "js_trim long_notice = long_notice"
    using n by (intro js_trim_id) (simp_all add: is_space_def)
qed

lemma long_notice_page:
  "page_ok run_long_notice url_jreast_keiyo page_headers
     (u16 ''<div class=info>'' @ long_notice @ u16 ''</div>'')"
  "statusText run_long_notice html = long_notice"
  "dollar_first_text (cheerio_load run_long_notice html) ''.info, .delay-info, .status'' =
     long_notice"
  "newDate run_long_notice = 0"
  by (simp_all add: run_long_notice_def page_ok_def scenario_def page_200_def response_ok_def
      info_div_load_def dollar_text_def dollar_first_text_def)

lemma keyword_lengths:
  "k \<in> set keiyo_delayKeywords \<Longrightarrow> length k \<le> 6"
  "k \<in> set hibiya_delayKeywords \<Longrightarrow> length k \<le> 6"
  by (auto simp: keiyo_delayKeywords_def hibiya_delayKeywords_def kw_defs)

lemma find_in_list: "find P ks = Some k \<Longrightarrow> k \<in> set ks"
  by (induction ks) (auto split: if_splits)

lemma checkJRKeiyo_message:
  "snd (checkJRKeiyo rt) = Inr d \<and> status' d \<noteq> Unknown \<longrightarrow> length (message' d) \<le> 200"
proof (intro impI, elim conjE)
  assume a: "snd (checkJRKeiyo rt) = Inr d" and b: "status' d \<noteq> Unknown"
  show "length (message' d) \<le> 200"
  proof (cases "checkJRKeiyo_try rt")
    case (Inl e)
    then show ?thesis using a b by (auto simp: checkJRKeiyo_def)
  next
    case (Inr r)
    then have "r = d" using a by (simp add: checkJRKeiyo_def)
    then show ?thesis using Inr
      by (auto simp: checkJRKeiyo_try_def Let_def length_fixed_messages
          split: sum.splits if_splits option.splits)
  qed
qed

lemma checkYahooTransit_message:
  "checkYahooTransit rt key = Inr d \<and> status' d \<noteq> Unknown \<longrightarrow> length (message' d) \<le> 300"
proof (intro impI, elim conjE)
  assume a: "checkYahooTransit rt key = Inr d" and b: "status' d \<noteq> Unknown"
  show "length (message' d) \<le> 300"
  proof (cases "checkYahooTransit_try rt key")
    case (Inl e)
    then show ?thesis using a b by (auto simp: checkYahooTransit_def)
  next
    case (Inr r)
    then have "r = d" using a by (simp add: checkYahooTransit_def)
    then show ?thesis using Inr
      by (auto simp: checkYahooTransit_try_def Let_def length_fixed_messages
          split: sum.splits if_splits)
  qed
qed

lemma checkYahooTransit_worker_message:
  "checkYahooTransit_worker rt key = Inr d \<and> status' d \<noteq> Unknown
   \<longrightarrow> length (message' d) \<le> 300"
proof (intro impI, elim conjE)
  assume a: "checkYahooTransit_worker rt key = Inr d" and b: "status' d \<noteq> Unknown"
  show "length (message' d) \<le> 300"
  proof (cases "checkYahooTransit_worker_try rt key")
    case (Inl e)
    then show ?thesis using a b by (auto simp: checkYahooTransit_worker_def)
  next
    case (Inr r)
    then have "r = d" using a by (simp add: checkYahooTransit_worker_def)
    then show ?thesis using Inr
      by (auto simp: checkYahooTransit_worker_try_def Let_def length_fixed_messages
          split: sum.splits if_splits option.splits)
  qed
qed

lemma checkHibiyaLine_message:
  "page_ok rt url_metro_hibiya page_headers html \<longrightarrow>
     (\<exists>ls. checkHibiyaLine rt = Inr ls \<and> length (message ls) \<le> 18)"
proof
  assume p: "page_ok rt url_metro_hibiya page_headers html"
  show "\<exists>ls. checkHibiyaLine rt = Inr ls \<and> length (message ls) \<le> 18"
  proof (cases "find (js_includes (statusText rt html)) hibiya_delayKeywords")
    case (Some k)
    have "length k \<le> 6" using find_in_list [OF Some] keyword_lengths(2) by blast
    then show ?thesis
      using checkHibiyaLine_disruption [OF p Some] by (simp add: length_fixed_messages)
  next
    case None
    show ?thesis
    proof (cases "find (js_includes (statusText rt html)) hibiya_normalKeywords")
      case (Some k)
      then show ?thesis
        using checkHibiyaLine_normal [OF p None Some] by (simp add: length_fixed_messages)
    next
      case n: None
      then show ?thesis
        using checkHibiyaLine_default [OF p None n] by (simp add: length_fixed_messages)
    qed
  qed
qed

lemma checkKeiyoLine_message:
  "page_ok rt url_jreast_keiyo page_headers html \<longrightarrow>
     (\<exists>ls. checkKeiyoLine rt = Inr ls \<and>
        (if disrupted (status ls) \<and>
            js_trim (dollar_first_text (cheerio_load rt html) ''.info, .delay-info, .status'')
              \<noteq> []
         then message ls =
                js_trim (dollar_first_text (cheerio_load rt html)
                           ''.info, .delay-info, .status'')
         else length (message ls) \<le> 23))"
proof
  assume p: "page_ok rt url_jreast_keiyo page_headers html"
  show "\<exists>ls. checkKeiyoLine rt = Inr ls \<and>
        (if disrupted (status ls) \<and>
            js_trim (dollar_first_text (cheerio_load rt html) ''.info, .delay-info, .status'')
              \<noteq> []
         then message ls =
                js_trim (dollar_first_text (cheerio_load rt html)
                           ''.info, .delay-info, .status'')
         else length (message ls) \<le> 23)"
  proof (cases "find (js_includes (statusText rt html)) keiyo_delayKeywords")
    case (Some k)
    have "length k \<le> 6" using find_in_list [OF Some] keyword_lengths(1) by blast
    then show ?thesis
      using checkKeiyoLine_disruption [OF p Some]
      by (simp add: length_fixed_messages disrupted_keyword_status js_or_def)
  next
    case None
    show ?thesis
    proof (cases "find (js_includes (statusText rt html)) keiyo_normalKeywords")
      case (Some k)
      then show ?thesis
        using checkKeiyoLine_normal [OF p None Some]
        by (simp add: length_fixed_messages disrupted_def)
    next
      case n: None
      then show ?thesis
        using checkKeiyoLine_default [OF p None n]
        by (simp add: length_fixed_messages disrupted_def)
    qed
  qed
qed

lemma delay_sentence_facts:
  "page_ok (run_pages page_delay_sentence) url headers page_delay_sentence"
  "snd (checkJRKeiyo (run_pages page_delay_sentence)) =
     Inr \<lparr>line = line_keiyo, operator' = operator_jr, status' = Delayed,
          message' = kw_chien, timestamp' = u16 ''2024-01-15T09:20:00.000Z''\<rparr>"
  "checkYahooTransit (run_pages page_delay_sentence) Keiyo =
     Inr \<lparr>line = line_keiyo, operator' = operator_jr, status' = Delayed,
          message' = page_delay_sentence, timestamp' = u16 ''2024-01-15T09:20:00.000Z''\<rparr>"
  "checkYahooTransit_worker (run_pages page_delay_sentence) Keiyo =
     Inr \<lparr>line = line_keiyo, operator' = operator_jr, status' = Delayed,
          message' = page_delay_sentence, timestamp' = u16 ''2024-01-15T09:20:00.000Z''\<rparr>"
proof -
  show "page_ok (run_pages page_delay_sentence) url headers page_delay_sentence"
    by (rule run_pages_ok)
  show "snd (checkJRKeiyo (run_pages page_delay_sentence)) =
     Inr \<lparr>line = line_keiyo, operator' = operator_jr, status' = Delayed,
          message' = kw_chien, timestamp' = u16 ''2024-01-15T09:20:00.000Z''\<rparr>"
    by (simp add: run_pages_def checkJRKeiyo_def checkJRKeiyo_try_def scenario_defs Let_def
        test_delay_words test_jr_isNormal)
       (simp add: delay_words_def page_delay_sentence_def kw_defs ch_kuten_def
        delayMatch_group_def rx_sentence_end_def rx_group1_def is_dot_def)
  show "checkYahooTransit (run_pages page_delay_sentence) Keiyo =
     Inr \<lparr>line = line_keiyo, operator' = operator_jr, status' = Delayed,
          message' = page_delay_sentence, timestamp' = u16 ''2024-01-15T09:20:00.000Z''\<rparr>"
    by (simp add: run_pages_def checkYahooTransit_def checkYahooTransit_try_def scenario_defs
        Let_def test_delay_words yahooUrls_def yahoo_lineName_def yahoo_operator_def)
       (simp add: delay_words_def page_delay_sentence_def kw_defs ch_kuten_def)
  have t: "textContent_of page_delay_sentence = page_delay_sentence"
    by (simp add: textContent_of_def rx_tag_def rx_spaces_def is_space_def
        page_delay_sentence_def kw_defs ch_kuten_def)
  show "checkYahooTransit_worker (run_pages page_delay_sentence) Keiyo =
     Inr \<lparr>line = line_keiyo, operator' = operator_jr, status' = Delayed,
          message' = page_delay_sentence, timestamp' = u16 ''2024-01-15T09:20:00.000Z''\<rparr>"
    by (simp add: run_pages_def checkYahooTransit_worker_def checkYahooTransit_worker_try_def
        scenario_defs t Let_def test_delay_words yahooUrls_def yahoo_lineName_def
        yahoo_operator_def)
       (simp add: delay_words_def page_delay_sentence_def kw_defs ch_kuten_def
        delayMatch_group_def rx_gap_or_end_def rx_group1_def is_dot_def is_space_def)
qed

lemma delay_sentence_index:
  "checkKeiyoLine (run_pages page_delay_sentence) =
     Inr \<lparr>lineName = line_keiyo, operator = operator_jr, status = Delayed,
          message = kw_chien @ msg_has_occurred, timestamp = 0\<rparr>"
  "checkHibiyaLine (run_pages page_delay_sentence) =
     Inr \<lparr>lineName = line_hibiya, operator = operator_metro, status = Delayed,
          message = kw_chien @ msg_has_occurred, timestamp = 0\<rparr>"
  by (simp_all add: run_pages_def index_defs scenario_defs page_delay_sentence_def
      ch_kuten_def kw_defs url_defs u16_def Let_def js_trim_def)


section \<open>The claims\<close>

text \<open>
  Claim C1. In every run the flag that decides on a notification (\<^verbatim>\<open>hasDelay\<close> of
  index.ts, \<^verbatim>\<open>hasDelays\<close> of check-delay.ts and of the worker) is true exactly when one
  of the statuses produced by the line checkers is \<^verbatim>\<open>delayed\<close> or \<^verbatim>\<open>suspended\<close>; when
  every status is \<^verbatim>\<open>normal\<close> or \<^verbatim>\<open>unknown\<close> the flag is false. The Resend variants
  test for \<^verbatim>\<open>delayed\<close> only, and their checkers never produce \<^verbatim>\<open>suspended\<close>.
\<close>

theorem requiresNotification_iff_disruption:
  "(\<exists>result. snd (checkAllLines rt) = Inr result \<and>
       (hasDelay result \<longleftrightarrow>
          (\<exists>l. l \<in> set (lines result) \<and> (status l = Delayed \<or> status l = Suspended))) \<and>
       (list_all (\<lambda>l. status l = Normal \<or> status l = Unknown) (lines result)
          \<longrightarrow> \<not> hasDelay result)) \<and>
   (\<exists>results. main_results rt = Inr results \<and>
       (hasDelays results \<longleftrightarrow>
          (\<exists>r. r \<in> set results \<and> (status' r = Delayed \<or> status' r = Suspended))) \<and>
       (list_all (\<lambda>r. status' r = Normal \<or> status' r = Unknown) results
          \<longrightarrow> \<not> hasDelays results)) \<and>
   (\<exists>results. worker_results rt = Inr results \<and>
       (hasDelays results \<longleftrightarrow>
          (\<exists>r. r \<in> set results \<and> (status' r = Delayed \<or> status' r = Suspended))) \<and>
       (list_all (\<lambda>r. status' r = Normal \<or> status' r = Unknown) results
          \<longrightarrow> \<not> hasDelays results))"
proof (intro conjI)
  obtain k h where "snd (checkAllLines rt) =
       Inr \<lparr>hasDelay = list_ex (\<lambda>line. status line = Delayed \<or> status line = Suspended) [k, h],
            lines = [k, h]\<rparr>"
    using checkAllLines_resolves by blast
  then show "\<exists>result. snd (checkAllLines rt) = Inr result \<and>
       (hasDelay result \<longleftrightarrow>
          (\<exists>l. l \<in> set (lines result) \<and> (status l = Delayed \<or> status l = Suspended))) \<and>
       (list_all (\<lambda>l. status l = Normal \<or> status l = Unknown) (lines result)
          \<longrightarrow> \<not> hasDelay result)"
    by auto
next
  obtain h k where "main_results rt = Inr [h, k]" "status' h \<noteq> Suspended" "status' k \<noteq> Suspended"
    using main_results_resolves by blast
  then show "\<exists>results. main_results rt = Inr results \<and>
       (hasDelays results \<longleftrightarrow>
          (\<exists>r. r \<in> set results \<and> (status' r = Delayed \<or> status' r = Suspended))) \<and>
       (list_all (\<lambda>r. status' r = Normal \<or> status' r = Unknown) results
          \<longrightarrow> \<not> hasDelays results)"
    by (auto simp: hasDelays_def)
next
  obtain h k where "worker_results rt = Inr [h, k]" "status' h \<noteq> Suspended" "status' k \<noteq> Suspended"
    using worker_results_resolves by blast
  then show "\<exists>results. worker_results rt = Inr results \<and>
       (hasDelays results \<longleftrightarrow>
          (\<exists>r. r \<in> set results \<and> (status' r = Delayed \<or> status' r = Suspended))) \<and>
       (list_all (\<lambda>r. status' r = Normal \<or> status' r = Unknown) results
          \<longrightarrow> \<not> hasDelays results)"
    by (auto simp: hasDelays_def)
qed

theorem requiresNotification_iff_disruption_witness:
  "(\<exists>result. snd (checkAllLines run_keiyo_unreachable) = Inr result \<and>
      list_all (\<lambda>l. status l = Normal \<or> status l = Unknown) (lines result) \<and>
      \<not> hasDelay result) \<and>
   (\<exists>results. main_results run_keiyo_unreachable = Inr results \<and>
      list_all (\<lambda>r. status' r = Normal \<or> status' r = Unknown) results \<and>
      \<not> hasDelays results) \<and>
   (\<exists>results. worker_results run_keiyo_unreachable = Inr results \<and>
      list_all (\<lambda>r. status' r = Normal \<or> status' r = Unknown) results \<and>
      \<not> hasDelays results)"
  using requiresNotification_iff_disruption [of run_keiyo_unreachable]
  by (simp add: checkAllLines_def main_results_def worker_results_def keiyo_unreachable_lines
      keiyo_unreachable_yahoo keiyo_unreachable_worker hasDelays_def)

text \<open>
  Claim C4. When the page is retrieved and its text contains no disruption keyword and no
  normal keyword of the checker (the empty text is such a text), \<^verbatim>\<open>checkKeiyoLine\<close> of
  index.ts returns the status \<^verbatim>\<open>unknown\<close> with the message "status unknown (the page
  structure may have changed)", and \<^verbatim>\<open>checkHibiyaLine\<close> returns \<^verbatim>\<open>normal\<close> with the
  message "no service information (no delay of 15 minutes or more)". Both are functions of
  the page, so the result is deterministic.
\<close>

theorem no_keyword_default:
  "(page_ok rt url_jreast_keiyo page_headers html \<and>
    \<not> list_ex (js_includes (dollar_text (cheerio_load rt html) ''body'')) keiyo_delayKeywords \<and>
    \<not> list_ex (js_includes (dollar_text (cheerio_load rt html) ''body'')) keiyo_normalKeywords
    \<longrightarrow> checkKeiyoLine rt =
          Inr \<lparr>lineName = line_keiyo, operator = operator_jr, status = Unknown,
               message = msg_status_unknown, timestamp = newDate rt\<rparr>) \<and>
   (page_ok rt url_metro_hibiya page_headers html' \<and>
    \<not> list_ex (js_includes (dollar_text (cheerio_load rt html') ''body'')) hibiya_delayKeywords \<and>
    \<not> list_ex (js_includes (dollar_text (cheerio_load rt html') ''body'')) hibiya_normalKeywords
    \<longrightarrow> checkHibiyaLine rt =
          Inr \<lparr>lineName = line_hibiya, operator = operator_metro, status = Normal,
               message = msg_no_info, timestamp = newDate rt\<rparr>)"
  using checkKeiyoLine_default [of rt html] checkHibiyaLine_default [of rt html']
  by (simp add: find_none_list_ex)

theorem no_keyword_default_witness:
  "page_ok (run_pages []) url_jreast_keiyo page_headers [] \<and>
   \<not> list_ex (js_includes (dollar_text (cheerio_load (run_pages []) []) ''body'')) keiyo_delayKeywords \<and>
   \<not> list_ex (js_includes (dollar_text (cheerio_load (run_pages []) []) ''body'')) keiyo_normalKeywords \<and>
   checkKeiyoLine (run_pages []) =
     Inr \<lparr>lineName = line_keiyo, operator = operator_jr, status = Unknown,
          message = msg_status_unknown, timestamp = 0\<rparr> \<and>
   page_ok (run_pages []) url_metro_hibiya page_headers [] \<and>
   \<not> list_ex (js_includes (dollar_text (cheerio_load (run_pages []) []) ''body'')) hibiya_delayKeywords \<and>
   \<not> list_ex (js_includes (dollar_text (cheerio_load (run_pages []) []) ''body'')) hibiya_normalKeywords \<and>
   checkHibiyaLine (run_pages []) =
     Inr \<lparr>lineName = line_hibiya, operator = operator_metro, status = Normal,
          message = msg_no_info, timestamp = 0\<rparr>"
proof -
  have k: "\<not> list_ex (js_includes (dollar_text (cheerio_load (run_pages []) []) ''body'')) keiyo_delayKeywords"
    "\<not> list_ex (js_includes (dollar_text (cheerio_load (run_pages []) []) ''body'')) keiyo_normalKeywords"
    by (simp_all add: run_pages_body keiyo_delayKeywords_def keiyo_normalKeywords_def kw_defs)
  have h: "\<not> list_ex (js_includes (dollar_text (cheerio_load (run_pages []) []) ''body'')) hibiya_delayKeywords"
    "\<not> list_ex (js_includes (dollar_text (cheerio_load (run_pages []) []) ''body'')) hibiya_normalKeywords"
    by (simp_all add: run_pages_body hibiya_delayKeywords_def hibiya_normalKeywords_def kw_defs)
  have t: "newDate (run_pages []) = 0" by (simp add: run_pages_def scenario_def)
  show ?thesis
    using no_keyword_default [of "run_pages []" "[]" "[]"] k h t run_pages_ok(1) [of "[]"]
    by simp
qed


text \<open>
  Claim C5. When the retrieval of a line fails in index.ts (the fetch rejects, the response
  has no success status, or reading the body rejects) the checker of that line resolves,
  with the status \<^verbatim>\<open>unknown\<close> and the message "check failed: " followed by the
  description of the failure; the promise is never rejected, the result of the other
  line's checker is what it is without the failure, and \<^verbatim>\<open>checkAllLines\<close> returns both.
\<close>

theorem retrieval_failure_isolated:
  assumes "retrieval_failed outcome"
  shows
   "checkKeiyoLine (rt\<lparr>fetch := (fetch rt)(url_jreast_keiyo := \<lambda>headers. outcome)\<rparr>) =
      Inr \<lparr>lineName = line_keiyo, operator = operator_jr, status = Unknown,
           message = msg_check_failed @ failure_description outcome,
           timestamp = newDate rt\<rparr> \<and>
    checkHibiyaLine (rt\<lparr>fetch := (fetch rt)(url_jreast_keiyo := \<lambda>headers. outcome)\<rparr>) =
      checkHibiyaLine rt \<and>
    checkHibiyaLine (rt\<lparr>fetch := (fetch rt)(url_metro_hibiya := \<lambda>headers. outcome)\<rparr>) =
      Inr \<lparr>lineName = line_hibiya, operator = operator_metro, status = Unknown,
           message = msg_check_failed @ failure_description outcome,
           timestamp = newDate rt\<rparr> \<and>
    checkKeiyoLine (rt\<lparr>fetch := (fetch rt)(url_metro_hibiya := \<lambda>headers. outcome)\<rparr>) =
      checkKeiyoLine rt \<and>
    (\<exists>hibiya. checkHibiyaLine rt = Inr hibiya \<and>
       snd (checkAllLines (rt\<lparr>fetch := (fetch rt)(url_jreast_keiyo := \<lambda>headers. outcome)\<rparr>)) =
         Inr \<lparr>hasDelay = disrupted (status hibiya),
              lines = [\<lparr>lineName = line_keiyo, operator = operator_jr, status = Unknown,
                        message = msg_check_failed @ failure_description outcome,
                        timestamp = newDate rt\<rparr>, hibiya]\<rparr>)"
proof -
  let ?rk = "rt\<lparr>fetch := (fetch rt)(url_jreast_keiyo := \<lambda>headers. outcome)\<rparr>"
  let ?rh = "rt\<lparr>fetch := (fetch rt)(url_metro_hibiya := \<lambda>headers. outcome)\<rparr>"
  have fk: "fetch ?rk url_jreast_keiyo page_headers = outcome" by simp
  have fh: "fetch ?rh url_metro_hibiya page_headers = outcome" by simp
  have k: "checkKeiyoLine ?rk =
      Inr \<lparr>lineName = line_keiyo, operator = operator_jr, status = Unknown,
           message = msg_check_failed @ failure_description outcome,
           timestamp = newDate rt\<rparr>"
    using checkKeiyoLine_failure [of ?rk] assms fk by simp
  have h: "checkHibiyaLine ?rh =
      Inr \<lparr>lineName = line_hibiya, operator = operator_metro, status = Unknown,
           message = msg_check_failed @ failure_description outcome,
           timestamp = newDate rt\<rparr>"
    using checkHibiyaLine_failure [of ?rh] assms fh by simp
  obtain hib where hib: "checkHibiyaLine rt = Inr hib"
    using checkHibiyaLine_resolves by blast
  have all: "snd (checkAllLines ?rk) =
         Inr \<lparr>hasDelay = disrupted (status hib),
              lines = [\<lparr>lineName = line_keiyo, operator = operator_jr, status = Unknown,
                        message = msg_check_failed @ failure_description outcome,
                        timestamp = newDate rt\<rparr>, hib]\<rparr>"
    by (simp add: checkAllLines_def k checkHibiyaLine_other_fetch hib disrupted_def)
  show ?thesis
    using k h hib all checkHibiyaLine_other_fetch checkKeiyoLine_other_fetch by blast
qed

theorem retrieval_failure_isolated_witness:
  "retrieval_failed http_503 \<and>
   checkKeiyoLine ((run_pages kw_heijo_unten)
       \<lparr>fetch := (fetch (run_pages kw_heijo_unten))(url_jreast_keiyo := \<lambda>headers. http_503)\<rparr>) =
     Inr \<lparr>lineName = line_keiyo, operator = operator_jr, status = Unknown,
          message = msg_check_failed @ u16 ''HTTP 503'', timestamp = 0\<rparr> \<and>
   checkHibiyaLine ((run_pages kw_heijo_unten)
       \<lparr>fetch := (fetch (run_pages kw_heijo_unten))(url_jreast_keiyo := \<lambda>headers. http_503)\<rparr>) =
     Inr \<lparr>lineName = line_hibiya, operator = operator_metro, status = Normal,
          message = kw_heijo_unten, timestamp = 0\<rparr>"
proof -
  have f: "retrieval_failed http_503"
    by (simp add: retrieval_failed_def http_503_def response_ok_def)
  have d: "failure_description http_503 = u16 ''HTTP 503''"
    by (simp add: failure_description_def http_503_def response_ok_def msg_http_def u16_def)
  have t: "newDate (run_pages kw_heijo_unten) = 0" by (simp add: run_pages_def scenario_def)
  have h: "checkHibiyaLine (run_pages kw_heijo_unten) =
     Inr \<lparr>lineName = line_hibiya, operator = operator_metro, status = Normal,
          message = kw_heijo_unten, timestamp = 0\<rparr>"
    by (simp add: run_pages_def index_defs scenario_defs kw_defs url_defs u16_def Let_def)
  show ?thesis
    using retrieval_failure_isolated [OF f, of "run_pages kw_heijo_unten"] f d t h by simp
qed


text \<open>
  Claim C2, as amended. In index.ts a disruption keyword has precedence: when the page is
  retrieved and its text contains a disruption keyword of the checker, the status is that of
  the first listed keyword that the text contains, \<^verbatim>\<open>delayed\<close> or \<^verbatim>\<open>suspended\<close> and
  never \<^verbatim>\<open>normal\<close>, whatever normal keyword the text contains as well. In check-delay.ts
  and in the worker a normal keyword has precedence: \<^verbatim>\<open>checkJRKeiyo\<close> and both
  \<^verbatim>\<open>checkYahooTransit\<close> return \<^verbatim>\<open>delayed\<close> when the text contains a disruption keyword
  and no normal keyword, and \<^verbatim>\<open>normal\<close> otherwise (\<^verbatim>\<open>hasDelay && !isNormal\<close>).
\<close>

theorem disruption_keyword_precedence:
  "(page_ok rt url_jreast_keiyo page_headers html \<and> keyword \<in> set keiyo_delayKeywords \<and>
    js_includes (statusText rt html) keyword
    \<longrightarrow> (\<exists>first ls.
           find (js_includes (statusText rt html)) keiyo_delayKeywords = Some first \<and>
           checkKeiyoLine rt = Inr ls \<and> status ls = keyword_status first \<and>
           disrupted (status ls) \<and> status ls \<noteq> Normal)) \<and>
   (page_ok rt url_metro_hibiya page_headers html \<and> keyword \<in> set hibiya_delayKeywords \<and>
    js_includes (statusText rt html) keyword
    \<longrightarrow> (\<exists>first ls.
           find (js_includes (statusText rt html)) hibiya_delayKeywords = Some first \<and>
           checkHibiyaLine rt = Inr ls \<and> status ls = keyword_status first \<and>
           disrupted (status ls) \<and> status ls \<noteq> Normal)) \<and>
   (page_received rt url_jreast_keiyo [(''User-Agent'', user_agent)] html
    \<longrightarrow> (\<exists>d. snd (checkJRKeiyo rt) = Inr d \<and>
           status' d =
             (if list_ex (js_includes (statusText rt html)) delay_words \<and>
                 \<not> list_ex (js_includes (statusText rt html))
                       [kw_heijo_unten, kw_heijo_doori_kanji, kw_tsujo_doori]
              then Delayed else Normal))) \<and>
   (page_received rt (yahooUrls key) [(''User-Agent'', user_agent)] html
    \<longrightarrow> (\<exists>d. checkYahooTransit rt key = Inr d \<and>
           status' d =
             (if list_ex (js_includes (statusArea rt html)) delay_words \<and>
                 \<not> (js_includes (statusArea rt html) kw_heijo_unten \<or>
                    js_includes (statusArea rt html) kw_no_info)
              then Delayed else Normal))) \<and>
   (page_received rt (yahooUrls key) [(''User-Agent'', user_agent)] html
    \<longrightarrow> (\<exists>d. checkYahooTransit_worker rt key = Inr d \<and>
           status' d =
             (if list_ex (js_includes (textContent_of html)) delay_words \<and>
                 \<not> (js_includes (textContent_of html) kw_heijo_unten \<or>
                    js_includes (textContent_of html) kw_no_info)
              then Delayed else Normal)))"
  by (intro conjI checkKeiyoLine_keyword checkHibiyaLine_keyword impI checkJRKeiyo_page
      checkYahooTransit_page_status checkYahooTransit_worker_page)


text \<open>
  The claim as stated fails for \<^verbatim>\<open>checkJRKeiyo\<close>: the page "normal operation, delay
  certificate" contains the disruption keyword "delay", and the status is \<^verbatim>\<open>normal\<close>.
\<close>

theorem normal_keyword_overrides_counterexample:
  "kw_chien \<in> set delay_words \<and>
   page_received (run_pages page_normal_with_certificate) url_jreast_keiyo
     [(''User-Agent'', user_agent)] page_normal_with_certificate \<and>
   js_includes (statusText (run_pages page_normal_with_certificate) page_normal_with_certificate)
     kw_chien \<and>
   snd (checkJRKeiyo (run_pages page_normal_with_certificate)) =
     Inr \<lparr>line = line_keiyo, operator' = operator_jr, status' = Normal,
          message' = kw_heijo_unten, timestamp' = u16 ''2024-01-15T09:20:00.000Z''\<rparr>"
  by (simp add: certificate_page_facts run_pages_ok run_pages_body certificate_page_jr)


theorem disruption_keyword_precedence_witness:
  "page_ok (run_pages page_normal_with_certificate) url_jreast_keiyo page_headers
     page_normal_with_certificate \<and>
   page_ok (run_pages page_normal_with_certificate) url_metro_hibiya page_headers
     page_normal_with_certificate \<and>
   page_received (run_pages page_normal_with_certificate) url_jreast_keiyo
     [(''User-Agent'', user_agent)] page_normal_with_certificate \<and>
   page_received (run_pages page_normal_with_certificate) (yahooUrls Keiyo)
     [(''User-Agent'', user_agent)] page_normal_with_certificate \<and>
   kw_chien \<in> set keiyo_delayKeywords \<and> kw_chien \<in> set hibiya_delayKeywords \<and>
   js_includes (statusText (run_pages page_normal_with_certificate) page_normal_with_certificate)
     kw_chien \<and>
   js_includes (statusText (run_pages page_normal_with_certificate) page_normal_with_certificate)
     kw_heijo_unten \<and>
   checkKeiyoLine (run_pages page_normal_with_certificate) =
     Inr \<lparr>lineName = line_keiyo, operator = operator_jr, status = Delayed,
          message = kw_chien @ msg_has_occurred, timestamp = 0\<rparr> \<and>
   checkHibiyaLine (run_pages page_normal_with_certificate) =
     Inr \<lparr>lineName = line_hibiya, operator = operator_metro, status = Delayed,
          message = kw_chien @ msg_has_occurred, timestamp = 0\<rparr> \<and>
   snd (checkJRKeiyo (run_pages page_normal_with_certificate)) =
     Inr \<lparr>line = line_keiyo, operator' = operator_jr, status' = Normal,
          message' = kw_heijo_unten, timestamp' = u16 ''2024-01-15T09:20:00.000Z''\<rparr> \<and>
   checkYahooTransit (run_pages page_normal_with_certificate) Keiyo =
     Inr \<lparr>line = line_keiyo, operator' = operator_jr, status' = Normal,
          message' = kw_heijo_unten, timestamp' = u16 ''2024-01-15T09:20:00.000Z''\<rparr> \<and>
   checkYahooTransit_worker (run_pages page_normal_with_certificate) Keiyo =
     Inr \<lparr>line = line_keiyo, operator' = operator_jr, status' = Normal,
          message' = kw_heijo_unten, timestamp' = u16 ''2024-01-15T09:20:00.000Z''\<rparr>"
  using disruption_keyword_precedence [of "run_pages page_normal_with_certificate"
      page_normal_with_certificate kw_chien Keiyo]
  by (simp add: certificate_page_facts run_pages_ok run_pages_body certificate_page_jr
      certificate_page_index certificate_page_yahoo certificate_page_worker
      yahoo_lineName_def yahoo_operator_def)


text \<open>
  Claim C3, as amended. In index.ts, when the page is retrieved and its text contains
  unten-miawa or unkyu and contains neither chien nor okure, the status is
  \<^verbatim>\<open>suspended\<close>; when the text contains chien or okure the status is \<^verbatim>\<open>delayed\<close>, since
  these two come first in the keyword list and the first listed keyword found decides. The
  checkers of check-delay.ts and of the worker never return \<^verbatim>\<open>suspended\<close>.
\<close>

theorem suspension_keyword_status:
  "(page_ok rt url_jreast_keiyo page_headers html \<and>
    (js_includes (statusText rt html) kw_unten_miawa \<or>
     js_includes (statusText rt html) kw_unkyu) \<and>
    \<not> js_includes (statusText rt html) kw_chien \<and>
    \<not> js_includes (statusText rt html) kw_okure
    \<longrightarrow> (\<exists>ls. checkKeiyoLine rt = Inr ls \<and> status ls = Suspended)) \<and>
   (page_ok rt url_metro_hibiya page_headers html \<and>
    (js_includes (statusText rt html) kw_unten_miawa \<or>
     js_includes (statusText rt html) kw_unkyu) \<and>
    \<not> js_includes (statusText rt html) kw_chien \<and>
    \<not> js_includes (statusText rt html) kw_okure
    \<longrightarrow> (\<exists>ls. checkHibiyaLine rt = Inr ls \<and> status ls = Suspended)) \<and>
   (page_ok rt url_jreast_keiyo page_headers html \<and>
    (js_includes (statusText rt html) kw_chien \<or> js_includes (statusText rt html) kw_okure)
    \<longrightarrow> (\<exists>ls. checkKeiyoLine rt = Inr ls \<and> status ls = Delayed)) \<and>
   (page_ok rt url_metro_hibiya page_headers html \<and>
    (js_includes (statusText rt html) kw_chien \<or> js_includes (statusText rt html) kw_okure)
    \<longrightarrow> (\<exists>ls. checkHibiyaLine rt = Inr ls \<and> status ls = Delayed)) \<and>
   (\<exists>d. snd (checkMetroHibiya rt) = Inr d \<and> status' d \<noteq> Suspended) \<and>
   (\<exists>d. snd (checkJRKeiyo rt) = Inr d \<and> status' d \<noteq> Suspended) \<and>
   (\<exists>d. checkYahooTransit rt key = Inr d \<and> status' d \<noteq> Suspended) \<and>
   (\<exists>d. checkYahooTransit_worker rt key = Inr d \<and> status' d \<noteq> Suspended)"
  by (intro conjI checkKeiyoLine_held checkHibiyaLine_held checkKeiyoLine_late
      checkHibiyaLine_late checkMetroHibiya_status checkJRKeiyo_status checkYahooTransit_status
      checkYahooTransit_worker_status)


text \<open>
  The claim as stated fails twice: \<^verbatim>\<open>checkKeiyoLine\<close> of index.ts returns \<^verbatim>\<open>delayed\<close>
  for the page "service held, delay", which contains unten-miawase, and
  \<^verbatim>\<open>checkYahooTransit\<close> of the worker returns \<^verbatim>\<open>delayed\<close> for the page "service held".
\<close>

theorem suspension_keyword_counterexample:
  "js_includes (statusText (run_pages page_held_and_late) page_held_and_late)
     word_unten_miawase \<and>
   page_ok (run_pages page_held_and_late) url_jreast_keiyo page_headers page_held_and_late \<and>
   checkKeiyoLine (run_pages page_held_and_late) =
     Inr \<lparr>lineName = line_keiyo, operator = operator_jr, status = Delayed,
          message = kw_chien @ msg_has_occurred, timestamp = 0\<rparr> \<and>
   page_received (run_pages word_unten_miawase) (yahooUrls Hibiya)
     [(''User-Agent'', user_agent)] word_unten_miawase \<and>
   checkYahooTransit_worker (run_pages word_unten_miawase) Hibiya =
     Inr \<lparr>line = line_hibiya, operator' = operator_metro, status' = Delayed,
          message' = word_unten_miawase, timestamp' = u16 ''2024-01-15T09:20:00.000Z''\<rparr>"
  by (simp add: held_page_facts run_pages_ok run_pages_body held_page_index held_page_worker
      yahoo_lineName_def yahoo_operator_def)


theorem suspension_keyword_status_witness:
  "page_ok (run_pages word_unten_miawase) url_jreast_keiyo page_headers word_unten_miawase \<and>
   page_ok (run_pages word_unten_miawase) url_metro_hibiya page_headers word_unten_miawase \<and>
   js_includes (statusText (run_pages word_unten_miawase) word_unten_miawase) kw_unten_miawa \<and>
   \<not> js_includes (statusText (run_pages word_unten_miawase) word_unten_miawase) kw_chien \<and>
   \<not> js_includes (statusText (run_pages word_unten_miawase) word_unten_miawase) kw_okure \<and>
   checkKeiyoLine (run_pages word_unten_miawase) =
     Inr \<lparr>lineName = line_keiyo, operator = operator_jr, status = Suspended,
          message = kw_unten_miawa @ msg_has_occurred, timestamp = 0\<rparr> \<and>
   checkHibiyaLine (run_pages word_unten_miawase) =
     Inr \<lparr>lineName = line_hibiya, operator = operator_metro, status = Suspended,
          message = kw_unten_miawa @ msg_has_occurred, timestamp = 0\<rparr> \<and>
   page_ok (run_pages page_held_and_late) url_jreast_keiyo page_headers page_held_and_late \<and>
   page_ok (run_pages page_held_and_late) url_metro_hibiya page_headers page_held_and_late \<and>
   js_includes (statusText (run_pages page_held_and_late) page_held_and_late) kw_chien \<and>
   checkHibiyaLine (run_pages page_held_and_late) =
     Inr \<lparr>lineName = line_hibiya, operator = operator_metro, status = Delayed,
          message = kw_chien @ msg_has_occurred, timestamp = 0\<rparr>"
  using suspension_keyword_status [of "run_pages word_unten_miawase" word_unten_miawase Hibiya]
    suspension_keyword_status [of "run_pages page_held_and_late" page_held_and_late Hibiya]
  by (simp add: held_page_facts run_pages_ok run_pages_body held_page_index)


text \<open>
  Claim C6, as amended. In every run the send collaborator is invoked exactly once, with
  the complete payload (sender, recipient, subject and bodies built from the result), when
  the notification flag is true and the email settings are complete; it is invoked zero
  times when the flag is false, and zero times when the settings are incomplete. This holds
  for \<^verbatim>\<open>main\<close> of index.ts (\<^verbatim>\<open>sendMail\<close>), for \<^verbatim>\<open>main\<close> of check-delay.ts and for
  \<^verbatim>\<open>checkTrainDelays\<close> of the worker (the POST to the Resend API).
\<close>

theorem dispatch_once_when_required:
  "(\<exists>result. snd (checkAllLines rt) = Inr result \<and>
      filter is_send (fst (main rt)) =
        (if hasDelay result \<and> email_complete rt
         then [SendMail
                 \<lparr>host = smtpHost (CONFIG_email rt), port = smtpPort (CONFIG_email rt),
                  secure = (smtpPort (CONFIG_email rt) = Some 465),
                  auth_user = smtpUser (CONFIG_email rt),
                  auth_pass = smtpPass (CONFIG_email rt)\<rparr>
                 \<lparr>mail_from = email_from (CONFIG_email rt),
                  mail_to = email_to (CONFIG_email rt),
                  mail_subject = sendEmail_subject result,
                  mail_text = sendEmail_textBody result,
                  mail_html = sendEmail_htmlBody rt result\<rparr>]
         else [])) \<and>
   (\<exists>results. main_results rt = Inr results \<and>
      filter is_send (fst (main_resend rt)) =
        (if hasDelays results \<and> \<not> falsy (process_env rt ''RESEND_API_KEY'') \<and>
            \<not> falsy (process_env rt ''TO_EMAIL'')
         then [Post \<lparr>req_url = url_resend, req_method = method_post,
                     req_headers =
                       [(''Authorization'',
                         bearer @ env_or (process_env rt ''RESEND_API_KEY'') []),
                        (''Content-Type'', content_type_json)],
                     body_from = env_or (process_env rt ''FROM_EMAIL'') default_from_email,
                     body_to = env_or (process_env rt ''TO_EMAIL'') [],
                     body_subject = resend_subject results,
                     body_html = resend_html (toLocaleString rt (newDate rt)) results\<rparr>]
         else [])) \<and>
   (\<exists>results. worker_results rt = Inr results \<and>
      filter is_send (fst (checkTrainDelays rt env)) =
        (if hasDelays results \<and> \<not> falsy (RESEND_API_KEY env) \<and> \<not> falsy (TO_EMAIL env)
         then [Post \<lparr>req_url = url_resend, req_method = method_post,
                     req_headers =
                       [(''Authorization'', bearer @ env_or (RESEND_API_KEY env) []),
                        (''Content-Type'', content_type_json)],
                     body_from = env_or (FROM_EMAIL env) default_from_email,
                     body_to = env_or (TO_EMAIL env) [],
                     body_subject = resend_subject results,
                     body_html = worker_html (toLocaleString rt (newDate rt)) results\<rparr>]
         else []))"
proof (intro conjI)
  obtain result where r: "snd (checkAllLines rt) = Inr result"
    using checkAllLines_resolves by blast
  show "\<exists>result. snd (checkAllLines rt) = Inr result \<and>
      filter is_send (fst (main rt)) =
        (if hasDelay result \<and> email_complete rt
         then [SendMail
                 \<lparr>host = smtpHost (CONFIG_email rt), port = smtpPort (CONFIG_email rt),
                  secure = (smtpPort (CONFIG_email rt) = Some 465),
                  auth_user = smtpUser (CONFIG_email rt),
                  auth_pass = smtpPass (CONFIG_email rt)\<rparr>
                 \<lparr>mail_from = email_from (CONFIG_email rt),
                  mail_to = email_to (CONFIG_email rt),
                  mail_subject = sendEmail_subject result,
                  mail_text = sendEmail_textBody result,
                  mail_html = sendEmail_htmlBody rt result\<rparr>]
         else [])"
  proof (intro exI conjI, rule r)
    show "filter is_send (fst (main rt)) =
        (if hasDelay result \<and> email_complete rt
         then [SendMail
                 \<lparr>host = smtpHost (CONFIG_email rt), port = smtpPort (CONFIG_email rt),
                  secure = (smtpPort (CONFIG_email rt) = Some 465),
                  auth_user = smtpUser (CONFIG_email rt),
                  auth_pass = smtpPass (CONFIG_email rt)\<rparr>
                 \<lparr>mail_from = email_from (CONFIG_email rt),
                  mail_to = email_to (CONFIG_email rt),
                  mail_subject = sendEmail_subject result,
                  mail_text = sendEmail_textBody result,
                  mail_html = sendEmail_htmlBody rt result\<rparr>]
         else [])"
    proof (cases "email_complete rt")
      case True
      then show ?thesis by (simp add: main_sends [OF r] sendEmail_complete)
    next
      case False
      then show ?thesis by (simp add: main_sends [OF r] sendEmail_incomplete)
    qed
  qed
next
  obtain h k where r: "main_results rt = Inr [h, k]"
    using main_results_resolves by blast
  show "\<exists>results. main_results rt = Inr results \<and>
      filter is_send (fst (main_resend rt)) =
        (if hasDelays results \<and> \<not> falsy (process_env rt ''RESEND_API_KEY'') \<and>
            \<not> falsy (process_env rt ''TO_EMAIL'')
         then [Post \<lparr>req_url = url_resend, req_method = method_post,
                     req_headers =
                       [(''Authorization'',
                         bearer @ env_or (process_env rt ''RESEND_API_KEY'') []),
                        (''Content-Type'', content_type_json)],
                     body_from = env_or (process_env rt ''FROM_EMAIL'') default_from_email,
                     body_to = env_or (process_env rt ''TO_EMAIL'') [],
                     body_subject = resend_subject results,
                     body_html = resend_html (toLocaleString rt (newDate rt)) results\<rparr>]
         else [])"
    by (intro exI conjI, rule r) (simp add: main_resend_sends [OF r] sendEmail_resend_sends)
next
  obtain h k where r: "worker_results rt = Inr [h, k]"
    using worker_results_resolves by blast
  show "\<exists>results. worker_results rt = Inr results \<and>
      filter is_send (fst (checkTrainDelays rt env)) =
        (if hasDelays results \<and> \<not> falsy (RESEND_API_KEY env) \<and> \<not> falsy (TO_EMAIL env)
         then [Post \<lparr>req_url = url_resend, req_method = method_post,
                     req_headers =
                       [(''Authorization'', bearer @ env_or (RESEND_API_KEY env) []),
                        (''Content-Type'', content_type_json)],
                     body_from = env_or (FROM_EMAIL env) default_from_email,
                     body_to = env_or (TO_EMAIL env) [],
                     body_subject = resend_subject results,
                     body_html = worker_html (toLocaleString rt (newDate rt)) results\<rparr>]
         else [])"
    by (intro exI conjI, rule r) (simp add: checkTrainDelays_sends [OF r] sendEmail_worker_sends)
qed


theorem dispatch_once_when_required_witness:
  "hasDelays [\<lparr>line = line_hibiya, operator' = operator_metro, status' = Delayed,
           message' = kw_okure, timestamp' = u16 ''2024-01-15T09:20:00.000Z''\<rparr>,
          \<lparr>line = line_keiyo, operator' = operator_jr, status' = Delayed,
           message' = kw_okure, timestamp' = u16 ''2024-01-15T09:20:00.000Z''\<rparr>] \<and>
   email_complete run_late_complete \<and>
   length (filter is_send (fst (main run_late_complete))) = 1 \<and>
   length (filter is_send (fst (main_resend run_late_complete))) = 1 \<and>
   length (filter is_send (fst (checkTrainDelays run_late_complete worker_env_complete))) = 1 \<and>
   filter is_send (fst (main run_keiyo_unreachable)) = [] \<and>
   filter is_send (fst (main_resend run_keiyo_unreachable)) = [] \<and>
   filter is_send (fst (checkTrainDelays run_keiyo_unreachable worker_env_complete)) = []"
  using dispatch_once_when_required [of run_late_complete worker_env_complete]
    dispatch_once_when_required [of run_keiyo_unreachable worker_env_complete]
  by (simp add: late_complete_facts keiyo_unreachable_results env_complete_values hasDelays_def)


text \<open>
  The claim as stated fails when the email settings are incomplete: with no environment
  variable set and both pages reading "running late", the flag is true and nothing is sent.
\<close>

theorem dispatch_unconfigured_counterexample:
  "snd (checkAllLines (run_pages kw_okure)) =
     Inr \<lparr>hasDelay = True,
          lines = [\<lparr>lineName = line_keiyo, operator = operator_jr, status = Delayed,
                    message = kw_okure @ msg_has_occurred, timestamp = 0\<rparr>,
                   \<lparr>lineName = line_hibiya, operator = operator_metro, status = Delayed,
                    message = kw_okure @ msg_has_occurred, timestamp = 0\<rparr>]\<rparr> \<and>
   filter is_send (fst (main (run_pages kw_okure))) = []"
  unfolding run_pages_def
  by (simp add: late_page_results main_sends [OF late_page_results(1)] sendEmail_incomplete
      env_unset_values)

text \<open>
  Claim C7. A failure of the send collaborator is to be caught and logged inside
  \<^verbatim>\<open>sendEmail\<close>, without a retry and without ending the run. \<^verbatim>\<open>sendEmail\<close> of
  check-delay.ts and of the worker do so (\<open>sendEmail_resend_resolves\<close>,
  \<open>resend_post_logs_failure\<close>, \<open>resend_post_sends\<close>). \<^verbatim>\<open>sendEmail\<close> of index.ts awaits
  \<^verbatim>\<open>transporter.sendMail\<close> outside any \<^verbatim>\<open>try\<close>: in the run below the one send is
  rejected, \<^verbatim>\<open>sendEmail\<close> and \<^verbatim>\<open>main\<close> are rejected with the same error, \<^verbatim>\<open>main\<close>
  logs no error and stops before its closing lines, and the error is printed only by the
  \<^verbatim>\<open>catch\<close> on the last line of the file.
\<close>

theorem send_failure_rejects_main:
  "snd (sendEmail run_send_fails
     \<lparr>hasDelay = True,
      lines = [\<lparr>lineName = line_keiyo, operator = operator_jr, status = Delayed,
                message = kw_chien @ msg_has_occurred, timestamp = 0\<rparr>,
               \<lparr>lineName = line_hibiya, operator = operator_metro, status = Delayed,
                message = kw_chien @ msg_has_occurred, timestamp = 0\<rparr>]\<rparr>) = Inl smtp_error \<and>
   snd (main run_send_fails) = Inl smtp_error \<and>
   length (filter is_send (fst (main run_send_fails))) = 1 \<and>
   last (fst (main run_send_fails)) \<noteq> Console_log [Str log_bar] \<and>
   \<not> list_ex (\<lambda>ev. \<exists>args. ev = Console_error args) (fst (main run_send_fails)) \<and>
   last (program run_send_fails) = Console_error [Err smtp_error]"
proof -
  let ?result = "\<lparr>hasDelay = True,
      lines = [\<lparr>lineName = line_keiyo, operator = operator_jr, status = Delayed,
                message = kw_chien @ msg_has_occurred, timestamp = 0\<rparr>,
               \<lparr>lineName = line_hibiya, operator = operator_metro, status = Delayed,
                message = kw_chien @ msg_has_occurred, timestamp = 0\<rparr>]\<rparr>"
  have s: "snd (sendEmail run_send_fails ?result) = Inl smtp_error"
    by (simp add: sendEmail_result send_fails_facts)
  have m: "snd (main run_send_fails) = Inl smtp_error"
    by (simp add: main_rejects [OF send_fails_facts(1)] s)
  have n: "length (filter is_send (fst (main run_send_fails))) = 1"
    by (simp add: main_sends [OF send_fails_facts(1)] sendEmail_complete send_fails_facts)
  obtain ev3 where e3: "sendEmail run_send_fails ?result = (ev3, Inl smtp_error)"
    using s by (cases "sendEmail run_send_fails ?result") simp
  have ev3: "ev3 = [SendMail
       \<lparr>host = smtpHost (CONFIG_email run_send_fails), port = smtpPort (CONFIG_email run_send_fails),
        secure = (smtpPort (CONFIG_email run_send_fails) = Some 465),
        auth_user = smtpUser (CONFIG_email run_send_fails), auth_pass = smtpPass (CONFIG_email run_send_fails)\<rparr>
       \<lparr>mail_from = email_from (CONFIG_email run_send_fails), mail_to = email_to (CONFIG_email run_send_fails),
        mail_subject = sendEmail_subject ?result, mail_text = sendEmail_textBody ?result,
        mail_html = sendEmail_htmlBody run_send_fails ?result\<rparr>]"
    using e3 send_fails_facts(2,3)
    by (simp add: sendEmail_def email_complete_def Let_def)
  obtain r where c: "checkAllLines run_send_fails = ([Console_log [Str log_checking]], Inr r)"
    using checkAllLines_events by blast
  with send_fails_facts(1) have r: "r = ?result" by simp
  have mm: "main run_send_fails =
     (main_banner run_send_fails @ [Console_log [Str log_checking]] @
      concat (map main_report (lines ?result)) @ [Console_log [Str log_delay_detected]] @ ev3,
      Inl smtp_error)"
    using main_aborts [OF c [unfolded r] _ e3] by simp
  have l: "last (fst (main run_send_fails)) \<noteq> Console_log [Str log_bar]"
    by (simp add: mm ev3)
  have ne: "\<not> list_ex (\<lambda>ev. \<exists>args. ev = Console_error args) (fst (main run_send_fails))"
    by (simp add: mm ev3 main_banner_def main_report_def Let_def)
  have p: "last (program run_send_fails) = Console_error [Err smtp_error]"
    by (simp add: program_def mm)
  show ?thesis using s m n l ne p by simp
qed


text \<open>
  Claim C10. When the email settings are incomplete (in index.ts the recipient, the SMTP
  user or the SMTP password is missing or empty; in check-delay.ts and the worker the API
  key or the recipient is), \<^verbatim>\<open>sendEmail\<close> logs one line and returns without invoking the
  send collaborator, whatever the result it is given, and a whole run sends nothing, also
  when the run has found a delay.
\<close>

theorem incomplete_settings_send_nothing:
  "(falsy (process_env rt ''NOTIFY_EMAIL'') \<or> falsy (process_env rt ''SMTP_USER'') \<or>
    falsy (process_env rt ''SMTP_PASS'')
    \<longrightarrow> sendEmail rt result = ([Console_log [Str log_config_incomplete]], Inr ()) \<and>
        filter is_send (fst (main rt)) = []) \<and>
   (falsy (process_env rt ''RESEND_API_KEY'') \<or> falsy (process_env rt ''TO_EMAIL'')
    \<longrightarrow> sendEmail_resend rt delays = ([Console_error [Str log_missing_key]], Inr ()) \<and>
        filter is_send (fst (main_resend rt)) = []) \<and>
   (falsy (RESEND_API_KEY env) \<or> falsy (TO_EMAIL env)
    \<longrightarrow> sendEmail_worker rt env delays = ([Console_error [Str log_missing_key]], Inr ()) \<and>
        filter is_send (fst (checkTrainDelays rt env)) = [])"
proof (intro conjI impI)
  assume a: "falsy (process_env rt ''NOTIFY_EMAIL'') \<or> falsy (process_env rt ''SMTP_USER'') \<or>
    falsy (process_env rt ''SMTP_PASS'')"
  then have n: "\<not> email_complete rt" by (auto simp: email_complete_env)
  show "sendEmail rt result = ([Console_log [Str log_config_incomplete]], Inr ())"
    by (rule sendEmail_incomplete [OF n])
  show "filter is_send (fst (main rt)) = []" by (rule main_unconfigured [OF n])
next
  assume a: "falsy (process_env rt ''RESEND_API_KEY'') \<or> falsy (process_env rt ''TO_EMAIL'')"
  show "sendEmail_resend rt delays = ([Console_error [Str log_missing_key]], Inr ())"
    by (rule sendEmail_resend_unconfigured [OF a])
  show "filter is_send (fst (main_resend rt)) = []" by (rule main_resend_unconfigured [OF a])
next
  assume a: "falsy (RESEND_API_KEY env) \<or> falsy (TO_EMAIL env)"
  show "sendEmail_worker rt env delays = ([Console_error [Str log_missing_key]], Inr ())"
    by (rule sendEmail_worker_unconfigured [OF a])
  show "filter is_send (fst (checkTrainDelays rt env)) = []"
    by (rule checkTrainDelays_unconfigured [OF a])
qed


theorem incomplete_settings_send_nothing_witness:
  "falsy (process_env run_late_no_credentials ''SMTP_USER'') \<and>
   falsy (process_env run_late_no_credentials ''RESEND_API_KEY'') \<and>
   falsy (RESEND_API_KEY worker_env_no_key) \<and>
   snd (checkAllLines run_late_no_credentials) =
     Inr \<lparr>hasDelay = True,
          lines = [\<lparr>lineName = line_keiyo, operator = operator_jr, status = Delayed,
                    message = kw_okure @ msg_has_occurred, timestamp = 0\<rparr>,
                   \<lparr>lineName = line_hibiya, operator = operator_metro, status = Delayed,
                    message = kw_okure @ msg_has_occurred, timestamp = 0\<rparr>]\<rparr> \<and>
   sendEmail run_late_no_credentials
     \<lparr>hasDelay = True,
      lines = [\<lparr>lineName = line_keiyo, operator = operator_jr, status = Delayed,
                message = kw_okure @ msg_has_occurred, timestamp = 0\<rparr>,
               \<lparr>lineName = line_hibiya, operator = operator_metro, status = Delayed,
                message = kw_okure @ msg_has_occurred, timestamp = 0\<rparr>]\<rparr> =
     ([Console_log [Str log_config_incomplete]], Inr ()) \<and>
   filter is_send (fst (main run_late_no_credentials)) = [] \<and>
   filter is_send (fst (main_resend run_late_no_credentials)) = [] \<and>
   filter is_send (fst (checkTrainDelays run_late_no_credentials worker_env_no_key)) = []"
  using incomplete_settings_send_nothing [of run_late_no_credentials
      "\<lparr>hasDelay = True,
      lines = [\<lparr>lineName = line_keiyo, operator = operator_jr, status = Delayed,
                message = kw_okure @ msg_has_occurred, timestamp = 0\<rparr>,
               \<lparr>lineName = line_hibiya, operator = operator_metro, status = Delayed,
                message = kw_okure @ msg_has_occurred, timestamp = 0\<rparr>]\<rparr>" "[]" worker_env_no_key]
  by (simp add: no_credentials_facts no_credentials_env)


text \<open>
  Claim C8. The subject of the notification is the fixed prefix followed by the names of
  exactly the lines whose status is \<^verbatim>\<open>delayed\<close> or \<^verbatim>\<open>suspended\<close>, joined by a comma and
  a space, in the order of the result: for every \<^verbatim>\<open>CheckResult\<close> given to \<^verbatim>\<open>sendEmail\<close>
  of index.ts, and for the results of every run of index.ts (Keiyo line, then Hibiya line),
  of check-delay.ts and of the worker (Hibiya line, then Keiyo line). The Resend variants
  select the lines whose status is \<^verbatim>\<open>delayed\<close>; their checkers produce no
  \<^verbatim>\<open>suspended\<close>, so on the results of a run this is the same selection.
\<close>

theorem subject_lists_disrupted_lines:
  "sendEmail_subject result =
     subject_prefix @
     js_join comma_space
       (map lineName (filter (\<lambda>l. status l = Delayed \<or> status l = Suspended) (lines result))) \<and>
   (\<exists>keiyo hibiya.
      snd (checkAllLines rt) =
        Inr \<lparr>hasDelay = (disrupted (status keiyo) \<or> disrupted (status hibiya)),
             lines = [keiyo, hibiya]\<rparr> \<and>
      sendEmail_subject
        \<lparr>hasDelay = (disrupted (status keiyo) \<or> disrupted (status hibiya)),
         lines = [keiyo, hibiya]\<rparr> =
        subject_prefix @
        js_join comma_space
          ((if disrupted (status keiyo) then [line_keiyo] else []) @
           (if disrupted (status hibiya) then [line_hibiya] else []))) \<and>
   (\<exists>hibiya keiyo.
      main_results rt = Inr [hibiya, keiyo] \<and>
      resend_subject [hibiya, keiyo] =
        resend_subject_prefix @
        js_join comma_space
          (map line (filter (\<lambda>d. status' d = Delayed \<or> status' d = Suspended)
                       [hibiya, keiyo])) \<and>
      resend_subject [hibiya, keiyo] =
        resend_subject_prefix @
        js_join comma_space
          ((if disrupted (status' hibiya) then [line_hibiya] else []) @
           (if disrupted (status' keiyo) then [line_keiyo] else []))) \<and>
   (\<exists>hibiya keiyo.
      worker_results rt = Inr [hibiya, keiyo] \<and>
      resend_subject [hibiya, keiyo] =
        resend_subject_prefix @
        js_join comma_space
          (map line (filter (\<lambda>d. status' d = Delayed \<or> status' d = Suspended)
                       [hibiya, keiyo])) \<and>
      resend_subject [hibiya, keiyo] =
        resend_subject_prefix @
        js_join comma_space
          ((if disrupted (status' hibiya) then [line_hibiya] else []) @
           (if disrupted (status' keiyo) then [line_keiyo] else [])))"
proof (intro conjI)
  show "sendEmail_subject result =
     subject_prefix @
     js_join comma_space
       (map lineName (filter (\<lambda>l. status l = Delayed \<or> status l = Suspended) (lines result)))"
    by (simp add: sendEmail_subject_def)
next
  obtain k h where kh: "checkKeiyoLine rt = Inr k" "checkHibiyaLine rt = Inr h"
    "snd (checkAllLines rt) =
       Inr \<lparr>hasDelay = list_ex (\<lambda>line. status line = Delayed \<or> status line = Suspended) [k, h],
            lines = [k, h]\<rparr>"
    using checkAllLines_resolves by blast
  have n: "lineName k = line_keiyo" "lineName h = line_hibiya"
    using checkers_names kh(1,2) by blast+
  show "\<exists>keiyo hibiya.
      snd (checkAllLines rt) =
        Inr \<lparr>hasDelay = (disrupted (status keiyo) \<or> disrupted (status hibiya)),
             lines = [keiyo, hibiya]\<rparr> \<and>
      sendEmail_subject
        \<lparr>hasDelay = (disrupted (status keiyo) \<or> disrupted (status hibiya)),
         lines = [keiyo, hibiya]\<rparr> =
        subject_prefix @
        js_join comma_space
          ((if disrupted (status keiyo) then [line_keiyo] else []) @
           (if disrupted (status hibiya) then [line_hibiya] else []))"
    by (rule exI [of _ k], rule exI [of _ h])
       (simp add: kh(3) n sendEmail_subject_def disrupted_def)
next
  obtain h k where hk: "main_results rt = Inr [h, k]"
    "checkYahooTransit rt Hibiya = Inr h" "checkYahooTransit rt Keiyo = Inr k"
    "status' h \<noteq> Suspended" "status' k \<noteq> Suspended"
    using main_results_resolves by blast
  have n: "line h = line_hibiya" "line k = line_keiyo"
    using checkYahooTransit_line [OF hk(2)] checkYahooTransit_line [OF hk(3)]
    by (simp_all add: yahoo_lineName_def)
  show "\<exists>hibiya keiyo.
      main_results rt = Inr [hibiya, keiyo] \<and>
      resend_subject [hibiya, keiyo] =
        resend_subject_prefix @
        js_join comma_space
          (map line (filter (\<lambda>d. status' d = Delayed \<or> status' d = Suspended)
                       [hibiya, keiyo])) \<and>
      resend_subject [hibiya, keiyo] =
        resend_subject_prefix @
        js_join comma_space
          ((if disrupted (status' hibiya) then [line_hibiya] else []) @
           (if disrupted (status' keiyo) then [line_keiyo] else []))"
    using hk(1) resend_subject_pair [OF hk(4,5) n] by blast
next
  obtain h k where hk: "worker_results rt = Inr [h, k]"
    "checkYahooTransit_worker rt Hibiya = Inr h" "checkYahooTransit_worker rt Keiyo = Inr k"
    "status' h \<noteq> Suspended" "status' k \<noteq> Suspended"
    using worker_results_resolves by blast
  have n: "line h = line_hibiya" "line k = line_keiyo"
    using checkYahooTransit_worker_line [OF hk(2)] checkYahooTransit_worker_line [OF hk(3)]
    by (simp_all add: yahoo_lineName_def)
  show "\<exists>hibiya keiyo.
      worker_results rt = Inr [hibiya, keiyo] \<and>
      resend_subject [hibiya, keiyo] =
        resend_subject_prefix @
        js_join comma_space
          (map line (filter (\<lambda>d. status' d = Delayed \<or> status' d = Suspended)
                       [hibiya, keiyo])) \<and>
      resend_subject [hibiya, keiyo] =
        resend_subject_prefix @
        js_join comma_space
          ((if disrupted (status' hibiya) then [line_hibiya] else []) @
           (if disrupted (status' keiyo) then [line_keiyo] else []))"
    using hk(1) resend_subject_pair [OF hk(4,5) n] by blast
qed


theorem subject_lists_disrupted_lines_witness:
  "sendEmail_subject
     \<lparr>hasDelay = True,
      lines = [\<lparr>lineName = line_keiyo, operator = operator_jr, status = Suspended,
                message = kw_unkyu @ msg_has_occurred, timestamp = 0\<rparr>,
               \<lparr>lineName = line_hibiya, operator = operator_metro, status = Delayed,
                message = kw_okure @ msg_has_occurred, timestamp = 0\<rparr>]\<rparr> =
     subject_prefix @ line_keiyo @ comma_space @ line_hibiya \<and>
   sendEmail_subject
     \<lparr>hasDelay = True,
      lines = [\<lparr>lineName = line_keiyo, operator = operator_jr, status = Unknown,
                message = msg_status_unknown, timestamp = 0\<rparr>,
               \<lparr>lineName = line_hibiya, operator = operator_metro, status = Delayed,
                message = kw_okure @ msg_has_occurred, timestamp = 0\<rparr>]\<rparr> =
     subject_prefix @ line_hibiya"
  using subject_lists_disrupted_lines [of
      "\<lparr>hasDelay = True,
      lines = [\<lparr>lineName = line_keiyo, operator = operator_jr, status = Suspended,
                message = kw_unkyu @ msg_has_occurred, timestamp = 0\<rparr>,
               \<lparr>lineName = line_hibiya, operator = operator_metro, status = Delayed,
                message = kw_okure @ msg_has_occurred, timestamp = 0\<rparr>]\<rparr>" run_late_complete]
    subject_lists_disrupted_lines [of
      "\<lparr>hasDelay = True,
      lines = [\<lparr>lineName = line_keiyo, operator = operator_jr, status = Unknown,
                message = msg_status_unknown, timestamp = 0\<rparr>,
               \<lparr>lineName = line_hibiya, operator = operator_metro, status = Delayed,
                message = kw_okure @ msg_has_occurred, timestamp = 0\<rparr>]\<rparr>" run_late_complete]
  by simp

text \<open>
  Claim C9, as amended. A status that is not the \<^verbatim>\<open>unknown\<close> of a failed check carries a
  message of at most 200 code units from \<^verbatim>\<open>checkJRKeiyo\<close> and of at most 300 from
  \<^verbatim>\<open>checkYahooTransit\<close> of check-delay.ts and of the worker. In index.ts the message of
  \<^verbatim>\<open>checkHibiyaLine\<close> for a retrieved page has at most 18 code units; the message of
  \<^verbatim>\<open>checkKeiyoLine\<close> for a disruption is the trimmed text of the first element of class
  \<^verbatim>\<open>info\<close>, \<^verbatim>\<open>delay-info\<close> or \<^verbatim>\<open>status\<close> when that text is not blank, whatever its
  length, and has at most 23 code units otherwise.
\<close>

theorem message_length_bounds:
  "(snd (checkJRKeiyo rt) = Inr d \<and> status' d \<noteq> Unknown \<longrightarrow> length (message' d) \<le> 200) \<and>
   (checkYahooTransit rt key = Inr d \<and> status' d \<noteq> Unknown \<longrightarrow> length (message' d) \<le> 300) \<and>
   (checkYahooTransit_worker rt key = Inr d \<and> status' d \<noteq> Unknown
    \<longrightarrow> length (message' d) \<le> 300) \<and>
   (page_ok rt url_metro_hibiya page_headers html \<longrightarrow>
     (\<exists>ls. checkHibiyaLine rt = Inr ls \<and> length (message ls) \<le> 18)) \<and>
   (page_ok rt url_jreast_keiyo page_headers html \<longrightarrow>
     (\<exists>ls. checkKeiyoLine rt = Inr ls \<and>
        (if disrupted (status ls) \<and>
            js_trim (dollar_first_text (cheerio_load rt html) ''.info, .delay-info, .status'')
              \<noteq> []
         then message ls =
                js_trim (dollar_first_text (cheerio_load rt html)
                           ''.info, .delay-info, .status'')
         else length (message ls) \<le> 23)))"
  by (intro conjI checkJRKeiyo_message checkYahooTransit_message
      checkYahooTransit_worker_message checkHibiyaLine_message checkKeiyoLine_message)


text \<open>
  The claim as stated fails for \<^verbatim>\<open>checkKeiyoLine\<close> of index.ts: for a page whose
  \<^verbatim>\<open>info\<close> element holds a notice of 1000 code units the message is the whole notice.
\<close>

theorem long_message_counterexample:
  "checkKeiyoLine run_long_notice =
     Inr \<lparr>lineName = line_keiyo, operator = operator_jr, status = Delayed,
          message = long_notice, timestamp = 0\<rparr> \<and>
   length long_notice = 1000"
proof -
  have f: "find (js_includes (statusText run_long_notice
                    (u16 ''<div class=info>'' @ long_notice @ u16 ''</div>'')))
             keiyo_delayKeywords = Some kw_chien"
    by (simp add: long_notice_page long_notice_facts keiyo_delayKeywords_def)
  show ?thesis
    using checkKeiyoLine_disruption [OF long_notice_page(1) f]
    by (simp add: long_notice_page long_notice_facts keyword_status_values js_or_def)
qed


theorem message_length_bounds_witness:
  "snd (checkJRKeiyo (run_pages page_delay_sentence)) =
     Inr \<lparr>line = line_keiyo, operator' = operator_jr, status' = Delayed,
          message' = kw_chien, timestamp' = u16 ''2024-01-15T09:20:00.000Z''\<rparr> \<and>
   length kw_chien \<le> 200 \<and>
   checkYahooTransit (run_pages page_delay_sentence) Keiyo =
     Inr \<lparr>line = line_keiyo, operator' = operator_jr, status' = Delayed,
          message' = page_delay_sentence, timestamp' = u16 ''2024-01-15T09:20:00.000Z''\<rparr> \<and>
   checkYahooTransit_worker (run_pages page_delay_sentence) Keiyo =
     Inr \<lparr>line = line_keiyo, operator' = operator_jr, status' = Delayed,
          message' = page_delay_sentence, timestamp' = u16 ''2024-01-15T09:20:00.000Z''\<rparr> \<and>
   length page_delay_sentence \<le> 300 \<and>
   page_ok (run_pages page_delay_sentence) url_metro_hibiya page_headers page_delay_sentence \<and>
   page_ok (run_pages page_delay_sentence) url_jreast_keiyo page_headers page_delay_sentence \<and>
   checkHibiyaLine (run_pages page_delay_sentence) =
     Inr \<lparr>lineName = line_hibiya, operator = operator_metro, status = Delayed,
          message = kw_chien @ msg_has_occurred, timestamp = 0\<rparr> \<and>
   length (kw_chien @ msg_has_occurred) \<le> 18 \<and>
   checkKeiyoLine (run_pages page_delay_sentence) =
     Inr \<lparr>lineName = line_keiyo, operator = operator_jr, status = Delayed,
          message = kw_chien @ msg_has_occurred, timestamp = 0\<rparr>"
  using
    message_length_bounds [of "run_pages page_delay_sentence"
      "\<lparr>line = line_keiyo, operator' = operator_jr, status' = Delayed,
          message' = kw_chien, timestamp' = u16 ''2024-01-15T09:20:00.000Z''\<rparr>"
      Keiyo page_delay_sentence]
    message_length_bounds [of "run_pages page_delay_sentence"
      "\<lparr>line = line_keiyo, operator' = operator_jr, status' = Delayed,
          message' = page_delay_sentence, timestamp' = u16 ''2024-01-15T09:20:00.000Z''\<rparr>"
      Keiyo page_delay_sentence]
  by (simp add: delay_sentence_facts delay_sentence_index)


end
